theory Spec2Isabelle
  imports Main
begin

section \<open>Common types (api/types)\<close>

text \<open>
  Identifiers (\<open>uuid.UUID\<close>) and the string-typed enumerations of the Go code are
  strings; \<open>time.Time\<close> is a natural number of ticks.
\<close>

type_synonym uuid = string
type_synonym RuntimeProvider = string
type_synonym SessionStatus = string
type_synonym time = nat

definition LambdaLabsProvider :: RuntimeProvider where
  "LambdaLabsProvider = ''LambdaLabs''"

definition UnweaveProvider :: RuntimeProvider where
  "UnweaveProvider = ''Unweave''"

definition StatusInitializing :: SessionStatus where
  "StatusInitializing = ''initializing''"

definition StatusActive :: SessionStatus where
  "StatusActive = ''active''"

definition StatusTerminated :: SessionStatus where
  "StatusTerminated = ''terminated''"

text \<open>
  Go's \<open>error\<close> interface. \<open>TypesError\<close> is \<open>*types.Error\<close> with its fields Code,
  Message, Suggestion, Provider and Err; \<open>Errorf msg cause\<close> is
  \<open>fmt.Errorf(msg + ": %w", cause)\<close> (or a plain \<open>fmt.Errorf(msg)\<close> when the cause is
  \<open>None\<close>); \<open>ErrNoRows\<close> is \<open>sql.ErrNoRows\<close>; \<open>Fault\<close> is any other error of a driver
  or of the transport; \<open>Panic\<close> is a run-time panic.
\<close>

datatype error =
    TypesError (Code: int) (Message: string) (Suggestion: string)
               (Provider: RuntimeProvider) (Err: "error option")
  | Errorf string "error option"
  | ErrNoRows
  | Fault string
  | Panic string

record SSHKey =
  key_Name :: string
  key_PrivateKey :: "string option"
  key_PublicKey :: "string option"
  key_CreatedAt :: "time option"

record NodeSpecs =
  VCPUs :: int
  Memory :: int
  GPUMemory :: "int option"

record NodeType =
  nt_ID :: string
  nt_Name :: "string option"
  nt_Price :: "int option"
  nt_Regions :: "string list"
  nt_Description :: "string option"
  nt_Provider :: RuntimeProvider
  nt_Specs :: NodeSpecs

record Node =
  node_ID :: string
  node_TypeID :: string
  node_Region :: string
  node_KeyPair :: SSHKey
  node_Status :: SessionStatus
  node_Provider :: RuntimeProvider

record Session =
  sess_ID :: uuid
  sess_SSHKey :: SSHKey
  sess_Status :: SessionStatus
  sess_CreatedAt :: "time option"
  sess_NodeTypeID :: string
  sess_Region :: string
  sess_Provider :: RuntimeProvider

section \<open>The provider's REST boundary (providers/lambdalabs/client)\<close>

text \<open>
  Modelled from the spec: the generated REST client and the vendor behind it are not part
  of the sources. The vendor is a key store, an instance-type catalog with the regions
  that have capacity, and the log of the requests the client has issued; every endpoint returns
  the uniform envelope, a response with its status code and at most one of the typed
  bodies \<open>JSON200\<close>, \<open>JSON400\<close>, ... (the error bodies carry \<open>Error.Message\<close>).
  What the vendor answers to one request is an input of the model, a \<open>reply\<close>:
  \<open>Ok x\<close> is the 200 answer (with the data the vendor makes up, if any),
  \<open>Fail code msg\<close> an error envelope, \<open>NoAnswer e\<close> a transport error.
\<close>

record client_SshKey =
  ck_Name :: string
  ck_PublicKey :: string

record client_InstanceTypeData =
  it_Description :: string
  it_PriceCentsPerHour :: int
  it_Vcpus :: int
  it_MemoryGib :: int
  it_RegionsWithCapacityAvailable :: "string list"

record LaunchInstanceRequest =
  lr_InstanceTypeName :: string
  lr_Name :: string
  lr_Quantity :: int
  lr_RegionName :: string
  lr_SshKeyNames :: "string list"

datatype request =
    ListSSHKeysRequest
  | AddSSHKeyRequest string "string option"
  | InstanceTypesRequest
  | LaunchRequest LaunchInstanceRequest
  | TerminateRequest "string list"

record cloud =
  cloud_keys :: "client_SshKey list"
  cloud_catalog :: "(string \<times> client_InstanceTypeData) list"
  cloud_requests :: "request list"

datatype 'a reply = Ok 'a | Fail int string | NoAnswer error

record 'a Response =
  StatusCode :: int
  JSON200 :: "'a option"
  JSON400 :: "string option"
  JSON401 :: "string option"
  JSON403 :: "string option"
  JSON404 :: "string option"
  JSON500 :: "string option"

text \<open>
  Modelled from the spec: the two shapes of the envelope, \<open>{data}\<close> with status 200 and
  \<open>{error: {message}}\<close> with another status; the client decodes the error body of the
  statuses 400, 401, 403, 404 and 500 into the field of that status.
\<close>

definition ok_response :: "'a \<Rightarrow> 'a Response" where
  "ok_response x = \<lparr>StatusCode = 200, JSON200 = Some x, JSON400 = None, JSON401 = None,
     JSON403 = None, JSON404 = None, JSON500 = None\<rparr>"

definition error_response :: "int \<Rightarrow> string \<Rightarrow> 'a Response" where
  "error_response c m = \<lparr>StatusCode = c, JSON200 = None,
     JSON400 = (if c = 400 then Some m else None),
     JSON401 = (if c = 401 then Some m else None),
     JSON403 = (if c = 403 then Some m else None),
     JSON404 = (if c = 404 then Some m else None),
     JSON500 = (if c = 500 then Some m else None)\<rparr>"

text \<open>Modelled from the spec: the request log, extended by one request.\<close>

definition sent :: "request \<Rightarrow> cloud \<Rightarrow> cloud" where
  "sent q c = c\<lparr>cloud_requests := cloud_requests c @ [q]\<rparr>"

text \<open>Modelled from the spec: the endpoint that lists the SSH keys of the key store.\<close>

definition ListSSHKeysWithResponse ::
  "unit reply \<Rightarrow> cloud \<Rightarrow> (error + client_SshKey list Response) \<times> cloud" where
  "ListSSHKeysWithResponse rp c =
     (case rp of
        NoAnswer e \<Rightarrow> (Inl e, sent ListSSHKeysRequest c)
      | Fail code m \<Rightarrow> (Inr (error_response code m), sent ListSSHKeysRequest c)
      | Ok _ \<Rightarrow> (Inr (ok_response (cloud_keys c)), sent ListSSHKeysRequest c))"

text \<open>
  Modelled from the spec: the endpoint that adds an SSH key. It stores the key under the
  requested name; when the request has no public key the vendor generates the pair, and
  the reply carries the generated public key.
\<close>

definition AddSSHKeyWithResponse ::
  "string reply \<Rightarrow> string \<Rightarrow> string option \<Rightarrow> cloud
     \<Rightarrow> (error + client_SshKey Response) \<times> cloud" where
  "AddSSHKeyWithResponse rp name pub c =
     (case rp of
        NoAnswer e \<Rightarrow> (Inl e, sent (AddSSHKeyRequest name pub) c)
      | Fail code m \<Rightarrow> (Inr (error_response code m), sent (AddSSHKeyRequest name pub) c)
      | Ok generated \<Rightarrow>
          (let k = \<lparr>ck_Name = name,
                    ck_PublicKey = (case pub of Some p \<Rightarrow> p | None \<Rightarrow> generated)\<rparr>
           in (Inr (ok_response k),
               sent (AddSSHKeyRequest name pub) (c\<lparr>cloud_keys := cloud_keys c @ [k]\<rparr>))))"

text \<open>
  Modelled from the spec: the endpoint that lists the instance types with their
  per-region capacity.
\<close>

definition InstanceTypesWithResponse ::
  "unit reply \<Rightarrow> cloud
     \<Rightarrow> (error + (string \<times> client_InstanceTypeData) list Response) \<times> cloud" where
  "InstanceTypesWithResponse rp c =
     (case rp of
        NoAnswer e \<Rightarrow> (Inl e, sent InstanceTypesRequest c)
      | Fail code m \<Rightarrow> (Inr (error_response code m), sent InstanceTypesRequest c)
      | Ok _ \<Rightarrow> (Inr (ok_response (cloud_catalog c)), sent InstanceTypesRequest c))"

text \<open>
  Modelled from the spec: the endpoint that launches instances; the 200 answer carries
  the ids of the instances launched.
\<close>

definition LaunchInstanceWithResponse ::
  "string list reply \<Rightarrow> LaunchInstanceRequest \<Rightarrow> cloud
     \<Rightarrow> (error + string list Response) \<times> cloud" where
  "LaunchInstanceWithResponse rp req c =
     (case rp of
        NoAnswer e \<Rightarrow> (Inl e, sent (LaunchRequest req) c)
      | Fail code m \<Rightarrow> (Inr (error_response code m), sent (LaunchRequest req) c)
      | Ok ids \<Rightarrow> (Inr (ok_response ids), sent (LaunchRequest req) c))"

text \<open>Modelled from the spec: the endpoint that terminates instances.\<close>

definition TerminateInstanceWithResponse ::
  "unit reply \<Rightarrow> string list \<Rightarrow> cloud \<Rightarrow> (error + unit Response) \<times> cloud" where
  "TerminateInstanceWithResponse rp ids c =
     (case rp of
        NoAnswer e \<Rightarrow> (Inl e, sent (TerminateRequest ids) c)
      | Fail code m \<Rightarrow> (Inr (error_response code m), sent (TerminateRequest ids) c)
      | Ok _ \<Rightarrow> (Inr (ok_response ()), sent (TerminateRequest ids) c))"

section \<open>The LambdaLabs adapter (providers/lambdalabs/lambdalabs.go)\<close>

definition err400 :: "string \<Rightarrow> error option \<Rightarrow> error" where
  "err400 msg err = TypesError 400 msg [] LambdaLabsProvider err"

definition err401 :: "string \<Rightarrow> error option \<Rightarrow> error" where
  "err401 msg err = TypesError 401 msg
     ''Make sure your LambdaLabs credentials are up to date'' LambdaLabsProvider err"

definition err403 :: "string \<Rightarrow> error option \<Rightarrow> error" where
  "err403 msg err = TypesError 403 msg
     ''Make sure your LambdaLabs credentials are up to date'' LambdaLabsProvider err"

definition err404 :: "string \<Rightarrow> error option \<Rightarrow> error" where
  "err404 msg err = TypesError 404 msg [] LambdaLabsProvider err"

definition err500 :: "string \<Rightarrow> error option \<Rightarrow> error" where
  "err500 msg err =
     TypesError 500 (if msg = [] then ''Unknown error'' else msg)
       ''LambdaLabs might be experiencing issues. Check the service status page at https://status.lambdalabs.com/''
       LambdaLabsProvider err"

definition err503 :: "string \<Rightarrow> error option \<Rightarrow> error" where
  "err503 msg err = TypesError 503 msg [] LambdaLabsProvider err"

definition errUnknown :: "int \<Rightarrow> error option \<Rightarrow> error" where
  "errUnknown code err = TypesError code ''Unknown error'' [] LambdaLabsProvider err"

definition GetProvider :: RuntimeProvider where
  "GetProvider = LambdaLabsProvider"

text \<open>The body of the loop of \<open>ListSSHKeys\<close>: the key of one entry of the response.\<close>

definition SSHKey_of :: "client_SshKey \<Rightarrow> SSHKey" where
  "SSHKey_of k = \<lparr>key_Name = ck_Name k, key_PrivateKey = None,
     key_PublicKey = Some (ck_PublicKey k), key_CreatedAt = None\<rparr>"

definition ListSSHKeys :: "unit reply \<Rightarrow> cloud \<Rightarrow> (error + SSHKey list) \<times> cloud" where
  "ListSSHKeys rp c =
     (case ListSSHKeysWithResponse rp c of
        (Inl err, c') \<Rightarrow> (Inl err, c')
      | (Inr res, c') \<Rightarrow>
          (case JSON200 res of
             None \<Rightarrow>
               (case JSON401 res of
                  Some m \<Rightarrow> (Inl (err401 m None), c')
                | None \<Rightarrow>
                    (case JSON403 res of
                       Some m \<Rightarrow> (Inl (err403 m None), c')
                     | None \<Rightarrow> (Inl (errUnknown (StatusCode res) None), c')))
           | Some data \<Rightarrow>
               (Inr (map SSHKey_of data), c')))"

text \<open>
  The scan of \<open>AddSSHKey\<close> over the provider's keys. \<open>None\<close> means the loop ended
  without returning. \<open>*k.PublicKey\<close> dereferences a pointer; on a key without a public
  key that is a nil dereference.
\<close>

fun AddSSHKey_scan :: "SSHKey \<Rightarrow> SSHKey list \<Rightarrow> (error + SSHKey) option" where
  "AddSSHKey_scan sshKey [] = None"
| "AddSSHKey_scan sshKey (k # ks) =
     (if key_Name sshKey = key_Name k then
        (case key_PublicKey sshKey of
           None \<Rightarrow> Some (Inr k)
         | Some p \<Rightarrow>
             (case key_PublicKey k of
                None \<Rightarrow> Some (Inl (Panic ''nil pointer dereference''))
              | Some q \<Rightarrow>
                  if p \<noteq> q then
                    Some (Inl (err400
                      ''SSH key with the same name already exists with a different public key''
                      None))
                  else Some (Inr k)))
      else
        (case key_PublicKey sshKey of
           None \<Rightarrow> AddSSHKey_scan sshKey ks
         | Some p \<Rightarrow>
             (case key_PublicKey k of
                None \<Rightarrow> Some (Inl (Panic ''nil pointer dereference''))
              | Some q \<Rightarrow> if q = p then Some (Inr k) else AddSSHKey_scan sshKey ks)))"

definition AddSSHKey ::
  "unit reply \<Rightarrow> string reply \<Rightarrow> SSHKey \<Rightarrow> cloud \<Rightarrow> (error + SSHKey) \<times> cloud" where
  "AddSSHKey rpList rpAdd sshKey c =
     (if key_Name sshKey = [] then (Inl (Errorf ''SSH key name is required'' None), c)
      else
        (case ListSSHKeys rpList c of
           (Inl err, c') \<Rightarrow> (Inl (Errorf ''failed to list ssh keys, err'' (Some err)), c')
         | (Inr keys, c') \<Rightarrow>
             (case AddSSHKey_scan sshKey keys of
                Some r \<Rightarrow> (r, c')
              | None \<Rightarrow>
                  (case AddSSHKeyWithResponse rpAdd (key_Name sshKey) (key_PublicKey sshKey) c' of
                     (Inl err, c'') \<Rightarrow> (Inl err, c'')
                   | (Inr res, c'') \<Rightarrow>
                       (case JSON200 res of
                          None \<Rightarrow>
                            (let err = Some (Errorf ''failed to generate SSH key'' None) in
                             case JSON401 res of
                               Some m \<Rightarrow> (Inl (err401 m err), c'')
                             | None \<Rightarrow>
                                 (case JSON403 res of
                                    Some m \<Rightarrow> (Inl (err403 m err), c'')
                                  | None \<Rightarrow>
                                      (case JSON400 res of
                                         Some m \<Rightarrow> (Inl (err400 m err), c'')
                                       | None \<Rightarrow>
                                           (Inl (errUnknown (StatusCode res) err), c''))))
                        | Some data \<Rightarrow>
                            (Inr \<lparr>key_Name = ck_Name data, key_PrivateKey = None,
                                  key_PublicKey = Some (ck_PublicKey data),
                                  key_CreatedAt = None\<rparr>, c''))))))"

text \<open>
  \<open>ListNodeTypes\<close> ranges over the response's map from instance-type name to its data;
  the association list is that map in the order the iteration visits it, and
  \<open>node_type_of\<close> is the body of the loop.
\<close>

definition node_type_of :: "string \<Rightarrow> client_InstanceTypeData \<Rightarrow> NodeType" where
  "node_type_of name d =
     \<lparr>nt_ID = name, nt_Name = Some (it_Description d),
      nt_Price = Some (it_PriceCentsPerHour d),
      nt_Regions = [] @ it_RegionsWithCapacityAvailable d,
      nt_Description = None, nt_Provider = LambdaLabsProvider,
      nt_Specs = \<lparr>VCPUs = it_Vcpus d, Memory = it_MemoryGib d, GPUMemory = None\<rparr>\<rparr>"

definition ListNodeTypes :: "unit reply \<Rightarrow> cloud \<Rightarrow> (error + NodeType list) \<times> cloud" where
  "ListNodeTypes rp c =
     (case InstanceTypesWithResponse rp c of
        (Inl err, c') \<Rightarrow> (Inl err, c')
      | (Inr res, c') \<Rightarrow>
          (case JSON200 res of
             None \<Rightarrow>
               (case JSON401 res of
                  Some m \<Rightarrow> (Inl (err401 m None), c')
                | None \<Rightarrow>
                    (case JSON403 res of
                       Some m \<Rightarrow> (Inl (err403 m None), c')
                     | None \<Rightarrow> (Inl (errUnknown (StatusCode res) None), c')))
           | Some data \<Rightarrow>
               (Inr (map (\<lambda>entry. node_type_of (fst entry) (snd entry)) data), c')))"

text \<open>The loop of \<open>finRegionForNode\<close>; \<open>None\<close> means it ended without returning.\<close>

fun finRegion_scan :: "string \<Rightarrow> NodeType list \<Rightarrow> string option" where
  "finRegion_scan nodeTypeID [] = None"
| "finRegion_scan nodeTypeID (nt # nts) =
     (if nt_ID nt = nodeTypeID then
        (case nt_Regions nt of
           [] \<Rightarrow> finRegion_scan nodeTypeID nts
         | r # _ \<Rightarrow> Some r)
      else finRegion_scan nodeTypeID nts)"

text \<open>
  \<open>%q\<close> of \<open>fmt.Sprintf\<close> (\<open>strconv.Quote\<close>): the string in double quotes, with
  the double quote and the backslash escaped by a backslash, the control characters 7
  to 13 written as backslash and one of \<open>a b t n v f r\<close>, and the other characters
  below 32 and the character 127 written as backslash, \<open>x\<close> and two hexadecimal
  digits. Bytes from 128 on are left as they are, as \<open>strconv.Quote\<close> leaves
  printable text in UTF-8; it escapes unprintable characters beyond ASCII and bytes that
  are not UTF-8 as well, and such text is outside this definition.
\<close>

definition hex_digit :: "nat \<Rightarrow> char" where
  "hex_digit n = ''0123456789abcdef'' ! (n mod 16)"

definition escape_char :: "char \<Rightarrow> string" where
  "escape_char c =
     (let n = (of_char c :: nat) in
      if n = 34 \<or> n = 92 then [CHR 0x5C, c]
      else if n = 7 then [CHR 0x5C, CHR ''a'']
      else if n = 8 then [CHR 0x5C, CHR ''b'']
      else if n = 9 then [CHR 0x5C, CHR ''t'']
      else if n = 10 then [CHR 0x5C, CHR ''n'']
      else if n = 11 then [CHR 0x5C, CHR ''v'']
      else if n = 12 then [CHR 0x5C, CHR ''f'']
      else if n = 13 then [CHR 0x5C, CHR ''r'']
      else if n < 32 \<or> n = 127 then [CHR 0x5C, CHR ''x'', hex_digit (n div 16), hex_digit n]
      else [c])"

fun escape :: "string \<Rightarrow> string" where
  "escape [] = []"
| "escape (c # cs) = escape_char c @ escape cs"

definition quoted :: "string \<Rightarrow> string" where
  "quoted s = CHR 0x22 # escape s @ [CHR 0x22]"

definition with_Suggestion :: "error \<Rightarrow> string \<Rightarrow> error" where
  "with_Suggestion e s =
     (case e of TypesError c m _ p err \<Rightarrow> TypesError c m s p err | _ \<Rightarrow> e)"

text \<open>
  \<open>encoding/json\<close> is a library: \<open>json.Marshal\<close> and \<open>json.MarshalIndent\<close> on a list
  of node types are parameters of the adapter's functions.
\<close>

record json =
  Marshal :: "NodeType list \<Rightarrow> error + string"
  MarshalIndent :: "NodeType list \<Rightarrow> error + string"

definition finRegionForNode ::
  "json \<Rightarrow> unit reply \<Rightarrow> string \<Rightarrow> cloud \<Rightarrow> (error + string) \<times> cloud" where
  "finRegionForNode js rp nodeTypeID c =
     (case ListNodeTypes rp c of
        (Inl err, c') \<Rightarrow>
          (Inl (Errorf ''failed to list instance availability, err'' (Some err)), c')
      | (Inr nodeTypes, c') \<Rightarrow>
          (case finRegion_scan nodeTypeID nodeTypes of
             Some r \<Rightarrow> (Inr r, c')
           | None \<Rightarrow>
               (let suggestion = (case Marshal js nodeTypes of Inl _ \<Rightarrow> [] | Inr b \<Rightarrow> [] @ b);
                    e = err503 (''No region with available capacity for node type ''
                                 @ quoted nodeTypeID) None
                in (Inl (with_Suggestion e suggestion), c'))))"

text \<open>
  \<open>strings.ToLower\<close> and \<open>strings.Contains\<close>, on the bytes of the text. The ASCII
  capitals become small letters. From outside ASCII only two characters have an ASCII
  lower case: the capital I with dot above (U+0130, the bytes C4 B0) becomes \<open>i\<close>
  and the Kelvin sign (U+212A, the bytes E2 84 AA) becomes \<open>k\<close>. Other non-ASCII text
  is left as it is: its lower case in Go is non-ASCII too, so whether the result
  contains a given ASCII text, the one use of \<open>ToLower\<close> here, is the same.
\<close>

definition lower_char :: "char \<Rightarrow> char" where
  "lower_char ch =
     (let n = (of_char ch :: nat) in if 65 \<le> n \<and> n \<le> 90 then char_of (n + 32) else ch)"

fun ToLower :: "string \<Rightarrow> string" where
  "ToLower (c1 # c2 # c3 # cs) =
     (if c1 = CHR 0xC4 \<and> c2 = CHR 0xB0 then CHR ''i'' # ToLower (c3 # cs)
      else if c1 = CHR 0xE2 \<and> c2 = CHR 0x84 \<and> c3 = CHR 0xAA then CHR ''k'' # ToLower cs
      else lower_char c1 # ToLower (c2 # c3 # cs))"
| "ToLower [c1, c2] =
     (if c1 = CHR 0xC4 \<and> c2 = CHR 0xB0 then [CHR ''i''] else [lower_char c1, lower_char c2])"
| "ToLower [c] = [lower_char c]"
| "ToLower [] = []"

fun HasPrefix :: "string \<Rightarrow> string \<Rightarrow> bool" where
  "HasPrefix s [] = True"
| "HasPrefix [] (p # ps) = False"
| "HasPrefix (c # cs) (p # ps) = (c = p \<and> HasPrefix cs ps)"

fun Contains :: "string \<Rightarrow> string \<Rightarrow> bool" where
  "Contains [] sub = (sub = [])"
| "Contains (c # cs) sub = (HasPrefix (c # cs) sub \<or> Contains cs sub)"

text \<open>
  What one \<open>InitNode\<close> call gets from outside: the vendor's replies to the catalog
  request of \<open>finRegionForNode\<close>, to the launch request and to the catalog request of
  the capacity branch, and the random phrase of the instance name.
\<close>

record node_env =
  ne_json :: json
  ne_catalog_reply :: "unit reply"
  ne_launch_reply :: "string list reply"
  ne_capacity_reply :: "unit reply"
  ne_phrase :: string

definition InitNode ::
  "node_env \<Rightarrow> SSHKey \<Rightarrow> string \<Rightarrow> string option \<Rightarrow> cloud \<Rightarrow> (error + Node) \<times> cloud" where
  "InitNode ev sshKey nodeTypeID region c =
     (case (case region of
              None \<Rightarrow> finRegionForNode (ne_json ev) (ne_catalog_reply ev) nodeTypeID c
            | Some r \<Rightarrow> (Inr r, c)) of
        (Inl err, c1) \<Rightarrow> (Inl err, c1)
      | (Inr region', c1) \<Rightarrow>
          (let req = \<lparr>lr_InstanceTypeName = nodeTypeID, lr_Name = ''uw-'' @ ne_phrase ev,
                      lr_Quantity = 1, lr_RegionName = region',
                      lr_SshKeyNames = [key_Name sshKey]\<rparr>
           in case LaunchInstanceWithResponse (ne_launch_reply ev) req c1 of
                (Inl err, c2) \<Rightarrow> (Inl err, c2)
              | (Inr res, c2) \<Rightarrow>
                  (case JSON200 res of
                     None \<Rightarrow>
                       (case JSON401 res of Some m \<Rightarrow> (Inl (err401 m None), c2) | None \<Rightarrow>
                       (case JSON403 res of Some m \<Rightarrow> (Inl (err403 m None), c2) | None \<Rightarrow>
                       (case JSON500 res of Some m \<Rightarrow> (Inl (err500 m None), c2) | None \<Rightarrow>
                       (case JSON404 res of Some m \<Rightarrow> (Inl (err404 m None), c2) | None \<Rightarrow>
                       (case JSON400 res of
                          Some m \<Rightarrow>
                            (if Contains (ToLower m) ''available capacity'' then
                               (case ListNodeTypes (ne_capacity_reply ev) c2 of
                                  (r, c3) \<Rightarrow>
                                    (let instances = (case r of Inl _ \<Rightarrow> [] | Inr ts \<Rightarrow> ts);
                                         suggestion =
                                           (case MarshalIndent (ne_json ev) instances of
                                              Inl _ \<Rightarrow> [] | Inr b \<Rightarrow> [] @ b)
                                     in (Inl (with_Suggestion (err503 m None) suggestion), c3)))
                             else (Inl (err400 m None), c2))
                        | None \<Rightarrow> (Inl (errUnknown (StatusCode res) None), c2))))))
                   | Some ids \<Rightarrow>
                       (case ids of
                          [] \<Rightarrow> (Inl (Errorf ''failed to launch instance'' None), c2)
                        | i # _ \<Rightarrow>
                            (Inr \<lparr>node_ID = i, node_TypeID = nodeTypeID,
                                  node_Region = region', node_KeyPair = sshKey,
                                  node_Status = StatusInitializing,
                                  node_Provider = LambdaLabsProvider\<rparr>, c2)))))"

definition TerminateNode :: "unit reply \<Rightarrow> string \<Rightarrow> cloud \<Rightarrow> error option \<times> cloud" where
  "TerminateNode rp nodeID c =
     (case TerminateInstanceWithResponse rp [nodeID] c of
        (Inl err, c') \<Rightarrow> (Some err, c')
      | (Inr res, c') \<Rightarrow>
          (case JSON200 res of
             None \<Rightarrow>
               (case JSON401 res of Some m \<Rightarrow> (Some (err401 m None), c') | None \<Rightarrow>
               (case JSON403 res of Some m \<Rightarrow> (Some (err403 m None), c') | None \<Rightarrow>
               (case JSON400 res of Some m \<Rightarrow> (Some (err400 m None), c') | None \<Rightarrow>
               (case JSON404 res of Some m \<Rightarrow> (Some (err404 m None), c') | None \<Rightarrow>
               (case JSON500 res of Some m \<Rightarrow> (Some (err500 m None), c') | None \<Rightarrow>
                  (Some (errUnknown (StatusCode res) None), c'))))))
           | Some _ \<Rightarrow> (None, c')))"

section \<open>The persistence port (db)\<close>

text \<open>
  The tables behind the queries the service calls. \<open>db/queries/queries.sql\<close> in the
  sources is of another revision than \<open>sessions.go\<close>: a query is taken from its
  statement there where the call in \<open>sessions.go\<close> fits the statement, and is
  modelled from the spec where it does not. The row of a session has
  the columns the service reads and writes (\<open>sessions.go\<close> calls the provider column
  \<open>Provider\<close>); \<open>db_calls\<close> is the log of the queries the store has been sent.
\<close>

record UnweaveSshKey =
  sk_ID :: uuid
  sk_Name :: string
  sk_OwnerID :: uuid
  sk_CreatedAt :: time
  sk_PublicKey :: string

record UnweaveSession =
  s_ID :: uuid
  s_NodeID :: string
  s_CreatedBy :: uuid
  s_CreatedAt :: time
  s_ReadyAt :: "time option"
  s_ExitedAt :: "time option"
  s_ProjectID :: uuid
  s_Provider :: string
  s_Region :: string
  s_Name :: string
  s_Status :: string
  s_SshKeyID :: "uuid option"

datatype query =
    Q_SSHKeyGetByName
  | Q_SSHKeyGetByPublicKey
  | Q_SSHKeyAdd
  | Q_SessionCreate
  | Q_SessionGet
  | Q_MxSessionGet
  | Q_SessionsGet
  | Q_SessionStatusUpdate uuid string

record database =
  db_ssh_keys :: "UnweaveSshKey list"
  db_sessions :: "UnweaveSession list"
  db_calls :: "query list"

definition called :: "query \<Rightarrow> database \<Rightarrow> database" where
  "called q db = db\<lparr>db_calls := db_calls db @ [q]\<rparr>"

definition UnweaveSessionStatusInitializing :: string where
  "UnweaveSessionStatusInitializing = ''initializing''"

definition UnweaveSessionStatusActive :: string where
  "UnweaveSessionStatusActive = ''active''"

definition UnweaveSessionStatusTerminated :: string where
  "UnweaveSessionStatusTerminated = ''terminated''"

text \<open>
  Every query takes, besides its arguments, the failure of the driver for this call if
  there is one (\<open>Some e\<close>: the call returns \<open>e\<close> and the tables are as before).
\<close>

record SSHKeyGetByNameParams =
  gbn_Name :: string
  gbn_OwnerID :: uuid

text \<open>
  Modelled from the spec: the statement of \<open>SSHKeyGetByName\<close> that \<open>sessions.go\<close>
  calls is not in the sources. The call binds a name and an owner through
  \<open>SSHKeyGetByNameParams\<close>, as the \<open>Querier\<close> interface declares it; the statement of
  this name in \<open>queries.sql\<close> has the name as its one parameter and belongs to another
  revision. The persistence port reads an SSH key by name scoped by owner: the query
  returns the row of the owner with the name (a key name is unique per owner), and
  \<open>sql.ErrNoRows\<close> when there is none.
\<close>

definition SSHKeyGetByName ::
  "error option \<Rightarrow> SSHKeyGetByNameParams \<Rightarrow> database \<Rightarrow> (error + UnweaveSshKey) \<times> database" where
  "SSHKeyGetByName fault arg db =
     (case fault of
        Some e \<Rightarrow> (Inl e, called Q_SSHKeyGetByName db)
      | None \<Rightarrow>
          (case find (\<lambda>k. sk_Name k = gbn_Name arg \<and> sk_OwnerID k = gbn_OwnerID arg)
                  (db_ssh_keys db) of
             None \<Rightarrow> (Inl ErrNoRows, called Q_SSHKeyGetByName db)
           | Some k \<Rightarrow> (Inr k, called Q_SSHKeyGetByName db)))"

record SSHKeyGetByPublicKeyParams =
  gbk_PublicKey :: string
  gbk_OwnerID :: uuid

text \<open>
  Modelled from the spec: the statement of \<open>SSHKeyGetByPublicKey\<close> that
  \<open>sessions.go\<close> calls is not in the sources either. The call binds a public key and
  an owner through \<open>SSHKeyGetByPublicKeyParams\<close>; the statement of this name in
  \<open>queries.sql\<close> has the public key as its one parameter and belongs to another
  revision. The persistence port reads an SSH key by public key scoped by owner: the
  query returns the row of the owner with the public key (a public key is unique per
  owner), and \<open>sql.ErrNoRows\<close> when there is none.
\<close>

definition SSHKeyGetByPublicKey ::
  "error option \<Rightarrow> SSHKeyGetByPublicKeyParams \<Rightarrow> database
     \<Rightarrow> (error + UnweaveSshKey) \<times> database" where
  "SSHKeyGetByPublicKey fault arg db =
     (case fault of
        Some e \<Rightarrow> (Inl e, called Q_SSHKeyGetByPublicKey db)
      | None \<Rightarrow>
          (case find (\<lambda>k. sk_PublicKey k = gbk_PublicKey arg \<and>
                            sk_OwnerID k = gbk_OwnerID arg)
                  (db_ssh_keys db) of
             None \<Rightarrow> (Inl ErrNoRows, called Q_SSHKeyGetByPublicKey db)
           | Some k \<Rightarrow> (Inr k, called Q_SSHKeyGetByPublicKey db)))"

record SSHKeyAddParams =
  add_OwnerID :: uuid
  add_Name :: string
  add_PublicKey :: string

text \<open>
  \<open>SSHKeyAdd :exec\<close> is
  \<open>insert into unweave.ssh_keys (owner_id, name, public_key) values ($1, $2, $3)\<close>.
  The store fills in the row's id and creation time, given here as \<open>new_id\<close> and
  \<open>now\<close>.
\<close>

text \<open>
  Modelled from the spec: the schema is not part of the sources. In the persistence layer
  a key name is unique per owner and a public key is unique per owner, so the insert of a
  row that repeats either for its owner fails.
\<close>

definition SSHKeyAdd ::
  "error option \<Rightarrow> uuid \<Rightarrow> time \<Rightarrow> SSHKeyAddParams \<Rightarrow> database \<Rightarrow> error option \<times> database" where
  "SSHKeyAdd fault new_id now arg db =
     (case fault of
        Some e \<Rightarrow> (Some e, called Q_SSHKeyAdd db)
      | None \<Rightarrow>
          if list_ex (\<lambda>k. sk_OwnerID k = add_OwnerID arg \<and>
                        (sk_Name k = add_Name arg \<or> sk_PublicKey k = add_PublicKey arg))
               (db_ssh_keys db)
          then (Some (Fault ''unique_violation''), called Q_SSHKeyAdd db)
          else (None, called Q_SSHKeyAdd
                        (db\<lparr>db_ssh_keys := db_ssh_keys db @
                             [\<lparr>sk_ID = new_id, sk_Name = add_Name arg,
                               sk_OwnerID = add_OwnerID arg, sk_CreatedAt = now,
                               sk_PublicKey = add_PublicKey arg\<rparr>]\<rparr>)))"

record SessionCreateParams =
  sc_NodeID :: string
  sc_CreatedBy :: uuid
  sc_ProjectID :: uuid
  sc_Provider :: string
  sc_Region :: string
  sc_Name :: string
  sc_SshKeyName :: string

text \<open>
  \<open>SessionCreate :one\<close> inserts a row and returns its id. The statement in
  \<open>queries.sql\<close> stores the node id, the creator, the project and the provider.
\<close>

text \<open>
  Modelled from the spec: the columns that \<open>sessions.go\<close> passes beyond those (region,
  name, the SSH key by name) and the row's defaults are not in the sources. A session row
  persists id, node id, created-by, created-at, nullable ready-at and exited-at, project
  id, provider and region, and a status that starts as initializing; the key is the
  creator's key of the given name.
\<close>

definition SessionCreate ::
  "error option \<Rightarrow> uuid \<Rightarrow> time \<Rightarrow> SessionCreateParams \<Rightarrow> database
     \<Rightarrow> (error + uuid) \<times> database" where
  "SessionCreate fault new_id now arg db =
     (case fault of
        Some e \<Rightarrow> (Inl e, called Q_SessionCreate db)
      | None \<Rightarrow>
          (Inr new_id,
           called Q_SessionCreate
             (db\<lparr>db_sessions := db_sessions db @
                  [\<lparr>s_ID = new_id, s_NodeID = sc_NodeID arg, s_CreatedBy = sc_CreatedBy arg,
                    s_CreatedAt = now, s_ReadyAt = None, s_ExitedAt = None,
                    s_ProjectID = sc_ProjectID arg, s_Provider = sc_Provider arg,
                    s_Region = sc_Region arg, s_Name = sc_Name arg,
                    s_Status = UnweaveSessionStatusInitializing,
                    s_SshKeyID =
                      map_option sk_ID
                        (find (\<lambda>k. sk_Name k = sc_SshKeyName arg \<and>
                                    sk_OwnerID k = sc_CreatedBy arg)
                           (db_ssh_keys db))\<rparr>]\<rparr>)))"

text \<open>\<open>SessionGet :one\<close> is \<open>select * from unweave.sessions where id = $1\<close>.\<close>

definition SessionGet ::
  "error option \<Rightarrow> uuid \<Rightarrow> database \<Rightarrow> (error + UnweaveSession) \<times> database" where
  "SessionGet fault sid db =
     (case fault of
        Some e \<Rightarrow> (Inl e, called Q_SessionGet db)
      | None \<Rightarrow>
          (case find (\<lambda>r. s_ID r = sid) (db_sessions db) of
             None \<Rightarrow> (Inl ErrNoRows, called Q_SessionGet db)
           | Some r \<Rightarrow> (Inr r, called Q_SessionGet db)))"

record MxSessionGetRow =
  mx_SshKeyName :: string
  mx_PublicKey :: string
  mx_SshKeyCreatedAt :: time
  mx_Status :: string
  mx_CreatedAt :: time
  mx_NodeID :: string
  mx_Region :: string
  mx_Provider :: string

text \<open>
  Modelled from the spec: \<open>MxSessionGet\<close> is declared in the \<open>Querier\<close> interface; its
  statement and its row type are not in the sources. It reads the session row of the
  given id together with the SSH key the row refers to.
\<close>

definition MxSessionGet ::
  "error option \<Rightarrow> uuid \<Rightarrow> database \<Rightarrow> (error + MxSessionGetRow) \<times> database" where
  "MxSessionGet fault sid db =
     (case fault of
        Some e \<Rightarrow> (Inl e, called Q_MxSessionGet db)
      | None \<Rightarrow>
          (case find (\<lambda>r. s_ID r = sid) (db_sessions db) of
             None \<Rightarrow> (Inl ErrNoRows, called Q_MxSessionGet db)
           | Some r \<Rightarrow>
               (case find (\<lambda>k. Some (sk_ID k) = s_SshKeyID r) (db_ssh_keys db) of
                  None \<Rightarrow> (Inl ErrNoRows, called Q_MxSessionGet db)
                | Some k \<Rightarrow>
                    (Inr \<lparr>mx_SshKeyName = sk_Name k, mx_PublicKey = sk_PublicKey k,
                          mx_SshKeyCreatedAt = sk_CreatedAt k, mx_Status = s_Status r,
                          mx_CreatedAt = s_CreatedAt r, mx_NodeID = s_NodeID r,
                          mx_Region = s_Region r, mx_Provider = s_Provider r\<rparr>,
                     called Q_MxSessionGet db))))"

record SessionsGetParams =
  sg_ProjectID :: uuid
  sg_Limit :: nat
  sg_Offset :: nat

record SessionsGetRow =
  sgr_ID :: uuid
  sgr_SshKeyName :: "string option"
  sgr_Status :: string

text \<open>
  \<open>SessionsGet :many\<close> is
  \<open>select sessions.id, ssh_keys.name as ssh_key_name, sessions.status from
  unweave.sessions left join unweave.ssh_keys on ssh_keys.id = sessions.ssh_key_id where
  project_id = $1 order by unweave.sessions.created_at desc limit $2 offset $3\<close>.
  Rows created at the same time keep the order of the table (SQL leaves their order open).
\<close>

definition SessionsGet ::
  "error option \<Rightarrow> SessionsGetParams \<Rightarrow> database \<Rightarrow> (error + SessionsGetRow list) \<times> database" where
  "SessionsGet fault arg db =
     (case fault of
        Some e \<Rightarrow> (Inl e, called Q_SessionsGet db)
      | None \<Rightarrow>
          (Inr (map (\<lambda>r. \<lparr>sgr_ID = s_ID r,
                           sgr_SshKeyName =
                             map_option sk_Name
                               (find (\<lambda>k. Some (sk_ID k) = s_SshKeyID r) (db_ssh_keys db)),
                           sgr_Status = s_Status r\<rparr>)
                  (take (sg_Limit arg)
                     (drop (sg_Offset arg)
                        (sort_key (\<lambda>r. - int (s_CreatedAt r))
                           (filter (\<lambda>r. s_ProjectID r = sg_ProjectID arg)
                              (db_sessions db)))))),
           called Q_SessionsGet db))"

record SessionStatusUpdateParams =
  su_ID :: uuid
  su_Status :: string

text \<open>
  Modelled from the spec: \<open>SessionStatusUpdate\<close> is declared in the \<open>Querier\<close>
  interface; its statement is not in the sources (\<open>queries.sql\<close> has its special case
  \<open>SessionSetTerminated\<close>, \<open>update unweave.sessions set status = ... where id = $1\<close>).
  It updates the status of the session row of the given id.
\<close>

definition SessionStatusUpdate ::
  "error option \<Rightarrow> SessionStatusUpdateParams \<Rightarrow> database \<Rightarrow> error option \<times> database" where
  "SessionStatusUpdate fault arg db =
     (case fault of
        Some e \<Rightarrow> (Some e, called (Q_SessionStatusUpdate (su_ID arg) (su_Status arg)) db)
      | None \<Rightarrow>
          (None,
           called (Q_SessionStatusUpdate (su_ID arg) (su_Status arg))
             (db\<lparr>db_sessions :=
                   map (\<lambda>r. if s_ID r = su_ID arg then r\<lparr>s_Status := su_Status arg\<rparr> else r)
                     (db_sessions db)\<rparr>)))"

section \<open>The runtime initializer (initializer.go)\<close>

text \<open>
  \<open>EnvInitializer.Initialize\<close> reads the provider configuration from the environment
  and builds the LambdaLabs adapter. The bearer-token provider and the REST client that
  \<open>NewSessionProvider\<close> builds come from libraries; whether either fails is an input.
  (\<open>NewSessionProvider\<close> formats the library's error with \<open>%v\<close>: the cause is part
  of the message only.)
\<close>

datatype Runtime = LambdaLabsSession string

record init_env =
  ie_LambdaLabsAPIKey :: string
  ie_bearer_fault :: "error option"
  ie_client_fault :: "error option"

definition NewSessionProvider :: "init_env \<Rightarrow> string \<Rightarrow> error + Runtime" where
  "NewSessionProvider ev apiKey =
     (case ie_bearer_fault ev of
        Some err \<Rightarrow> Inl (Errorf ''failed to create bearer token provider, err'' (Some err))
      | None \<Rightarrow>
          (case ie_client_fault ev of
             Some err \<Rightarrow> Inl (Errorf ''failed to create client, err'' (Some err))
           | None \<Rightarrow> Inr (LambdaLabsSession apiKey)))"

definition Initialize :: "init_env \<Rightarrow> uuid \<Rightarrow> RuntimeProvider \<Rightarrow> error + Runtime" where
  "Initialize ev accountID provider =
     (if provider = LambdaLabsProvider then
        (if ie_LambdaLabsAPIKey ev = [] then
           Inl (Errorf ''missing LambdaLabs API key in runtime config file'' None)
         else
           (case NewSessionProvider ev (ie_LambdaLabsAPIKey ev) of
              Inl err \<Rightarrow> Inl err
            | Inr sess \<Rightarrow> Inr sess))
      else Inl (Errorf (quoted provider @ '' provider not supported in the env initializer'')
                  None))"

section \<open>The credential resolver (api/server/sessions.go)\<close>

text \<open>
  \<open>registerCredentials\<close> lists the provider's keys and adds the key unless one of the
  same name is there. \<open>AddSSHKey\<close> lists the keys again, so the call takes the vendor's
  replies to both listings and to the add request.
\<close>

definition registerCredentials ::
  "unit reply \<Rightarrow> unit reply \<Rightarrow> string reply \<Rightarrow> SSHKey \<Rightarrow> cloud \<Rightarrow> error option \<times> cloud" where
  "registerCredentials rpKeys rpList rpAdd key c =
     (case ListSSHKeys rpKeys c of
        (Inl err, c1) \<Rightarrow>
          (Some (Errorf ''failed to list ssh keys from provider'' (Some err)), c1)
      | (Inr providerKeys, c1) \<Rightarrow>
          if list_ex (\<lambda>k. key_Name k = key_Name key) providerKeys then (None, c1)
          else
            (case AddSSHKey rpList rpAdd key c1 of
               (Inl err, c2) \<Rightarrow>
                 (Some (Errorf ''failed to add ssh key to provider'' (Some err)), c2)
             | (Inr _, c2) \<Rightarrow> (None, c2)))"

text \<open>
  What one \<open>fetchCredentials\<close> call gets from outside: the library functions
  \<open>ssh.ParseAuthorizedKey\<close> and \<open>ssh.MarshalAuthorizedKey\<close>, the driver's failure
  (if any) of each of its three queries, the random phrase of a generated name, and the
  id and creation time the store gives a new row.
\<close>

type_synonym ssh_PublicKey = string

record cred_env =
  ce_ParseAuthorizedKey :: "string \<Rightarrow> error + ssh_PublicKey"
  ce_MarshalAuthorizedKey :: "ssh_PublicKey \<Rightarrow> string"
  ce_byname_fault :: "error option"
  ce_bykey_fault :: "error option"
  ce_add_fault :: "error option"
  ce_phrase :: string
  ce_key_id :: uuid
  ce_now :: time

definition key_of_row :: "UnweaveSshKey \<Rightarrow> SSHKey" where
  "key_of_row k = \<lparr>key_Name = sk_Name k, key_PrivateKey = None,
     key_PublicKey = Some (sk_PublicKey k), key_CreatedAt = Some (sk_CreatedAt k)\<rparr>"

text \<open>
  Modelled from the spec: \<open>saveSSHKey\<close> is called by \<open>fetchCredentials\<close> and is not in
  the sources. It persists a new record of the account with the given name and public
  key, through \<open>SSHKeyAdd\<close>.
\<close>

definition saveSSHKey ::
  "error option \<Rightarrow> uuid \<Rightarrow> time \<Rightarrow> uuid \<Rightarrow> string \<Rightarrow> string \<Rightarrow> database
     \<Rightarrow> error option \<times> database" where
  "saveSSHKey fault new_id now accountID name publicKey db =
     (case SSHKeyAdd fault new_id now
             \<lparr>add_OwnerID = accountID, add_Name = name, add_PublicKey = publicKey\<rparr> db of
        (Some err, db') \<Rightarrow> (Some (Errorf ''failed to add ssh key to db'' (Some err)), db')
      | (None, db') \<Rightarrow> (None, db'))"

text \<open>
  \<open>fetchCredentials\<close> is a sequence of blocks, each of which either returns or falls
  through to the next. The three definitions below are the blocks "by name", "not found
  by name, try public key" and the rest of the function; \<open>None\<close> is falling through.
\<close>

definition fetchCredentials_byName ::
  "cred_env \<Rightarrow> uuid \<Rightarrow> string option \<Rightarrow> database \<Rightarrow> (error + SSHKey) option \<times> database" where
  "fetchCredentials_byName ev accountID sshKeyName db =
     (case sshKeyName of
        None \<Rightarrow> (None, db)
      | Some name \<Rightarrow>
          (case SSHKeyGetByName (ce_byname_fault ev)
                  \<lparr>gbn_Name = name, gbn_OwnerID = accountID\<rparr> db of
             (Inr k, db') \<Rightarrow> (Some (Inr (key_of_row k)), db')
           | (Inl err, db') \<Rightarrow>
               if err \<noteq> ErrNoRows then
                 (Some (Inl (TypesError 500 ''Failed to get SSH key'' [] []
                               (Some (Errorf ''failed to get ssh key from db'' (Some err))))),
                  db')
               else (None, db')))"

definition fetchCredentials_byPublicKey ::
  "cred_env \<Rightarrow> uuid \<Rightarrow> string option \<Rightarrow> database \<Rightarrow> (error + SSHKey) option \<times> database" where
  "fetchCredentials_byPublicKey ev accountID sshPublicKey db =
     (case sshPublicKey of
        None \<Rightarrow> (None, db)
      | Some pub \<Rightarrow>
          (case ce_ParseAuthorizedKey ev pub of
             Inl err \<Rightarrow> (Some (Inl (TypesError 400 ''Invalid SSH public key'' [] [] None)), db)
           | Inr pk \<Rightarrow>
               (let pkStr = ce_MarshalAuthorizedKey ev pk in
                case SSHKeyGetByPublicKey (ce_bykey_fault ev)
                       \<lparr>gbk_PublicKey = pkStr, gbk_OwnerID = accountID\<rparr> db of
                  (Inr k, db') \<Rightarrow> (Some (Inr (key_of_row k)), db')
                | (Inl err, db') \<Rightarrow>
                    if err \<noteq> ErrNoRows then
                      (Some (Inl (TypesError 500 ''Failed to get SSH key'' [] []
                                    (Some (Errorf ''failed to get ssh key from db''
                                             (Some err))))),
                       db')
                    else (None, db'))))"

definition fetchCredentials_create ::
  "cred_env \<Rightarrow> uuid \<Rightarrow> string option \<Rightarrow> string option \<Rightarrow> database
     \<Rightarrow> (error + SSHKey) \<times> database" where
  "fetchCredentials_create ev accountID sshKeyName sshPublicKey db =
     (case sshPublicKey of
        None \<Rightarrow> (Inl (TypesError 400 ''SSH key not found'' [] [] None), db)
      | Some pub \<Rightarrow>
          (let name = (case sshKeyName of
                         None \<Rightarrow> ''uw:'' @ ce_phrase ev
                       | Some n \<Rightarrow> if n = [] then ''uw:'' @ ce_phrase ev else n)
           in case saveSSHKey (ce_add_fault ev) (ce_key_id ev) (ce_now ev)
                     accountID name pub db of
                (Some err, db') \<Rightarrow>
                  (Inl (TypesError 500 ''Failed to save SSH key'' [] [] None), db')
              | (None, db') \<Rightarrow>
                  (Inr \<lparr>key_Name = name, key_PrivateKey = None, key_PublicKey = Some pub,
                        key_CreatedAt = None\<rparr>, db')))"

definition fetchCredentials ::
  "cred_env \<Rightarrow> uuid \<Rightarrow> string option \<Rightarrow> string option \<Rightarrow> database
     \<Rightarrow> (error + SSHKey) \<times> database" where
  "fetchCredentials ev accountID sshKeyName sshPublicKey db =
     (if sshKeyName = None \<and> sshPublicKey = None then
        (Inl (TypesError 400 ''Either Key name or Public Key must be provided'' [] [] None), db)
      else
        (case fetchCredentials_byName ev accountID sshKeyName db of
           (Some r, db1) \<Rightarrow> (r, db1)
         | (None, db1) \<Rightarrow>
             (case fetchCredentials_byPublicKey ev accountID sshPublicKey db1 of
                (Some r, db2) \<Rightarrow> (r, db2)
              | (None, db2) \<Rightarrow>
                  fetchCredentials_create ev accountID sshKeyName sshPublicKey db2)))"

section \<open>The session service (api/server/sessions.go)\<close>

text \<open>
  The service works on the store and on the provider; \<open>world\<close> holds both. The
  account of the service (\<open>s.srv.cid\<close>) is the argument \<open>cid\<close>.
\<close>

record world =
  w_db :: database
  w_cloud :: cloud

record types_SessionCreateParams =
  p_Provider :: RuntimeProvider
  p_NodeTypeID :: string
  p_Region :: "string option"
  p_SSHKeyName :: "string option"
  p_SSHPublicKey :: "string option"

text \<open>
  What one \<open>Create\<close> call gets from outside: the inputs of the initializer, of
  \<open>fetchCredentials\<close>, of \<open>registerCredentials\<close> and of \<open>InitNode\<close>, the random
  phrase of the session name, and for \<open>SessionCreate\<close> the driver's failure (if any)
  and the id and creation time the store gives the new row.
\<close>

record create_env =
  cr_init :: init_env
  cr_cred :: cred_env
  cr_keys_reply :: "unit reply"
  cr_add_keys_reply :: "unit reply"
  cr_add_reply :: "string reply"
  cr_node :: node_env
  cr_phrase :: string
  cr_session_fault :: "error option"
  cr_session_id :: uuid
  cr_now :: time

definition SessionService_Create ::
  "create_env \<Rightarrow> uuid \<Rightarrow> uuid \<Rightarrow> types_SessionCreateParams \<Rightarrow> world
     \<Rightarrow> (error + Session) \<times> world" where
  "SessionService_Create ev cid projectID params w =
     (case Initialize (cr_init ev) cid (p_Provider params) of
        Inl err \<Rightarrow> (Inl (Errorf ''failed to create runtime'' (Some err)), w)
      | Inr rt \<Rightarrow>
          (case fetchCredentials (cr_cred ev) cid (p_SSHKeyName params)
                  (p_SSHPublicKey params) (w_db w) of
             (Inl err, db1) \<Rightarrow>
               (Inl (Errorf ''failed to setup credentials'' (Some err)), w\<lparr>w_db := db1\<rparr>)
           | (Inr sshKey, db1) \<Rightarrow>
               (case registerCredentials (cr_keys_reply ev) (cr_add_keys_reply ev)
                       (cr_add_reply ev) sshKey (w_cloud w) of
                  (Some err, c1) \<Rightarrow>
                    (Inl (Errorf ''failed to register credentials'' (Some err)),
                     \<lparr>w_db = db1, w_cloud = c1\<rparr>)
                | (None, c1) \<Rightarrow>
                    (case InitNode (cr_node ev) sshKey (p_NodeTypeID params)
                            (p_Region params) c1 of
                       (Inl err, c2) \<Rightarrow>
                         (Inl (Errorf ''failed to init node'' (Some err)),
                          \<lparr>w_db = db1, w_cloud = c2\<rparr>)
                     | (Inr node, c2) \<Rightarrow>
                         (let dbp = \<lparr>sc_NodeID = node_ID node, sc_CreatedBy = cid,
                                      sc_ProjectID = projectID,
                                      sc_Provider = p_Provider params,
                                      sc_Region = node_Region node,
                                      sc_Name = cr_phrase ev,
                                      sc_SshKeyName = key_Name sshKey\<rparr>
                          in case SessionCreate (cr_session_fault ev) (cr_session_id ev)
                                    (cr_now ev) dbp db1 of
                               (Inl err, db2) \<Rightarrow>
                                 (Inl (Errorf ''failed to create session in db'' (Some err)),
                                  \<lparr>w_db = db2, w_cloud = c2\<rparr>)
                             | (Inr sessionID, db2) \<Rightarrow>
                                 (Inr \<lparr>sess_ID = sessionID, sess_SSHKey = node_KeyPair node,
                                       sess_Status = StatusInitializing,
                                       sess_CreatedAt = None,
                                       sess_NodeTypeID = node_TypeID node,
                                       sess_Region = node_Region node,
                                       sess_Provider = node_Provider node\<rparr>,
                                  \<lparr>w_db = db2, w_cloud = c2\<rparr>))))))"

definition SessionService_Get ::
  "error option \<Rightarrow> uuid \<Rightarrow> database \<Rightarrow> (error + Session) \<times> database" where
  "SessionService_Get fault sessionID db =
     (case MxSessionGet fault sessionID db of
        (Inl err, db') \<Rightarrow>
          if err = ErrNoRows then
            (Inl (TypesError 404 ''Session not found'' [] [] None), db')
          else (Inl (Errorf ''failed to get session from db'' (Some err)), db')
      | (Inr dbs, db') \<Rightarrow>
          (Inr \<lparr>sess_ID = sessionID,
                sess_SSHKey = \<lparr>key_Name = mx_SshKeyName dbs, key_PrivateKey = None,
                                key_PublicKey = Some (mx_PublicKey dbs),
                                key_CreatedAt = Some (mx_SshKeyCreatedAt dbs)\<rparr>,
                sess_Status = mx_Status dbs,
                sess_CreatedAt = Some (mx_CreatedAt dbs),
                sess_NodeTypeID = mx_NodeID dbs,
                sess_Region = mx_Region dbs,
                sess_Provider = mx_Provider dbs\<rparr>, db'))"

text \<open>
  The loop of \<open>List\<close> over the rows, with the slice \<open>res\<close> it appends to.
  \<open>types.DBSessionStatusToAPIStatus\<close> is not in the sources and is the parameter
  \<open>toAPI\<close>; \<open>s.SshKeyName.String\<close> of a null name is the empty string.
\<close>

fun List_loop ::
  "(string \<Rightarrow> SessionStatus) \<Rightarrow> bool \<Rightarrow> SessionsGetRow list \<Rightarrow> Session list \<Rightarrow> Session list" where
  "List_loop toAPI listTerminated [] res = res"
| "List_loop toAPI listTerminated (s # ss) res =
     (if \<not> listTerminated \<and> sgr_Status s = UnweaveSessionStatusTerminated then
        List_loop toAPI listTerminated ss res
      else
        List_loop toAPI listTerminated ss
          (res @ [\<lparr>sess_ID = sgr_ID s,
                    sess_SSHKey = \<lparr>key_Name = (case sgr_SshKeyName s of None \<Rightarrow> [] | Some n \<Rightarrow> n),
                                    key_PrivateKey = None, key_PublicKey = None,
                                    key_CreatedAt = None\<rparr>,
                    sess_Status = toAPI (sgr_Status s),
                    sess_CreatedAt = None, sess_NodeTypeID = [], sess_Region = [],
                    sess_Provider = []\<rparr>]))"

definition SessionService_List ::
  "(string \<Rightarrow> SessionStatus) \<Rightarrow> error option \<Rightarrow> uuid \<Rightarrow> bool \<Rightarrow> database
     \<Rightarrow> (error + Session list) \<times> database" where
  "SessionService_List toAPI fault projectID listTerminated db =
     (case SessionsGet fault \<lparr>sg_ProjectID = projectID, sg_Limit = 100, sg_Offset = 0\<rparr> db of
        (Inl err, db') \<Rightarrow> (Inl (Errorf ''failed to get sessions from db'' (Some err)), db')
      | (Inr sessions, db') \<Rightarrow> (Inr (List_loop toAPI listTerminated sessions []), db'))"

text \<open>
  The watcher. \<open>rt.Watch\<close> hands the goroutine a status channel and an error channel,
  and the goroutine's \<open>select\<close> takes what arrives on them or the cancellation of its
  context; \<open>feed\<close> is the sequence of what the \<open>select\<close> takes, in the order it takes
  it. When the feed is used up the goroutine waits and does nothing more. The \<open>n\<close>-th
  status write of the goroutine fails with \<open>outcome n\<close> if that is \<open>Some e\<close>.
  The goroutine's log lines are returned with the store.
\<close>

datatype event = StatusEvent SessionStatus | ErrorEvent error | DoneEvent

datatype log_entry = LogInfo string | LogError string error

fun watch_loop ::
  "uuid \<Rightarrow> (nat \<Rightarrow> error option) \<Rightarrow> nat \<Rightarrow> event list \<Rightarrow> log_entry list \<Rightarrow> database
     \<Rightarrow> log_entry list \<times> database" where
  "watch_loop sessionID outcome n [] logs db = (logs, db)"
| "watch_loop sessionID outcome n (DoneEvent # feed) logs db = (logs, db)"
| "watch_loop sessionID outcome n (ErrorEvent e # feed) logs db =
     (logs @ [LogError ''failed to watch session'' e], db)"
| "watch_loop sessionID outcome n (StatusEvent status # feed) logs db =
     (case SessionStatusUpdate (outcome n) \<lparr>su_ID = sessionID, su_Status = status\<rparr> db of
        (Some e, db') \<Rightarrow>
          (logs @ [LogInfo ''session status changed'',
                   LogError ''failed to update session status'' e], db')
      | (None, db') \<Rightarrow>
          if status = StatusTerminated then
            (logs @ [LogInfo ''session status changed''], db')
          else
            watch_loop sessionID outcome (Suc n) feed
              (logs @ [LogInfo ''session status changed'']) db')"

record watch_env =
  we_get_fault :: "error option"
  we_init :: init_env
  we_outcome :: "nat \<Rightarrow> error option"

definition SessionService_Watch ::
  "watch_env \<Rightarrow> uuid \<Rightarrow> uuid \<Rightarrow> event list \<Rightarrow> database
     \<Rightarrow> error option \<times> log_entry list \<times> database" where
  "SessionService_Watch ev cid sessionID feed db =
     (case SessionGet (we_get_fault ev) sessionID db of
        (Inl err, db') \<Rightarrow>
          if err = ErrNoRows then
            (Some (TypesError 404 ''Session not found'' [] [] None), [], db')
          else (Some (Errorf ''failed to get session from db'' (Some err)), [], db')
      | (Inr session, db') \<Rightarrow>
          (case Initialize (we_init ev) cid (s_Provider session) of
             Inl err \<Rightarrow> (Some (Errorf ''failed to initialize runtime'' (Some err)), [], db')
           | Inr rt \<Rightarrow>
               (case watch_loop sessionID (we_outcome ev) 0 feed
                       [LogInfo (''Starting to watch session '' @ sessionID)] db' of
                  (logs, db'') \<Rightarrow> (None, logs, db''))))"

record terminate_env =
  te_get_fault :: "error option"
  te_init :: init_env
  te_terminate_reply :: "unit reply"
  te_update_fault :: "error option"

definition SessionService_Terminate ::
  "terminate_env \<Rightarrow> uuid \<Rightarrow> uuid \<Rightarrow> world \<Rightarrow> error option \<times> log_entry list \<times> world" where
  "SessionService_Terminate ev cid sessionID w =
     (case SessionGet (te_get_fault ev) sessionID (w_db w) of
        (Inl err, db1) \<Rightarrow>
          if err = ErrNoRows then
            (Some (TypesError 404 ''Session not found''
                     ''Make sure the session id is valid'' [] None), [], w\<lparr>w_db := db1\<rparr>)
          else
            (Some (Errorf (''failed to fetch session from db '' @ quoted sessionID)
                     (Some err)), [], w\<lparr>w_db := db1\<rparr>)
      | (Inr sess, db1) \<Rightarrow>
          (case Initialize (te_init ev) cid (s_Provider sess) of
             Inl err \<Rightarrow>
               (Some (Errorf (''failed to create runtime '' @ quoted (s_Provider sess))
                        (Some err)), [], w\<lparr>w_db := db1\<rparr>)
           | Inr rt \<Rightarrow>
               (case TerminateNode (te_terminate_reply ev) (s_NodeID sess) (w_cloud w) of
                  (Some err, c1) \<Rightarrow>
                    (Some (Errorf ''failed to terminate node'' (Some err)), [],
                     \<lparr>w_db = db1, w_cloud = c1\<rparr>)
                | (None, c1) \<Rightarrow>
                    (case SessionStatusUpdate (te_update_fault ev)
                            \<lparr>su_ID = sessionID,
                             su_Status = UnweaveSessionStatusTerminated\<rparr> db1 of
                       (Some err, db2) \<Rightarrow>
                         (None,
                          [LogError (''Failed to set session '' @ quoted sessionID
                                      @ '' as terminated'') err],
                          \<lparr>w_db = db2, w_cloud = c1\<rparr>)
                     | (None, db2) \<Rightarrow> (None, [], \<lparr>w_db = db2, w_cloud = c1\<rparr>)))))"

section \<open>Predicates of the properties\<close>

text \<open>
  Between two states of the store no session has been persisted: the session table is
  the same, and the queries sent since the first state do not include \<open>SessionCreate\<close>.
\<close>

definition no_session_persisted :: "database \<Rightarrow> database \<Rightarrow> bool" where
  "no_session_persisted db db' =
     (db_sessions db' = db_sessions db \<and>
      take (length (db_calls db)) (db_calls db') = db_calls db \<and>
      Q_SessionCreate \<notin> set (drop (length (db_calls db)) (db_calls db')))"

text \<open>
  The statuses the watcher receives before anything else arrives: the statuses at the
  head of the feed, up to its first error or cancellation.
\<close>

fun leading_statuses :: "event list \<Rightarrow> SessionStatus list" where
  "leading_statuses [] = []"
| "leading_statuses (e # es) =
     (case e of StatusEvent s \<Rightarrow> s # leading_statuses es | _ \<Rightarrow> [])"

text \<open>The session table after the status of session \<open>sid\<close> has been set to \<open>status\<close>.\<close>

definition with_status :: "uuid \<Rightarrow> UnweaveSession list \<Rightarrow> string \<Rightarrow> UnweaveSession list" where
  "with_status sid rows status =
     map (\<lambda>r. if s_ID r = sid then r\<lparr>s_Status := status\<rparr> else r) rows"

section \<open>Example inputs\<close>

text \<open>
  Two ed25519 public keys in wire format and base64 (the type name and the 32 bytes of
  the key, each with its length).
\<close>

definition bob_blob :: string where
  "bob_blob = ''AAAAC3NzaC1lZDI1NTE5AAAAIIG2N9j80sbaY1nmljEToRcN55XktyW4TR4LTP2exYzp''"

definition carol_blob :: string where
  "carol_blob = ''AAAAC3NzaC1lZDI1NTE5AAAAIEwm2QdMJ9ie3lknDArBS3HgcbFSOVGfdUdLLzumNIH1''"

definition example_json :: json where
  "example_json = \<lparr>Marshal = (\<lambda>nts. Inr (concat (map nt_ID nts))),
     MarshalIndent = (\<lambda>nts. Inr (concat (map nt_ID nts)))\<rparr>"

definition example_type :: "string list \<Rightarrow> client_InstanceTypeData" where
  "example_type regions = \<lparr>it_Description = ''1x A10 (24 GB PCIe)'',
     it_PriceCentsPerHour = 60, it_Vcpus = 30, it_MemoryGib = 200,
     it_RegionsWithCapacityAvailable = regions\<rparr>"

definition example_cloud :: cloud where
  "example_cloud = \<lparr>cloud_keys = [],
     cloud_catalog = [(''X'', example_type []), (''Y'', example_type [''us-east''])],
     cloud_requests = []\<rparr>"

definition example_node_env :: node_env where
  "example_node_env = \<lparr>ne_json = example_json, ne_catalog_reply = Ok (),
     ne_launch_reply = Ok [''i-1''], ne_capacity_reply = Ok (), ne_phrase = ''red-fox-runs''\<rparr>"

definition example_key :: SSHKey where
  "example_key = \<lparr>key_Name = ''laptop'', key_PrivateKey = None,
     key_PublicKey = Some (''ssh-ed25519 '' @ bob_blob),
     key_CreatedAt = None\<rparr>"

definition two_key_cloud :: cloud where
  "two_key_cloud = \<lparr>cloud_keys =
       [\<lparr>ck_Name = ''b'', ck_PublicKey = (''ssh-ed25519 '' @ bob_blob)\<rparr>,
        \<lparr>ck_Name = ''a'', ck_PublicKey = (''ssh-ed25519 '' @ carol_blob)\<rparr>],
     cloud_catalog = [], cloud_requests = []\<rparr>"

definition two_key_cloud_reversed :: cloud where
  "two_key_cloud_reversed = two_key_cloud\<lparr>cloud_keys := rev (cloud_keys two_key_cloud)\<rparr>"

definition conflicting_key :: SSHKey where
  "conflicting_key = \<lparr>key_Name = ''a'', key_PrivateKey = None,
     key_PublicKey = Some (''ssh-ed25519 '' @ bob_blob), key_CreatedAt = None\<rparr>"

text \<open>An authorized-key line of each key, with a comment.\<close>

definition bob_line :: string where
  "bob_line = ''ssh-ed25519 '' @ bob_blob @ '' bob@host''"

definition carol_line :: string where
  "carol_line = ''ssh-ed25519 '' @ carol_blob @ '' carol@host''"

text \<open>
  The two library functions on ed25519 key lines of the plain form "ssh-ed25519 blob
  comment", with single spaces: the line parses when the blob is the base64 text of an
  ed25519 key in wire format (68 characters of the base64 alphabet that begin with the
  encoding of the type name and of the key length 32), the parsed key is the blob, and
  the canonical line is "ssh-ed25519 blob" and a newline. Every other line is refused
  here; the library accepts more (other key types, options, other white space).
\<close>

definition base64_alphabet :: string where
  "base64_alphabet = ''ABCDEFGHIJKLMNOPQRSTUVWXYZabcdefghijklmnopqrstuvwxyz0123456789+/''"

definition example_ParseAuthorizedKey :: "string \<Rightarrow> error + ssh_PublicKey" where
  "example_ParseAuthorizedKey s =
     (let t = takeWhile (\<lambda>c. c \<noteq> CHR '' '') s;
          b = takeWhile (\<lambda>c. c \<noteq> CHR '' '') (drop (Suc (length t)) s)
      in if t = ''ssh-ed25519'' \<and> length b = 68 \<and>
            take 25 b = ''AAAAC3NzaC1lZDI1NTE5AAAAI'' \<and>
            b ! 25 \<in> set (take 16 base64_alphabet) \<and>
            list_all (\<lambda>c. c \<in> set base64_alphabet) b
         then Inr b else Inl (Fault ''ssh: no key found''))"

definition example_MarshalAuthorizedKey :: "ssh_PublicKey \<Rightarrow> string" where
  "example_MarshalAuthorizedKey pk = ''ssh-ed25519 '' @ pk @ [CHR 0x0A]"

definition example_cred_env :: cred_env where
  "example_cred_env = \<lparr>ce_ParseAuthorizedKey = example_ParseAuthorizedKey,
     ce_MarshalAuthorizedKey = example_MarshalAuthorizedKey,
     ce_byname_fault = None, ce_bykey_fault = None, ce_add_fault = None,
     ce_phrase = ''calm-blue-quiet-lake'', ce_key_id = ''key-2'', ce_now = 20\<rparr>"

definition bob_row :: UnweaveSshKey where
  "bob_row = \<lparr>sk_ID = ''key-1'', sk_Name = ''deploy'', sk_OwnerID = ''bob'',
     sk_CreatedAt = 10, sk_PublicKey = ''ssh-ed25519 '' @ bob_blob @ [CHR 0x0A]\<rparr>"

definition bob_db :: database where
  "bob_db = \<lparr>db_ssh_keys = [bob_row], db_sessions = [], db_calls = []\<rparr>"




text \<open>
  A store in which eve holds a key with the name and the public key of bob's key, listed
  before his.
\<close>

definition eve_row :: UnweaveSshKey where
  "eve_row = \<lparr>sk_ID = ''key-0'', sk_Name = ''deploy'', sk_OwnerID = ''eve'',
     sk_CreatedAt = 5, sk_PublicKey = ''ssh-ed25519 '' @ bob_blob @ [CHR 0x0A]\<rparr>"

definition shared_db :: database where
  "shared_db = \<lparr>db_ssh_keys = [eve_row, bob_row], db_sessions = [], db_calls = []\<rparr>"

definition example_init_env :: init_env where
  "example_init_env = \<lparr>ie_LambdaLabsAPIKey = ''secret'', ie_bearer_fault = None,
     ie_client_fault = None\<rparr>"

definition example_world :: world where
  "example_world = \<lparr>w_db = bob_db, w_cloud = example_cloud\<rparr>"

definition example_params :: types_SessionCreateParams where
  "example_params = \<lparr>p_Provider = LambdaLabsProvider, p_NodeTypeID = ''Y'',
     p_Region = Some ''us-east'', p_SSHKeyName = Some ''deploy'', p_SSHPublicKey = None\<rparr>"

definition example_create_env :: create_env where
  "example_create_env = \<lparr>cr_init = example_init_env, cr_cred = example_cred_env,
     cr_keys_reply = Ok (), cr_add_keys_reply = Ok (), cr_add_reply = Ok [],
     cr_node = example_node_env, cr_phrase = ''warm-grey-tall-pine'',
     cr_session_fault = None, cr_session_id = ''session-1'', cr_now = 30\<rparr>"

definition example_session_row :: UnweaveSession where
  "example_session_row = \<lparr>s_ID = ''session-1'', s_NodeID = ''i-1'', s_CreatedBy = ''bob'',
     s_CreatedAt = 30, s_ReadyAt = None, s_ExitedAt = None, s_ProjectID = ''project-1'',
     s_Provider = LambdaLabsProvider, s_Region = ''us-east'', s_Name = ''warm-grey-tall-pine'',
     s_Status = UnweaveSessionStatusActive, s_SshKeyID = Some ''key-1''\<rparr>"

definition session_world :: world where
  "session_world = \<lparr>w_db = \<lparr>db_ssh_keys = [bob_row], db_sessions = [example_session_row],
                              db_calls = []\<rparr>,
                     w_cloud = example_cloud\<rparr>"

definition failing_terminate_env :: terminate_env where
  "failing_terminate_env = \<lparr>te_get_fault = None, te_init = example_init_env,
     te_terminate_reply = Ok (), te_update_fault = Some (Fault ''connection reset'')\<rparr>"

definition old_session :: "nat \<Rightarrow> UnweaveSession" where
  "old_session i = \<lparr>s_ID = replicate (Suc i) (CHR ''s''), s_NodeID = ''i-1'',
     s_CreatedBy = ''bob'', s_CreatedAt = i, s_ReadyAt = None, s_ExitedAt = Some (Suc i),
     s_ProjectID = ''project-1'', s_Provider = LambdaLabsProvider, s_Region = ''us-east'',
     s_Name = ''warm-grey-tall-pine'', s_Status = UnweaveSessionStatusTerminated,
     s_SshKeyID = Some ''key-1''\<rparr>"

definition crowded_db :: database where
  "crowded_db = \<lparr>db_ssh_keys = [bob_row], db_sessions = map old_session [0..<101],
     db_calls = []\<rparr>"

definition terminated_session_row :: UnweaveSession where
  "terminated_session_row = \<lparr>s_ID = ''session-0'', s_NodeID = ''i-0'', s_CreatedBy = ''bob'',
     s_CreatedAt = 20, s_ReadyAt = Some 21, s_ExitedAt = Some 25, s_ProjectID = ''project-1'',
     s_Provider = LambdaLabsProvider, s_Region = ''us-east'', s_Name = ''pale-thin-old-reed'',
     s_Status = UnweaveSessionStatusTerminated, s_SshKeyID = Some ''key-1''\<rparr>"

definition mixed_db :: database where
  "mixed_db = \<lparr>db_ssh_keys = [bob_row],
     db_sessions = [terminated_session_row, example_session_row], db_calls = []\<rparr>"

definition summary :: "uuid \<Rightarrow> SessionStatus \<Rightarrow> Session" where
  "summary sid status = \<lparr>sess_ID = sid,
     sess_SSHKey = \<lparr>key_Name = ''deploy'', key_PrivateKey = None, key_PublicKey = None,
                    key_CreatedAt = None\<rparr>,
     sess_Status = status, sess_CreatedAt = None, sess_NodeTypeID = [], sess_Region = [],
     sess_Provider = []\<rparr>"

definition example_watch_env :: watch_env where
  "example_watch_env = \<lparr>we_get_fault = None, we_init = example_init_env,
     we_outcome = (\<lambda>n. None)\<rparr>"

definition malformed_feed :: "event list" where
  "malformed_feed = [StatusEvent StatusInitializing, StatusEvent StatusActive,
     StatusEvent StatusTerminated, StatusEvent StatusActive]"

section \<open>The provider adapter: region selection\<close>

lemma ListNodeTypes_Ok:
  "ListNodeTypes (Ok u) c =
     (Inr (map (\<lambda>entry. node_type_of (fst entry) (snd entry)) (cloud_catalog c)),
      sent InstanceTypesRequest c)"
  by (simp add: ListNodeTypes_def InstanceTypesWithResponse_def ok_response_def)

lemma ListNodeTypes_requests:
  "cloud_requests (snd (ListNodeTypes rp c)) = cloud_requests c @ [InstanceTypesRequest]"
  by (cases rp)
    (simp_all add: ListNodeTypes_def InstanceTypesWithResponse_def ok_response_def
      error_response_def sent_def)

lemma finRegion_scan_found:
  "distinct (map fst cat) \<Longrightarrow> map_of cat T = Some d \<Longrightarrow>
   it_RegionsWithCapacityAvailable d = r # rs \<Longrightarrow>
   finRegion_scan T (map (\<lambda>entry. node_type_of (fst entry) (snd entry)) cat) = Some r"
proof (induction cat)
  case Nil
  then show ?case by simp
next
  case (Cons e cat)
  show ?case
  proof (cases "fst e = T")
    case True
    with Cons.prems(2) have "snd e = d" by (cases e) simp
    with True Cons.prems(3) show ?thesis by (simp add: node_type_of_def)
  next
    case False
    with Cons.prems(2) have m: "map_of cat T = Some d" by (cases e) simp
    from Cons.prems(1) have "distinct (map fst cat)" by simp
    from Cons.IH [OF this m Cons.prems(3)] False show ?thesis
      by (simp add: node_type_of_def)
  qed
qed

lemma finRegion_scan_none:
  "\<forall>d. (T, d) \<in> set cat \<longrightarrow> it_RegionsWithCapacityAvailable d = [] \<Longrightarrow>
   finRegion_scan T (map (\<lambda>entry. node_type_of (fst entry) (snd entry)) cat) = None"
proof (induction cat)
  case Nil
  then show ?case by simp
next
  case (Cons e cat)
  then have IH: "finRegion_scan T (map (\<lambda>entry. node_type_of (fst entry) (snd entry)) cat) = None"
    by simp
  show ?case
  proof (cases "fst e = T")
    case True
    then have "(T, snd e) \<in> set (e # cat)" by (cases e) simp
    with Cons.prems have "it_RegionsWithCapacityAvailable (snd e) = []" by blast
    with True IH show ?thesis by (simp add: node_type_of_def)
  next
    case False
    with IH show ?thesis by (simp add: node_type_of_def)
  qed
qed

lemma InitNode_launch_request:
  assumes "finRegionForNode (ne_json ev) (ne_catalog_reply ev) T c = (Inr r, c1)"
  shows "\<exists>rest. cloud_requests (snd (InitNode ev k T None c)) =
           cloud_requests c1 @
             LaunchRequest \<lparr>lr_InstanceTypeName = T, lr_Name = ''uw-'' @ ne_phrase ev,
               lr_Quantity = 1, lr_RegionName = r, lr_SshKeyNames = [key_Name k]\<rparr> # rest"
proof (cases "ne_launch_reply ev")
  case (Ok ids)
  then show ?thesis
    by (cases ids)
      (simp_all add: InitNode_def assms LaunchInstanceWithResponse_def sent_def ok_response_def)
next
  case (Fail code m)
  show ?thesis
  proof (cases "code = 400 \<and> Contains (ToLower m) ''available capacity''")
    case True
    obtain x c3 where l: "ListNodeTypes (ne_capacity_reply ev)
       (sent (LaunchRequest \<lparr>lr_InstanceTypeName = T, lr_Name = ''uw-'' @ ne_phrase ev,
               lr_Quantity = 1, lr_RegionName = r, lr_SshKeyNames = [key_Name k]\<rparr>) c1) = (x, c3)"
      by force
    from ListNodeTypes_requests [of "ne_capacity_reply ev" "(sent (LaunchRequest \<lparr>lr_InstanceTypeName = T, lr_Name = ''uw-'' @ ne_phrase ev,
               lr_Quantity = 1, lr_RegionName = r, lr_SshKeyNames = [key_Name k]\<rparr>) c1)"] l
    have "cloud_requests c3 = cloud_requests c1 @ [LaunchRequest \<lparr>lr_InstanceTypeName = T, lr_Name = ''uw-'' @ ne_phrase ev,
               lr_Quantity = 1, lr_RegionName = r, lr_SshKeyNames = [key_Name k]\<rparr>, InstanceTypesRequest]"
      by (simp add: sent_def)
    with True Fail l show ?thesis
      by (simp add: InitNode_def assms LaunchInstanceWithResponse_def error_response_def Let_def)
  next
    case False
    with Fail show ?thesis
      by (auto simp add: InitNode_def assms LaunchInstanceWithResponse_def error_response_def sent_def)
  qed
next
  case (NoAnswer e)
  then show ?thesis
    by (simp add: InitNode_def assms LaunchInstanceWithResponse_def sent_def)
qed

text \<open>
  Claim C5. \<open>InitNode\<close> without a region: when the catalog (a map, so its type names are
  distinct) lists the requested node type with regions \<open>r # rs\<close> that have capacity,
  the launch request that follows the catalog request asks for region \<open>r\<close>, and a
  successful launch returns a node in region \<open>r\<close>. When the catalog has no entry of
  the requested type with a region, the call fails with code 503, the suggestion is the
  serialization of the catalog just read (empty if \<open>json.Marshal\<close> fails), and the
  catalog request is the only request sent: no launch request is issued.
\<close>

theorem InitNode_selects_region:
  assumes "ne_catalog_reply ev = Ok ()"
    and "distinct (map fst (cloud_catalog c))"
  shows "(\<forall>d r rs. map_of (cloud_catalog c) T = Some d \<and>
              it_RegionsWithCapacityAvailable d = r # rs \<longrightarrow>
            (\<exists>rest. cloud_requests (snd (InitNode ev k T None c)) =
              cloud_requests c @ [InstanceTypesRequest,
                LaunchRequest \<lparr>lr_InstanceTypeName = T, lr_Name = ''uw-'' @ ne_phrase ev,
                  lr_Quantity = 1, lr_RegionName = r, lr_SshKeyNames = [key_Name k]\<rparr>] @ rest) \<and>
            (\<forall>i ids. ne_launch_reply ev = Ok (i # ids) \<longrightarrow>
               fst (InitNode ev k T None c) =
                 Inr \<lparr>node_ID = i, node_TypeID = T, node_Region = r, node_KeyPair = k,
                      node_Status = StatusInitializing, node_Provider = LambdaLabsProvider\<rparr>))
       \<and> ((\<forall>d. (T, d) \<in> set (cloud_catalog c) \<longrightarrow> it_RegionsWithCapacityAvailable d = []) \<longrightarrow>
            (\<exists>nts. fst (ListNodeTypes (Ok ()) c) = Inr nts \<and>
               fst (InitNode ev k T None c) =
                 Inl (TypesError 503
                        (''No region with available capacity for node type '' @ quoted T)
                        (case Marshal (ne_json ev) nts of Inl _ \<Rightarrow> [] | Inr b \<Rightarrow> b)
                        LambdaLabsProvider None)) \<and>
            cloud_requests (snd (InitNode ev k T None c)) =
              cloud_requests c @ [InstanceTypesRequest])"
proof (intro conjI allI impI)
  fix d r rs
  assume h: "map_of (cloud_catalog c) T = Some d \<and> it_RegionsWithCapacityAvailable d = r # rs"
  then have scan: "finRegion_scan T (map (\<lambda>entry. node_type_of (fst entry) (snd entry))
      (cloud_catalog c)) = Some r"
    using finRegion_scan_found assms(2) by blast
  then have fr: "finRegionForNode (ne_json ev) (ne_catalog_reply ev) T c =
      (Inr r, sent InstanceTypesRequest c)"
    by (simp add: finRegionForNode_def assms(1) ListNodeTypes_Ok)
  from InitNode_launch_request [OF fr]
  show "\<exists>rest. cloud_requests (snd (InitNode ev k T None c)) =
              cloud_requests c @ [InstanceTypesRequest,
                LaunchRequest \<lparr>lr_InstanceTypeName = T, lr_Name = ''uw-'' @ ne_phrase ev,
                  lr_Quantity = 1, lr_RegionName = r, lr_SshKeyNames = [key_Name k]\<rparr>] @ rest"
    by (simp add: sent_def)
  fix i ids
  assume "ne_launch_reply ev = Ok (i # ids)"
  then show "fst (InitNode ev k T None c) =
                 Inr \<lparr>node_ID = i, node_TypeID = T, node_Region = r, node_KeyPair = k,
                      node_Status = StatusInitializing, node_Provider = LambdaLabsProvider\<rparr>"
    by (simp add: InitNode_def fr LaunchInstanceWithResponse_def ok_response_def)
next
  assume h: "\<forall>d. (T, d) \<in> set (cloud_catalog c) \<longrightarrow> it_RegionsWithCapacityAvailable d = []"
  then have scan: "finRegion_scan T (map (\<lambda>entry. node_type_of (fst entry) (snd entry))
      (cloud_catalog c)) = None"
    by (rule finRegion_scan_none)
  have fr: "finRegionForNode (ne_json ev) (ne_catalog_reply ev) T c =
      (Inl (TypesError 503 (''No region with available capacity for node type '' @ quoted T)
              (case Marshal (ne_json ev) (map (\<lambda>entry. node_type_of (fst entry) (snd entry))
                  (cloud_catalog c)) of Inl _ \<Rightarrow> [] | Inr b \<Rightarrow> b)
              LambdaLabsProvider None), sent InstanceTypesRequest c)"
    by (simp add: finRegionForNode_def assms(1) ListNodeTypes_Ok scan err503_def
        with_Suggestion_def split: sum.splits)
  show "\<exists>nts. fst (ListNodeTypes (Ok ()) c) = Inr nts \<and>
               fst (InitNode ev k T None c) =
                 Inl (TypesError 503
                        (''No region with available capacity for node type '' @ quoted T)
                        (case Marshal (ne_json ev) nts of Inl _ \<Rightarrow> [] | Inr b \<Rightarrow> b)
                        LambdaLabsProvider None)"
    by (simp add: ListNodeTypes_Ok InitNode_def fr)
  show "cloud_requests (snd (InitNode ev k T None c)) = cloud_requests c @ [InstanceTypesRequest]"
    by (simp add: InitNode_def fr sent_def)
qed

text \<open>
  The catalog of the claim: type X with no region, type Y with region us-east.
\<close>

theorem InitNode_selects_region_witness:
  "ne_catalog_reply example_node_env = Ok () \<and>
   distinct (map fst (cloud_catalog example_cloud)) \<and>
   map_of (cloud_catalog example_cloud) ''Y'' = Some (example_type [''us-east'']) \<and>
   fst (InitNode example_node_env example_key ''Y'' None example_cloud) =
     Inr \<lparr>node_ID = ''i-1'', node_TypeID = ''Y'', node_Region = ''us-east'',
          node_KeyPair = example_key, node_Status = StatusInitializing,
          node_Provider = LambdaLabsProvider\<rparr> \<and>
   map_of (cloud_catalog example_cloud) ''X'' = Some (example_type []) \<and>
   fst (InitNode example_node_env example_key ''X'' None example_cloud) =
     Inl (TypesError 503 (''No region with available capacity for node type '' @ quoted ''X'')
            ''XY'' LambdaLabsProvider None) \<and>
   cloud_requests (snd (InitNode example_node_env example_key ''X'' None example_cloud)) =
     [InstanceTypesRequest]"
proof -
  have a: "ne_catalog_reply example_node_env = Ok ()"
    by (simp add: example_node_env_def)
  have b: "distinct (map fst (cloud_catalog example_cloud))"
    by (simp add: example_cloud_def)
  have y: "map_of (cloud_catalog example_cloud) ''Y'' = Some (example_type [''us-east''])
      \<and> it_RegionsWithCapacityAvailable (example_type [''us-east'']) = ''us-east'' # []"
    by (simp add: example_cloud_def example_type_def)
  have l: "ne_launch_reply example_node_env = Ok (''i-1'' # [])"
    by (simp add: example_node_env_def)
  have x: "\<forall>d. (''X'', d) \<in> set (cloud_catalog example_cloud) \<longrightarrow>
        it_RegionsWithCapacityAvailable d = []"
    by (simp add: example_cloud_def example_type_def)
  have m: "Marshal (ne_json example_node_env)
       (map (\<lambda>entry. node_type_of (fst entry) (snd entry)) (cloud_catalog example_cloud)) = Inr ''XY''"
    by (simp add: example_node_env_def example_json_def example_cloud_def node_type_of_def)
  from InitNode_selects_region [OF a b, of "''Y''" example_key] y l
  have 1: "fst (InitNode example_node_env example_key ''Y'' None example_cloud) =
     Inr \<lparr>node_ID = ''i-1'', node_TypeID = ''Y'', node_Region = ''us-east'',
          node_KeyPair = example_key, node_Status = StatusInitializing,
          node_Provider = LambdaLabsProvider\<rparr>"
    by blast
  from InitNode_selects_region [OF a b, of "''X''" example_key] x
  have 2: "(\<exists>nts. fst (ListNodeTypes (Ok ()) example_cloud) = Inr nts \<and>
               fst (InitNode example_node_env example_key ''X'' None example_cloud) =
                 Inl (TypesError 503
                        (''No region with available capacity for node type '' @ quoted ''X'')
                        (case Marshal (ne_json example_node_env) nts of Inl _ \<Rightarrow> [] | Inr b \<Rightarrow> b)
                        LambdaLabsProvider None)) \<and>
            cloud_requests (snd (InitNode example_node_env example_key ''X'' None example_cloud)) =
              cloud_requests example_cloud @ [InstanceTypesRequest]"
    by blast
  from 2 m have 3: "fst (InitNode example_node_env example_key ''X'' None example_cloud) =
     Inl (TypesError 503 (''No region with available capacity for node type '' @ quoted ''X'')
            ''XY'' LambdaLabsProvider None)"
    by (auto simp add: ListNodeTypes_Ok)
  from 2 have 4: "cloud_requests (snd (InitNode example_node_env example_key ''X'' None example_cloud)) =
     [InstanceTypesRequest]"
    by (simp add: example_cloud_def)
  have x': "map_of (cloud_catalog example_cloud) ''X'' = Some (example_type [])"
    by (simp add: example_cloud_def)
  from a b y x' 1 3 4 show ?thesis by blast
qed

section \<open>The provider adapter: adding an SSH key\<close>

lemma ListSSHKeys_Ok:
  "ListSSHKeys (Ok u) c = (Inr (map SSHKey_of (cloud_keys c)), sent ListSSHKeysRequest c)"
  by (simp add: ListSSHKeys_def ListSSHKeysWithResponse_def ok_response_def)

lemma AddSSHKey_scan_find:
  "AddSSHKey_scan sshKey (map SSHKey_of keys) =
     (case find (\<lambda>e. ck_Name e = key_Name sshKey \<or> key_PublicKey sshKey = Some (ck_PublicKey e))
             keys of
        None \<Rightarrow> None
      | Some e \<Rightarrow>
          Some (if ck_Name e = key_Name sshKey \<and> key_PublicKey sshKey \<noteq> None \<and>
                   key_PublicKey sshKey \<noteq> Some (ck_PublicKey e)
                then Inl (err400
                  ''SSH key with the same name already exists with a different public key'' None)
                else Inr (SSHKey_of e)))"
proof (induction keys)
  case Nil
  show ?case by simp
next
  case (Cons e keys)
  show ?case
  proof (cases "key_PublicKey sshKey")
    case None
    with Cons show ?thesis by (simp add: SSHKey_of_def)
  next
    case (Some p)
    with Cons show ?thesis by (auto simp add: SSHKey_of_def)
  qed
qed

lemma AddSSHKey_scan_append:
  "AddSSHKey_scan sshKey xs = None \<Longrightarrow> AddSSHKey_scan sshKey (xs @ ys) = AddSSHKey_scan sshKey ys"
proof (induction xs)
  case Nil
  show ?case by simp
next
  case (Cons x xs)
  then show ?case
    by (simp split: if_splits option.splits)
qed

lemma AddSSHKey_found:
  assumes "key_Name k \<noteq> []"
    and "find (\<lambda>e. ck_Name e = key_Name k \<or> key_PublicKey k = Some (ck_PublicKey e))
           (cloud_keys c) = Some e"
  shows "AddSSHKey (Ok ()) rpAdd k c =
           (if ck_Name e = key_Name k \<and> key_PublicKey k \<noteq> None \<and>
               key_PublicKey k \<noteq> Some (ck_PublicKey e)
            then Inl (err400
              ''SSH key with the same name already exists with a different public key'' None)
            else Inr (SSHKey_of e),
            sent ListSSHKeysRequest c)"
  using assms by (simp add: AddSSHKey_def ListSSHKeys_Ok AddSSHKey_scan_find)

lemma AddSSHKey_created:
  assumes "key_Name k \<noteq> []"
    and "find (\<lambda>e. ck_Name e = key_Name k \<or> key_PublicKey k = Some (ck_PublicKey e))
           (cloud_keys c) = None"
  shows "AddSSHKey (Ok ()) (Ok g) k c =
           (Inr (SSHKey_of \<lparr>ck_Name = key_Name k,
                   ck_PublicKey = (case key_PublicKey k of Some p \<Rightarrow> p | None \<Rightarrow> g)\<rparr>),
            sent (AddSSHKeyRequest (key_Name k) (key_PublicKey k))
              ((sent ListSSHKeysRequest c)\<lparr>cloud_keys := cloud_keys c @
                 [\<lparr>ck_Name = key_Name k,
                   ck_PublicKey = (case key_PublicKey k of Some p \<Rightarrow> p | None \<Rightarrow> g)\<rparr>]\<rparr>))"
  using assms
  by (simp add: AddSSHKey_def ListSSHKeys_Ok AddSSHKey_scan_find AddSSHKeyWithResponse_def
      ok_response_def SSHKey_of_def sent_def Let_def)

lemma AddSSHKey_not_created:
  assumes "key_Name k \<noteq> []"
    and "find (\<lambda>e. ck_Name e = key_Name k \<or> key_PublicKey k = Some (ck_PublicKey e))
           (cloud_keys c) = None"
    and "\<forall>g. rpAdd \<noteq> Ok g"
  shows "\<exists>err c'. AddSSHKey (Ok ()) rpAdd k c = (Inl err, c')"
proof (cases rpAdd)
  case (Ok g)
  with assms(3) show ?thesis by simp
next
  case (Fail code m)
  with assms(1,2) show ?thesis
    by (simp add: AddSSHKey_def ListSSHKeys_Ok AddSSHKey_scan_find AddSSHKeyWithResponse_def
        error_response_def)
next
  case (NoAnswer e)
  with assms(1,2) show ?thesis
    by (simp add: AddSSHKey_def ListSSHKeys_Ok AddSSHKey_scan_find AddSSHKeyWithResponse_def)
qed

lemma AddSSHKey_again:
  assumes n: "key_Name k \<noteq> []"
    and r: "AddSSHKey (Ok ()) rpAdd k c = (Inr k1, c1)"
  shows "AddSSHKey (Ok ()) rpAdd' k c1 = (Inr k1, sent ListSSHKeysRequest c1)"
proof (cases "find (\<lambda>e. ck_Name e = key_Name k \<or> key_PublicKey k = Some (ck_PublicKey e))
           (cloud_keys c)")
  case (Some e)
  from AddSSHKey_found [OF n Some, of rpAdd] r
  have k1: "k1 = SSHKey_of e" and c1: "c1 = sent ListSSHKeysRequest c"
    and ok: "\<not> (ck_Name e = key_Name k \<and> key_PublicKey k \<noteq> None \<and>
               key_PublicKey k \<noteq> Some (ck_PublicKey e))"
    by (auto split: if_splits)
  from Some c1 have "find (\<lambda>e. ck_Name e = key_Name k \<or> key_PublicKey k = Some (ck_PublicKey e))
           (cloud_keys c1) = Some e"
    by (simp add: sent_def)
  from AddSSHKey_found [OF n this, of rpAdd'] ok k1 show ?thesis by simp
next
  case None
  show ?thesis
  proof (cases "\<exists>g. rpAdd = Ok g")
    case False
    with AddSSHKey_not_created [OF n None, of rpAdd] r show ?thesis by simp
  next
    case True
    then obtain g where g: "rpAdd = Ok g" ..
    let ?new = "\<lparr>ck_Name = key_Name k,
                   ck_PublicKey = (case key_PublicKey k of Some p \<Rightarrow> p | None \<Rightarrow> g)\<rparr>"
    from AddSSHKey_created [OF n None, of g] r g
    have k1: "k1 = SSHKey_of ?new"
      and c1: "cloud_keys c1 = cloud_keys c @ [?new]"
      by (auto simp add: sent_def)
    from None have "AddSSHKey_scan k (map SSHKey_of (cloud_keys c)) = None"
      by (simp add: AddSSHKey_scan_find)
    then have "AddSSHKey_scan k (map SSHKey_of (cloud_keys c1)) = AddSSHKey_scan k [SSHKey_of ?new]"
      by (simp add: c1 AddSSHKey_scan_append)
    also have "\<dots> = Some (Inr (SSHKey_of ?new))"
      by (simp add: SSHKey_of_def split: option.splits)
    finally show ?thesis
      using n k1 by (simp add: AddSSHKey_def ListSSHKeys_Ok)
  qed
qed

text \<open>
  What \<open>AddSSHKey\<close> does, for a key with a name: it acts on the first key of the
  provider's listing that has the same name or the supplied public key. If that key has
  the same name and another public key, the call fails with code 400; otherwise it
  returns that key. And whenever a call returns a key, a second call with the same input
  returns the same key and adds nothing.
\<close>

lemma AddSSHKey_first_match:
  assumes "key_Name k \<noteq> []"
  shows "(\<forall>e. find (\<lambda>e. ck_Name e = key_Name k \<or> key_PublicKey k = Some (ck_PublicKey e))
               (cloud_keys c) = Some e \<longrightarrow>
            AddSSHKey (Ok ()) rpAdd k c =
              (if ck_Name e = key_Name k \<and> key_PublicKey k \<noteq> None \<and>
                  key_PublicKey k \<noteq> Some (ck_PublicKey e)
               then Inl (TypesError 400
                      ''SSH key with the same name already exists with a different public key''
                      [] LambdaLabsProvider None)
               else Inr (SSHKey_of e),
               sent ListSSHKeysRequest c))
       \<and> (\<forall>k1 c1. AddSSHKey (Ok ()) rpAdd k c = (Inr k1, c1) \<longrightarrow>
            AddSSHKey (Ok ()) rpAdd' k c1 = (Inr k1, sent ListSSHKeysRequest c1))"
proof (intro conjI allI impI)
  fix e
  assume "find (\<lambda>e. ck_Name e = key_Name k \<or> key_PublicKey k = Some (ck_PublicKey e))
               (cloud_keys c) = Some e"
  from AddSSHKey_found [OF assms this, of rpAdd]
  show "AddSSHKey (Ok ()) rpAdd k c =
              (if ck_Name e = key_Name k \<and> key_PublicKey k \<noteq> None \<and>
                  key_PublicKey k \<noteq> Some (ck_PublicKey e)
               then Inl (TypesError 400
                      ''SSH key with the same name already exists with a different public key''
                      [] LambdaLabsProvider None)
               else Inr (SSHKey_of e),
               sent ListSSHKeysRequest c)"
    by (simp add: err400_def)
next
  fix k1 c1
  assume "AddSSHKey (Ok ()) rpAdd k c = (Inr k1, c1)"
  with assms show "AddSSHKey (Ok ()) rpAdd' k c1 = (Inr k1, sent ListSSHKeysRequest c1)"
    by (rule AddSSHKey_again)
qed

lemma blobs_differ: "bob_blob \<noteq> carol_blob"
  by (simp add: bob_blob_def carol_blob_def)

text \<open>
  Claim C4 fails on the code. The provider holds key b with public key P and key a with
  public key Q, and \<open>AddSSHKey\<close> is called with name a and public key P: a key of the
  same name exists and the supplied public key differs from its public key, so the call
  is to fail with code 400. When the provider lists b before a, the scan meets b first,
  which has the supplied public key, and the call returns b. When the provider lists the
  same two keys with a first, the call does fail with code 400 ("SSH key with the same
  name already exists with a different public key"): the outcome depends on the order
  of the listing.
\<close>

theorem AddSSHKey_listing_order:
  "cloud_keys two_key_cloud =
     [\<lparr>ck_Name = ''b'', ck_PublicKey = ''ssh-ed25519 '' @ bob_blob\<rparr>,
      \<lparr>ck_Name = ''a'', ck_PublicKey = ''ssh-ed25519 '' @ carol_blob\<rparr>] \<and>
   cloud_keys two_key_cloud_reversed =
     [\<lparr>ck_Name = ''a'', ck_PublicKey = ''ssh-ed25519 '' @ carol_blob\<rparr>,
      \<lparr>ck_Name = ''b'', ck_PublicKey = ''ssh-ed25519 '' @ bob_blob\<rparr>] \<and>
   key_Name conflicting_key = ''a'' \<and>
   key_PublicKey conflicting_key = Some (''ssh-ed25519 '' @ bob_blob) \<and>
   fst (AddSSHKey (Ok ()) (Ok []) conflicting_key two_key_cloud) =
     Inr \<lparr>key_Name = ''b'', key_PrivateKey = None,
          key_PublicKey = Some (''ssh-ed25519 '' @ bob_blob), key_CreatedAt = None\<rparr> \<and>
   fst (AddSSHKey (Ok ()) (Ok []) conflicting_key two_key_cloud_reversed) =
     Inl (TypesError 400
            ''SSH key with the same name already exists with a different public key''
            [] LambdaLabsProvider None)"
  using blobs_differ
  by (simp add: two_key_cloud_def two_key_cloud_reversed_def conflicting_key_def AddSSHKey_def
      ListSSHKeys_def ListSSHKeysWithResponse_def ok_response_def SSHKey_of_def err400_def)

section \<open>The credential resolver\<close>

lemma called_keys [simp]: "db_ssh_keys (called q db) = db_ssh_keys db"
  by (simp add: called_def)

lemma called_sessions [simp]: "db_sessions (called q db) = db_sessions db"
  by (simp add: called_def)

lemma called_calls [simp]: "db_calls (called q db) = db_calls db @ [q]"
  by (simp add: called_def)

subsection \<open>The blocks of fetchCredentials\<close>

lemma fetchCredentials_byName_hit:
  assumes "ce_byname_fault ev = None"
    and "find (\<lambda>r. sk_Name r = name \<and> sk_OwnerID r = accountID) (db_ssh_keys db) = Some row"
  shows "fetchCredentials_byName ev accountID (Some name) db =
           (Some (Inr (key_of_row row)), called Q_SSHKeyGetByName db)"
  using assms by (simp add: fetchCredentials_byName_def SSHKeyGetByName_def)

lemma fetchCredentials_byName_miss:
  assumes "case sshKeyName of None \<Rightarrow> True
           | Some name \<Rightarrow> ce_byname_fault ev = None \<and>
               find (\<lambda>r. sk_Name r = name \<and> sk_OwnerID r = accountID) (db_ssh_keys db) = None"
  shows "fetchCredentials_byName ev accountID sshKeyName db =
           (None, case sshKeyName of None \<Rightarrow> db | Some name \<Rightarrow> called Q_SSHKeyGetByName db)"
  using assms
  by (cases sshKeyName) (simp_all add: fetchCredentials_byName_def SSHKeyGetByName_def)

lemma fetchCredentials_byPublicKey_hit:
  assumes "ce_ParseAuthorizedKey ev pub = Inr pk"
    and "ce_bykey_fault ev = None"
    and "find (\<lambda>r. sk_PublicKey r = ce_MarshalAuthorizedKey ev pk \<and> sk_OwnerID r = accountID)
           (db_ssh_keys db) = Some row"
  shows "fetchCredentials_byPublicKey ev accountID (Some pub) db =
           (Some (Inr (key_of_row row)), called Q_SSHKeyGetByPublicKey db)"
  using assms by (simp add: fetchCredentials_byPublicKey_def SSHKeyGetByPublicKey_def)

lemma fetchCredentials_byPublicKey_miss:
  assumes "ce_ParseAuthorizedKey ev pub = Inr pk"
    and "ce_bykey_fault ev = None"
    and "find (\<lambda>r. sk_PublicKey r = ce_MarshalAuthorizedKey ev pk \<and> sk_OwnerID r = accountID)
           (db_ssh_keys db) = None"
  shows "fetchCredentials_byPublicKey ev accountID (Some pub) db =
           (None, called Q_SSHKeyGetByPublicKey db)"
  using assms by (simp add: fetchCredentials_byPublicKey_def SSHKeyGetByPublicKey_def)

lemma fetchCredentials_create_saved:
  assumes "ce_add_fault ev = None"
    and "\<not> list_ex (\<lambda>r. sk_OwnerID r = accountID \<and>
             (sk_Name r = (case sshKeyName of None \<Rightarrow> ''uw:'' @ ce_phrase ev
                           | Some n \<Rightarrow> if n = [] then ''uw:'' @ ce_phrase ev else n) \<or>
              sk_PublicKey r = pub)) (db_ssh_keys db)"
  shows "fetchCredentials_create ev accountID sshKeyName (Some pub) db =
           (Inr \<lparr>key_Name = (case sshKeyName of None \<Rightarrow> ''uw:'' @ ce_phrase ev
                           | Some n \<Rightarrow> if n = [] then ''uw:'' @ ce_phrase ev else n),
                 key_PrivateKey = None, key_PublicKey = Some pub, key_CreatedAt = None\<rparr>,
            called Q_SSHKeyAdd
              (db\<lparr>db_ssh_keys := db_ssh_keys db @
                   [\<lparr>sk_ID = ce_key_id ev,
                     sk_Name = (case sshKeyName of None \<Rightarrow> ''uw:'' @ ce_phrase ev
                           | Some n \<Rightarrow> if n = [] then ''uw:'' @ ce_phrase ev else n),
                     sk_OwnerID = accountID, sk_CreatedAt = ce_now ev,
                     sk_PublicKey = pub\<rparr>]\<rparr>))"
  using assms
  by (simp add: fetchCredentials_create_def saveSSHKey_def SSHKeyAdd_def Let_def)

lemma fetchCredentials_create_refused:
  assumes "ce_add_fault ev \<noteq> None \<or>
      list_ex (\<lambda>r. sk_OwnerID r = accountID \<and>
             (sk_Name r = (case sshKeyName of None \<Rightarrow> ''uw:'' @ ce_phrase ev
                           | Some n \<Rightarrow> if n = [] then ''uw:'' @ ce_phrase ev else n) \<or>
              sk_PublicKey r = pub)) (db_ssh_keys db)"
  shows "fetchCredentials_create ev accountID sshKeyName (Some pub) db =
           (Inl (TypesError 500 ''Failed to save SSH key'' [] [] None), called Q_SSHKeyAdd db)"
proof (cases "ce_add_fault ev")
  case (Some e)
  then show ?thesis
    by (simp add: fetchCredentials_create_def saveSSHKey_def SSHKeyAdd_def Let_def)
next
  case None
  with assms show ?thesis
    by (simp add: fetchCredentials_create_def saveSSHKey_def SSHKeyAdd_def Let_def)
qed

lemma fetchCredentials_create_result:
  assumes "fetchCredentials_create ev accountID sshKeyName (Some pub) db = (Inr key, db')"
  shows "key_PublicKey key = Some pub \<and>
         db_ssh_keys db' = db_ssh_keys db @
           [\<lparr>sk_ID = ce_key_id ev, sk_Name = key_Name key, sk_OwnerID = accountID,
             sk_CreatedAt = ce_now ev, sk_PublicKey = pub\<rparr>] \<and>
         db_calls db' = db_calls db @ [Q_SSHKeyAdd]"
proof (cases "ce_add_fault ev")
  case (Some e)
  with assms show ?thesis
    by (simp add: fetchCredentials_create_def saveSSHKey_def SSHKeyAdd_def Let_def)
next
  case None
  let ?name = "case sshKeyName of None \<Rightarrow> ''uw:'' @ ce_phrase ev
                           | Some n \<Rightarrow> if n = [] then ''uw:'' @ ce_phrase ev else n"
  show ?thesis
  proof (cases "list_ex (\<lambda>r. sk_OwnerID r = accountID \<and>
             (sk_Name r = ?name \<or> sk_PublicKey r = pub)) (db_ssh_keys db)")
    case True
    with None assms show ?thesis
      by (simp add: fetchCredentials_create_def saveSSHKey_def SSHKeyAdd_def Let_def)
  next
    case False
    from fetchCredentials_create_saved [OF None False] assms show ?thesis
      by auto
  qed
qed

lemma fetchCredentials_blocks:
  "fst (fetchCredentials ev a n p db) =
     (if n = None \<and> p = None then
        Inl (TypesError 400 ''Either Key name or Public Key must be provided'' [] [] None)
      else case fst (fetchCredentials_byName ev a n db) of
             Some r \<Rightarrow> r
           | None \<Rightarrow>
               (case fst (fetchCredentials_byPublicKey ev a p
                            (snd (fetchCredentials_byName ev a n db))) of
                  Some r \<Rightarrow> r
                | None \<Rightarrow>
                    fst (fetchCredentials_create ev a n p
                           (snd (fetchCredentials_byPublicKey ev a p
                                   (snd (fetchCredentials_byName ev a n db)))))))"
proof -
  obtain r1 d1 where 1: "fetchCredentials_byName ev a n db = (r1, d1)"
    by (cases "fetchCredentials_byName ev a n db")
  obtain r2 d2 where 2: "fetchCredentials_byPublicKey ev a p d1 = (r2, d2)"
    by (cases "fetchCredentials_byPublicKey ev a p d1")
  show ?thesis
    by (cases r1; cases r2) (simp_all add: fetchCredentials_def 1 2)
qed

subsection \<open>The rows of one owner\<close>

lemma find_own:
  "find (\<lambda>k. P k \<and> sk_OwnerID k = a) ks = find P (filter (\<lambda>k. sk_OwnerID k = a) ks)"
  by (induction ks) auto

lemma list_ex_own:
  "list_ex (\<lambda>k. sk_OwnerID k = a \<and> P k) ks = list_ex P (filter (\<lambda>k. sk_OwnerID k = a) ks)"
  by (induction ks) auto

lemma find_Some_own:
  assumes "find (\<lambda>k. P k \<and> sk_OwnerID k = a) ks = Some row"
  shows "row \<in> set ks \<and> P row \<and> sk_OwnerID row = a"
  using assms by (induction ks) (auto split: if_splits)

lemma byName_keys:
  "db_ssh_keys (snd (fetchCredentials_byName ev a n db)) = db_ssh_keys db"
  by (simp add: fetchCredentials_byName_def SSHKeyGetByName_def split: option.splits)

lemma byName_own:
  assumes "filter (\<lambda>k. sk_OwnerID k = a) (db_ssh_keys other) =
           filter (\<lambda>k. sk_OwnerID k = a) (db_ssh_keys db)"
  shows "fst (fetchCredentials_byName ev a n other) = fst (fetchCredentials_byName ev a n db)"
  using assms
  by (simp add: fetchCredentials_byName_def SSHKeyGetByName_def find_own split: option.splits)

lemma byPublicKey_keys:
  "db_ssh_keys (snd (fetchCredentials_byPublicKey ev a p db)) = db_ssh_keys db"
  by (simp add: fetchCredentials_byPublicKey_def SSHKeyGetByPublicKey_def Let_def
      split: option.splits sum.splits)

lemma byPublicKey_own:
  assumes "filter (\<lambda>k. sk_OwnerID k = a) (db_ssh_keys other) =
           filter (\<lambda>k. sk_OwnerID k = a) (db_ssh_keys db)"
  shows "fst (fetchCredentials_byPublicKey ev a p other) =
         fst (fetchCredentials_byPublicKey ev a p db)"
  using assms
  by (simp add: fetchCredentials_byPublicKey_def SSHKeyGetByPublicKey_def Let_def find_own
      split: option.splits sum.splits)

lemma create_own:
  assumes "filter (\<lambda>k. sk_OwnerID k = a) (db_ssh_keys other) =
           filter (\<lambda>k. sk_OwnerID k = a) (db_ssh_keys db)"
  shows "fst (fetchCredentials_create ev a n p other) = fst (fetchCredentials_create ev a n p db)"
  using assms
  by (simp add: fetchCredentials_create_def saveSSHKey_def SSHKeyAdd_def Let_def list_ex_own
      split: option.splits)

lemma byName_row:
  assumes "fetchCredentials_byName ev a (Some name) db = (Some (Inr key), db')"
  shows "\<exists>row. row \<in> set (db_ssh_keys db) \<and>
           sk_OwnerID row = a \<and> sk_Name row = name \<and> key = key_of_row row"
proof (cases "ce_byname_fault ev")
  case (Some e)
  with assms show ?thesis
    by (simp add: fetchCredentials_byName_def SSHKeyGetByName_def split: if_splits)
next
  case None
  show ?thesis
  proof (cases "find (\<lambda>k. sk_Name k = name \<and> sk_OwnerID k = a) (db_ssh_keys db)")
    case N: None
    with None assms show ?thesis
      by (simp add: fetchCredentials_byName_def SSHKeyGetByName_def)
  next
    case (Some row)
    from find_Some_own [OF Some]
    have r: "row \<in> set (db_ssh_keys db) \<and> sk_Name row = name \<and> sk_OwnerID row = a" .
    from None Some assms have "key = key_of_row row"
      by (simp add: fetchCredentials_byName_def SSHKeyGetByName_def)
    with r show ?thesis by blast
  qed
qed

lemma byPublicKey_row:
  assumes p: "ce_ParseAuthorizedKey ev pub = Inr pk"
    and r: "fetchCredentials_byPublicKey ev a (Some pub) db = (Some (Inr key), db')"
  shows "\<exists>row. row \<in> set (db_ssh_keys db) \<and>
           sk_OwnerID row = a \<and> sk_PublicKey row = ce_MarshalAuthorizedKey ev pk \<and>
           key = key_of_row row"
proof (cases "ce_bykey_fault ev")
  case (Some e)
  with p r show ?thesis
    by (simp add: fetchCredentials_byPublicKey_def SSHKeyGetByPublicKey_def split: if_splits)
next
  case None
  show ?thesis
  proof (cases "find (\<lambda>k. sk_PublicKey k = ce_MarshalAuthorizedKey ev pk \<and> sk_OwnerID k = a)
                  (db_ssh_keys db)")
    case N: None
    with None p r show ?thesis
      by (simp add: fetchCredentials_byPublicKey_def SSHKeyGetByPublicKey_def)
  next
    case (Some row)
    from find_Some_own [OF Some]
    have w: "row \<in> set (db_ssh_keys db) \<and> sk_PublicKey row = ce_MarshalAuthorizedKey ev pk \<and>
        sk_OwnerID row = a" .
    from None Some p r have "key = key_of_row row"
      by (simp add: fetchCredentials_byPublicKey_def SSHKeyGetByPublicKey_def)
    with w show ?thesis by blast
  qed
qed

subsection \<open>The example key lines\<close>

lemma example_parse_bob: "example_ParseAuthorizedKey bob_line = Inr bob_blob"
  by (simp add: example_ParseAuthorizedKey_def bob_line_def bob_blob_def base64_alphabet_def)

lemma example_parse_carol: "example_ParseAuthorizedKey carol_line = Inr carol_blob"
  by (simp add: example_ParseAuthorizedKey_def carol_line_def carol_blob_def
      base64_alphabet_def)


subsection \<open>Lookups are scoped by owner\<close>

text \<open>
  Claim C6. The lookups of \<open>fetchCredentials\<close> return rows of the account only: a
  key that the block by name returns is the key of a stored row of the account with the
  name asked for, and a key that the block by public key returns is the key of a stored
  row of the account with the canonical form of the parsed key. Rows of other owners do
  not affect the result: on any two stores that hold the same rows of the account, in the
  same order, \<open>fetchCredentials\<close> returns the same result for the account, whatever
  the other rows are.
\<close>

theorem fetchCredentials_owner_scoped:
  "(\<forall>name key db'.
       fetchCredentials_byName ev accountID (Some name) db = (Some (Inr key), db') \<longrightarrow>
       (\<exists>row. row \<in> set (db_ssh_keys db) \<and> sk_OwnerID row = accountID \<and>
              sk_Name row = name \<and> key = key_of_row row))
   \<and> (\<forall>pub pk key db'.
       ce_ParseAuthorizedKey ev pub = Inr pk \<and>
       fetchCredentials_byPublicKey ev accountID (Some pub) db = (Some (Inr key), db') \<longrightarrow>
       (\<exists>row. row \<in> set (db_ssh_keys db) \<and> sk_OwnerID row = accountID \<and>
              sk_PublicKey row = ce_MarshalAuthorizedKey ev pk \<and> key = key_of_row row))
   \<and> (\<forall>other.
       filter (\<lambda>k. sk_OwnerID k = accountID) (db_ssh_keys other) =
       filter (\<lambda>k. sk_OwnerID k = accountID) (db_ssh_keys db) \<longrightarrow>
       fst (fetchCredentials ev accountID sshKeyName sshPublicKey other) =
       fst (fetchCredentials ev accountID sshKeyName sshPublicKey db))"
proof (intro conjI allI impI)
  fix name key db'
  assume "fetchCredentials_byName ev accountID (Some name) db = (Some (Inr key), db')"
  then show "\<exists>row. row \<in> set (db_ssh_keys db) \<and> sk_OwnerID row = accountID \<and>
              sk_Name row = name \<and> key = key_of_row row"
    by (rule byName_row)
next
  fix pub pk key db'
  assume h: "ce_ParseAuthorizedKey ev pub = Inr pk \<and>
       fetchCredentials_byPublicKey ev accountID (Some pub) db = (Some (Inr key), db')"
  from h have p: "ce_ParseAuthorizedKey ev pub = Inr pk"
    and r: "fetchCredentials_byPublicKey ev accountID (Some pub) db = (Some (Inr key), db')"
    by blast+
  from byPublicKey_row [OF p r]
  show "\<exists>row. row \<in> set (db_ssh_keys db) \<and> sk_OwnerID row = accountID \<and>
              sk_PublicKey row = ce_MarshalAuthorizedKey ev pk \<and> key = key_of_row row" .
next
  fix other :: database
  assume F: "filter (\<lambda>k. sk_OwnerID k = accountID) (db_ssh_keys other) =
       filter (\<lambda>k. sk_OwnerID k = accountID) (db_ssh_keys db)"
  let ?o1 = "snd (fetchCredentials_byName ev accountID sshKeyName other)"
  let ?d1 = "snd (fetchCredentials_byName ev accountID sshKeyName db)"
  let ?o2 = "snd (fetchCredentials_byPublicKey ev accountID sshPublicKey ?o1)"
  let ?d2 = "snd (fetchCredentials_byPublicKey ev accountID sshPublicKey ?d1)"
  have 1: "fst (fetchCredentials_byName ev accountID sshKeyName other) =
           fst (fetchCredentials_byName ev accountID sshKeyName db)"
    using F by (rule byName_own)
  have F1: "filter (\<lambda>k. sk_OwnerID k = accountID) (db_ssh_keys ?o1) =
           filter (\<lambda>k. sk_OwnerID k = accountID) (db_ssh_keys ?d1)"
    using F by (simp only: byName_keys)
  have 2: "fst (fetchCredentials_byPublicKey ev accountID sshPublicKey ?o1) =
           fst (fetchCredentials_byPublicKey ev accountID sshPublicKey ?d1)"
    using F1 by (rule byPublicKey_own)
  have F2: "filter (\<lambda>k. sk_OwnerID k = accountID) (db_ssh_keys ?o2) =
           filter (\<lambda>k. sk_OwnerID k = accountID) (db_ssh_keys ?d2)"
    using F1 by (simp only: byPublicKey_keys)
  have 3: "fst (fetchCredentials_create ev accountID sshKeyName sshPublicKey ?o2) =
           fst (fetchCredentials_create ev accountID sshKeyName sshPublicKey ?d2)"
    using F2 by (rule create_own)
  show "fst (fetchCredentials ev accountID sshKeyName sshPublicKey other) =
       fst (fetchCredentials ev accountID sshKeyName sshPublicKey db)"
    by (simp only: fetchCredentials_blocks 1 2 3)
qed

text \<open>
  A store in which eve's key has the name and the public key of bob's key and is listed
  first: bob gets his own key by name and by public key, as on the store without eve's
  row, and alice, who has no key, gets none by that name.
\<close>

theorem fetchCredentials_owner_scoped_witness:
  "db_ssh_keys shared_db = [eve_row, bob_row] \<and> db_ssh_keys bob_db = [bob_row] \<and>
   sk_OwnerID eve_row = ''eve'' \<and> sk_Name eve_row = sk_Name bob_row \<and>
   sk_PublicKey eve_row = sk_PublicKey bob_row \<and>
   fetchCredentials_byName example_cred_env ''bob'' (Some ''deploy'') shared_db =
     (Some (Inr (key_of_row bob_row)), called Q_SSHKeyGetByName shared_db) \<and>
   (\<exists>row. row \<in> set (db_ssh_keys shared_db) \<and> sk_OwnerID row = ''bob'' \<and>
      sk_Name row = ''deploy'' \<and> key_of_row bob_row = key_of_row row) \<and>
   fetchCredentials_byPublicKey example_cred_env ''bob'' (Some bob_line) shared_db =
     (Some (Inr (key_of_row bob_row)), called Q_SSHKeyGetByPublicKey shared_db) \<and>
   (\<exists>row. row \<in> set (db_ssh_keys shared_db) \<and> sk_OwnerID row = ''bob'' \<and>
      sk_PublicKey row = example_MarshalAuthorizedKey bob_blob \<and>
      key_of_row bob_row = key_of_row row) \<and>
   fst (fetchCredentials example_cred_env ''bob'' (Some ''deploy'') None shared_db) =
     Inr (key_of_row bob_row) \<and>
   fst (fetchCredentials example_cred_env ''bob'' None (Some bob_line) shared_db) =
     Inr (key_of_row bob_row) \<and>
   fst (fetchCredentials example_cred_env ''alice'' (Some ''deploy'') None shared_db) =
     Inl (TypesError 400 ''SSH key not found'' [] [] None)"
proof -
  have e: "ce_ParseAuthorizedKey example_cred_env = example_ParseAuthorizedKey"
    "ce_MarshalAuthorizedKey example_cred_env = example_MarshalAuthorizedKey"
    "ce_byname_fault example_cred_env = None" "ce_bykey_fault example_cred_env = None"
    by (simp_all add: example_cred_env_def)
  have rows: "db_ssh_keys shared_db = [eve_row, bob_row]" "db_ssh_keys bob_db = [bob_row]"
    "sk_OwnerID eve_row = ''eve''" "sk_OwnerID bob_row = ''bob''"
    "sk_Name eve_row = ''deploy''" "sk_Name bob_row = ''deploy''"
    "sk_PublicKey eve_row = sk_PublicKey bob_row"
    "sk_PublicKey bob_row = example_MarshalAuthorizedKey bob_blob"
    by (simp_all add: shared_db_def bob_db_def eve_row_def bob_row_def
        example_MarshalAuthorizedKey_def)
  have n: "fetchCredentials_byName example_cred_env ''bob'' (Some ''deploy'') shared_db =
     (Some (Inr (key_of_row bob_row)), called Q_SSHKeyGetByName shared_db)"
    by (rule fetchCredentials_byName_hit) (simp_all add: e rows)
  have k: "fetchCredentials_byPublicKey example_cred_env ''bob'' (Some bob_line) shared_db =
     (Some (Inr (key_of_row bob_row)), called Q_SSHKeyGetByPublicKey shared_db)"
    by (rule fetchCredentials_byPublicKey_hit [where pk = bob_blob])
      (simp_all add: e rows example_parse_bob)
  have p: "ce_ParseAuthorizedKey example_cred_env bob_line = Inr bob_blob"
    by (simp add: e example_parse_bob)
  have bob_same: "filter (\<lambda>k. sk_OwnerID k = ''bob'') (db_ssh_keys shared_db) =
      filter (\<lambda>k. sk_OwnerID k = ''bob'') (db_ssh_keys bob_db)"
    by (simp add: rows)
  have alice_same: "filter (\<lambda>k. sk_OwnerID k = ''alice'') (db_ssh_keys shared_db) =
      filter (\<lambda>k. sk_OwnerID k = ''alice'') (db_ssh_keys bob_db)"
    by (simp add: rows)
  note T1 = fetchCredentials_owner_scoped [of example_cred_env "''bob''" shared_db
      "Some ''deploy''" None]
  note T2 = fetchCredentials_owner_scoped [of example_cred_env "''bob''" bob_db
      "Some ''deploy''" None]
  note T3 = fetchCredentials_owner_scoped [of example_cred_env "''bob''" bob_db
      None "Some bob_line"]
  note T4 = fetchCredentials_owner_scoped [of example_cred_env "''alice''" bob_db
      "Some ''deploy''" None]
  from T1 n have 1: "\<exists>row. row \<in> set (db_ssh_keys shared_db) \<and> sk_OwnerID row = ''bob'' \<and>
      sk_Name row = ''deploy'' \<and> key_of_row bob_row = key_of_row row"
    by blast
  from T1 p k have 2: "\<exists>row. row \<in> set (db_ssh_keys shared_db) \<and> sk_OwnerID row = ''bob'' \<and>
      sk_PublicKey row = ce_MarshalAuthorizedKey example_cred_env bob_blob \<and>
      key_of_row bob_row = key_of_row row"
    by blast
  from T2 bob_same
  have "fst (fetchCredentials example_cred_env ''bob'' (Some ''deploy'') None shared_db) =
        fst (fetchCredentials example_cred_env ''bob'' (Some ''deploy'') None bob_db)"
    by blast
  then have 3: "fst (fetchCredentials example_cred_env ''bob'' (Some ''deploy'') None shared_db) =
     Inr (key_of_row bob_row)"
    by (simp add: fetchCredentials_def fetchCredentials_byName_def SSHKeyGetByName_def e rows)
  from T3 bob_same
  have "fst (fetchCredentials example_cred_env ''bob'' None (Some bob_line) shared_db) =
        fst (fetchCredentials example_cred_env ''bob'' None (Some bob_line) bob_db)"
    by blast
  then have 4: "fst (fetchCredentials example_cred_env ''bob'' None (Some bob_line) shared_db) =
     Inr (key_of_row bob_row)"
    by (simp add: fetchCredentials_def fetchCredentials_byName_def
        fetchCredentials_byPublicKey_def SSHKeyGetByPublicKey_def e rows example_parse_bob)
  from T4 alice_same
  have "fst (fetchCredentials example_cred_env ''alice'' (Some ''deploy'') None shared_db) =
        fst (fetchCredentials example_cred_env ''alice'' (Some ''deploy'') None bob_db)"
    by blast
  then have 5: "fst (fetchCredentials example_cred_env ''alice'' (Some ''deploy'') None shared_db) =
     Inl (TypesError 400 ''SSH key not found'' [] [] None)"
    by (simp add: fetchCredentials_def fetchCredentials_byName_def SSHKeyGetByName_def
        fetchCredentials_byPublicKey_def fetchCredentials_create_def e rows)
  from 2 have c2: "\<exists>row. row \<in> set (db_ssh_keys shared_db) \<and> sk_OwnerID row = ''bob'' \<and>
      sk_PublicKey row = example_MarshalAuthorizedKey bob_blob \<and>
      key_of_row bob_row = key_of_row row"
    by (simp only: e)
  have r: "db_ssh_keys shared_db = [eve_row, bob_row] \<and> db_ssh_keys bob_db = [bob_row] \<and>
   sk_OwnerID eve_row = ''eve'' \<and> sk_Name eve_row = sk_Name bob_row \<and>
   sk_PublicKey eve_row = sk_PublicKey bob_row"
    by (simp add: rows)
  from r n 1 k c2 3 4 5 show ?thesis
    by blast
qed

subsection \<open>The order of the lookups\<close>

text \<open>
  What \<open>fetchCredentials\<close> does while each query it sends is answered (no driver
  failure). A row of the account with the supplied name is returned, and the lookup by
  name is then the only query sent, whatever public key is supplied.
\<close>

lemma fetchCredentials_found_by_name:
  assumes "ce_byname_fault ev = None"
    and "find (\<lambda>r. sk_Name r = name \<and> sk_OwnerID r = accountID) (db_ssh_keys db) = Some row"
  shows "fetchCredentials ev accountID (Some name) sshPublicKey db =
           (Inr (key_of_row row), called Q_SSHKeyGetByName db)"
  using assms by (simp add: fetchCredentials_def fetchCredentials_byName_hit)

text \<open>
  With no name, or no row of the account with the name, a supplied public key that parses
  is looked up by its canonical form; a row of the account that holds the canonical form
  is returned and nothing is stored.
\<close>

lemma fetchCredentials_found_by_public_key:
  assumes miss: "case sshKeyName of None \<Rightarrow> True
           | Some name \<Rightarrow> ce_byname_fault ev = None \<and>
               find (\<lambda>r. sk_Name r = name \<and> sk_OwnerID r = accountID) (db_ssh_keys db) = None"
    and p: "ce_ParseAuthorizedKey ev pub = Inr pk"
    and b: "ce_bykey_fault ev = None"
    and f: "find (\<lambda>r. sk_PublicKey r = ce_MarshalAuthorizedKey ev pk \<and> sk_OwnerID r = accountID)
           (db_ssh_keys db) = Some row"
  shows "fetchCredentials ev accountID sshKeyName (Some pub) db =
           (Inr (key_of_row row),
            called Q_SSHKeyGetByPublicKey
              (case sshKeyName of None \<Rightarrow> db | Some name \<Rightarrow> called Q_SSHKeyGetByName db))"
proof -
  let ?db1 = "case sshKeyName of None \<Rightarrow> db | Some name \<Rightarrow> called Q_SSHKeyGetByName db"
  have keys1: "db_ssh_keys ?db1 = db_ssh_keys db"
    by (simp split: option.splits)
  from miss have m1: "fetchCredentials_byName ev accountID sshKeyName db = (None, ?db1)"
    by (rule fetchCredentials_byName_miss)
  from f keys1
  have f1: "find (\<lambda>r. sk_PublicKey r = ce_MarshalAuthorizedKey ev pk \<and> sk_OwnerID r = accountID)
      (db_ssh_keys ?db1) = Some row"
    by metis
  from fetchCredentials_byPublicKey_hit [OF p b f1]
  have hit: "fetchCredentials_byPublicKey ev accountID (Some pub) ?db1 =
           (Some (Inr (key_of_row row)), called Q_SSHKeyGetByPublicKey ?db1)" .
  from m1 hit show ?thesis
    by (simp add: fetchCredentials_def)
qed

text \<open>
  With no such row either, the create path is taken: a row with the supplied or the
  generated name and the supplied public key is inserted. The store accepts it when the
  account has no row with that name and none with that public key as supplied; then the
  new key is returned.
\<close>

lemma fetchCredentials_new_key:
  assumes miss: "case sshKeyName of None \<Rightarrow> True
           | Some name \<Rightarrow> ce_byname_fault ev = None \<and>
               find (\<lambda>r. sk_Name r = name \<and> sk_OwnerID r = accountID) (db_ssh_keys db) = None"
    and p: "ce_ParseAuthorizedKey ev pub = Inr pk"
    and b: "ce_bykey_fault ev = None"
    and f: "find (\<lambda>r. sk_PublicKey r = ce_MarshalAuthorizedKey ev pk \<and> sk_OwnerID r = accountID)
           (db_ssh_keys db) = None"
    and a: "ce_add_fault ev = None"
    and u: "\<not> list_ex (\<lambda>r. sk_OwnerID r = accountID \<and>
             (sk_Name r = (case sshKeyName of None \<Rightarrow> ''uw:'' @ ce_phrase ev
                           | Some n \<Rightarrow> if n = [] then ''uw:'' @ ce_phrase ev else n) \<or>
              sk_PublicKey r = pub)) (db_ssh_keys db)"
  shows "fst (fetchCredentials ev accountID sshKeyName (Some pub) db) =
           Inr \<lparr>key_Name = (case sshKeyName of None \<Rightarrow> ''uw:'' @ ce_phrase ev
                           | Some n \<Rightarrow> if n = [] then ''uw:'' @ ce_phrase ev else n),
                 key_PrivateKey = None, key_PublicKey = Some pub, key_CreatedAt = None\<rparr> \<and>
         db_ssh_keys (snd (fetchCredentials ev accountID sshKeyName (Some pub) db)) =
           db_ssh_keys db @
             [\<lparr>sk_ID = ce_key_id ev,
               sk_Name = (case sshKeyName of None \<Rightarrow> ''uw:'' @ ce_phrase ev
                           | Some n \<Rightarrow> if n = [] then ''uw:'' @ ce_phrase ev else n),
               sk_OwnerID = accountID, sk_CreatedAt = ce_now ev, sk_PublicKey = pub\<rparr>]"
proof -
  let ?name = "case sshKeyName of None \<Rightarrow> ''uw:'' @ ce_phrase ev
                           | Some n \<Rightarrow> if n = [] then ''uw:'' @ ce_phrase ev else n"
  let ?db1 = "case sshKeyName of None \<Rightarrow> db | Some name \<Rightarrow> called Q_SSHKeyGetByName db"
  let ?db2 = "called Q_SSHKeyGetByPublicKey ?db1"
  have keys1: "db_ssh_keys ?db1 = db_ssh_keys db"
    by (simp split: option.splits)
  have keys2: "db_ssh_keys ?db2 = db_ssh_keys db"
    using keys1 by simp
  from miss have m1: "fetchCredentials_byName ev accountID sshKeyName db = (None, ?db1)"
    by (rule fetchCredentials_byName_miss)
  from f keys1
  have f1: "find (\<lambda>r. sk_PublicKey r = ce_MarshalAuthorizedKey ev pk \<and> sk_OwnerID r = accountID)
      (db_ssh_keys ?db1) = None"
    by metis
  from fetchCredentials_byPublicKey_miss [OF p b f1]
  have m2: "fetchCredentials_byPublicKey ev accountID (Some pub) ?db1 = (None, ?db2)" .
  from u keys2 have u2: "\<not> list_ex (\<lambda>r. sk_OwnerID r = accountID \<and>
             (sk_Name r = ?name \<or> sk_PublicKey r = pub)) (db_ssh_keys ?db2)"
    by metis
  from fetchCredentials_create_saved [OF a u2]
  have cr: "fetchCredentials_create ev accountID sshKeyName (Some pub) ?db2 =
           (Inr \<lparr>key_Name = ?name,
                 key_PrivateKey = None, key_PublicKey = Some pub, key_CreatedAt = None\<rparr>,
            called Q_SSHKeyAdd
              (?db2\<lparr>db_ssh_keys := db_ssh_keys ?db2 @
                   [\<lparr>sk_ID = ce_key_id ev, sk_Name = ?name,
                     sk_OwnerID = accountID, sk_CreatedAt = ce_now ev,
                     sk_PublicKey = pub\<rparr>]\<rparr>))" .
  from m1 m2 cr keys2 show ?thesis
    by (simp add: fetchCredentials_def)
qed

text \<open>
  When the store refuses the insert, the call fails with code 500 and nothing is stored.
\<close>

lemma fetchCredentials_not_saved:
  assumes miss: "case sshKeyName of None \<Rightarrow> True
           | Some name \<Rightarrow> ce_byname_fault ev = None \<and>
               find (\<lambda>r. sk_Name r = name \<and> sk_OwnerID r = accountID) (db_ssh_keys db) = None"
    and p: "ce_ParseAuthorizedKey ev pub = Inr pk"
    and b: "ce_bykey_fault ev = None"
    and f: "find (\<lambda>r. sk_PublicKey r = ce_MarshalAuthorizedKey ev pk \<and> sk_OwnerID r = accountID)
           (db_ssh_keys db) = None"
    and u: "ce_add_fault ev \<noteq> None \<or>
       list_ex (\<lambda>r. sk_OwnerID r = accountID \<and>
             (sk_Name r = (case sshKeyName of None \<Rightarrow> ''uw:'' @ ce_phrase ev
                           | Some n \<Rightarrow> if n = [] then ''uw:'' @ ce_phrase ev else n) \<or>
              sk_PublicKey r = pub)) (db_ssh_keys db)"
  shows "fst (fetchCredentials ev accountID sshKeyName (Some pub) db) =
           Inl (TypesError 500 ''Failed to save SSH key'' [] [] None) \<and>
         db_ssh_keys (snd (fetchCredentials ev accountID sshKeyName (Some pub) db)) =
           db_ssh_keys db"
proof -
  let ?name = "case sshKeyName of None \<Rightarrow> ''uw:'' @ ce_phrase ev
                           | Some n \<Rightarrow> if n = [] then ''uw:'' @ ce_phrase ev else n"
  let ?db1 = "case sshKeyName of None \<Rightarrow> db | Some name \<Rightarrow> called Q_SSHKeyGetByName db"
  let ?db2 = "called Q_SSHKeyGetByPublicKey ?db1"
  have keys1: "db_ssh_keys ?db1 = db_ssh_keys db"
    by (simp split: option.splits)
  have keys2: "db_ssh_keys ?db2 = db_ssh_keys db"
    using keys1 by simp
  from miss have m1: "fetchCredentials_byName ev accountID sshKeyName db = (None, ?db1)"
    by (rule fetchCredentials_byName_miss)
  from f keys1
  have f1: "find (\<lambda>r. sk_PublicKey r = ce_MarshalAuthorizedKey ev pk \<and> sk_OwnerID r = accountID)
      (db_ssh_keys ?db1) = None"
    by metis
  from fetchCredentials_byPublicKey_miss [OF p b f1]
  have m2: "fetchCredentials_byPublicKey ev accountID (Some pub) ?db1 = (None, ?db2)" .
  from u keys2 have u2: "ce_add_fault ev \<noteq> None \<or>
       list_ex (\<lambda>r. sk_OwnerID r = accountID \<and>
             (sk_Name r = ?name \<or> sk_PublicKey r = pub)) (db_ssh_keys ?db2)"
    by metis
  from fetchCredentials_create_refused [OF u2]
  have cr: "fetchCredentials_create ev accountID sshKeyName (Some pub) ?db2 =
           (Inl (TypesError 500 ''Failed to save SSH key'' [] [] None), called Q_SSHKeyAdd ?db2)" .
  from m1 m2 cr keys2 show ?thesis
    by (simp add: fetchCredentials_def)
qed


subsection \<open>What the create path stores\<close>

text \<open>
  Claim C10. When \<open>fetchCredentials\<close> reaches its create path (nothing found by name,
  the supplied public key parses, nothing found by its canonical form) and returns a key,
  the key it returns and the one row it has added to the store both hold the supplied
  public-key string as it was given; the canonical form \<open>ce_MarshalAuthorizedKey ev pk\<close>
  appears in the lookup only.
\<close>

theorem fetchCredentials_stores_supplied_key:
  assumes miss: "case sshKeyName of None \<Rightarrow> True
           | Some name \<Rightarrow> ce_byname_fault ev = None \<and>
               find (\<lambda>r. sk_Name r = name \<and> sk_OwnerID r = accountID) (db_ssh_keys db) = None"
    and p: "ce_ParseAuthorizedKey ev pub = Inr pk"
    and b: "ce_bykey_fault ev = None"
    and f: "find (\<lambda>r. sk_PublicKey r = ce_MarshalAuthorizedKey ev pk \<and> sk_OwnerID r = accountID)
              (db_ssh_keys db) = None"
    and r: "fetchCredentials ev accountID sshKeyName (Some pub) db = (Inr key, db')"
  shows "key_PublicKey key = Some pub \<and>
         db_ssh_keys db' = db_ssh_keys db @
           [\<lparr>sk_ID = ce_key_id ev, sk_Name = key_Name key, sk_OwnerID = accountID,
             sk_CreatedAt = ce_now ev, sk_PublicKey = pub\<rparr>] \<and>
         db_calls db' = db_calls db @
           (case sshKeyName of None \<Rightarrow> [] | Some name \<Rightarrow> [Q_SSHKeyGetByName]) @
           [Q_SSHKeyGetByPublicKey, Q_SSHKeyAdd]"
proof -
  let ?db1 = "case sshKeyName of None \<Rightarrow> db | Some name \<Rightarrow> called Q_SSHKeyGetByName db"
  let ?db2 = "called Q_SSHKeyGetByPublicKey ?db1"
  have keys1: "db_ssh_keys ?db1 = db_ssh_keys db"
    by (simp split: option.splits)
  have calls1: "db_calls ?db1 = db_calls db @
      (case sshKeyName of None \<Rightarrow> [] | Some name \<Rightarrow> [Q_SSHKeyGetByName])"
    by (simp split: option.splits)
  from miss have m1: "fetchCredentials_byName ev accountID sshKeyName db = (None, ?db1)"
    by (rule fetchCredentials_byName_miss)
  from f keys1
  have f1: "find (\<lambda>r. sk_PublicKey r = ce_MarshalAuthorizedKey ev pk \<and> sk_OwnerID r = accountID)
      (db_ssh_keys ?db1) = None"
    by metis
  from fetchCredentials_byPublicKey_miss [OF p b f1]
  have m2: "fetchCredentials_byPublicKey ev accountID (Some pub) ?db1 = (None, ?db2)" .
  from r m1 m2 have "fetchCredentials_create ev accountID sshKeyName (Some pub) ?db2 = (Inr key, db')"
    by (simp add: fetchCredentials_def)
  from fetchCredentials_create_result [OF this] keys1 calls1 show ?thesis
    by simp
qed

text \<open>
  A key line with a comment: its canonical form drops the comment and ends in a newline,
  and the stored row has the line as supplied.
\<close>

theorem fetchCredentials_stores_supplied_key_witness:
  "carol_line = ''ssh-ed25519 '' @ carol_blob @ '' carol@host'' \<and>
   example_ParseAuthorizedKey carol_line = Inr carol_blob \<and>
   example_MarshalAuthorizedKey carol_blob = ''ssh-ed25519 '' @ carol_blob @ [CHR 0x0A] \<and>
   fst (fetchCredentials example_cred_env ''carol'' (Some ''laptop'') (Some carol_line) bob_db) =
     Inr \<lparr>key_Name = ''laptop'', key_PrivateKey = None,
          key_PublicKey = Some carol_line, key_CreatedAt = None\<rparr> \<and>
   db_ssh_keys (snd (fetchCredentials example_cred_env ''carol'' (Some ''laptop'')
          (Some carol_line) bob_db)) =
     [bob_row,
      \<lparr>sk_ID = ''key-2'', sk_Name = ''laptop'', sk_OwnerID = ''carol'',
        sk_CreatedAt = 20, sk_PublicKey = carol_line\<rparr>] \<and>
   db_calls (snd (fetchCredentials example_cred_env ''carol'' (Some ''laptop'')
          (Some carol_line) bob_db)) =
     [Q_SSHKeyGetByName, Q_SSHKeyGetByPublicKey, Q_SSHKeyAdd]"
proof -
  have e: "ce_ParseAuthorizedKey example_cred_env = example_ParseAuthorizedKey"
    "ce_MarshalAuthorizedKey example_cred_env = example_MarshalAuthorizedKey"
    "ce_byname_fault example_cred_env = None"
    "ce_bykey_fault example_cred_env = None" "ce_add_fault example_cred_env = None"
    "ce_key_id example_cred_env = ''key-2''" "ce_now example_cred_env = 20"
    by (simp_all add: example_cred_env_def)
  have rows: "db_ssh_keys bob_db = [bob_row]" "db_calls bob_db = []"
    "sk_OwnerID bob_row = ''bob''" "sk_Name bob_row = ''deploy''"
    by (simp_all add: bob_db_def bob_row_def)
  define db' where "db' = snd (fetchCredentials example_cred_env ''carol'' (Some ''laptop'')
          (Some carol_line) bob_db)"
  have "fst (fetchCredentials example_cred_env ''carol'' (Some ''laptop'')
          (Some carol_line) bob_db) =
        Inr \<lparr>key_Name = ''laptop'', key_PrivateKey = None,
          key_PublicKey = Some carol_line, key_CreatedAt = None\<rparr>"
    by (simp add: fetchCredentials_def fetchCredentials_byName_def
        fetchCredentials_byPublicKey_def fetchCredentials_create_def saveSSHKey_def
        SSHKeyGetByName_def SSHKeyGetByPublicKey_def SSHKeyAdd_def Let_def e rows
        example_parse_carol)
  then have r: "fetchCredentials example_cred_env ''carol'' (Some ''laptop'')
          (Some carol_line) bob_db =
        (Inr \<lparr>key_Name = ''laptop'', key_PrivateKey = None,
          key_PublicKey = Some carol_line, key_CreatedAt = None\<rparr>, db')"
    unfolding db'_def by (metis prod.collapse)
  have miss: "case Some ''laptop'' of None \<Rightarrow> True
           | Some name \<Rightarrow> ce_byname_fault example_cred_env = None \<and>
               find (\<lambda>r. sk_Name r = name \<and> sk_OwnerID r = ''carol'') (db_ssh_keys bob_db) = None"
    by (simp add: e rows)
  have p: "ce_ParseAuthorizedKey example_cred_env carol_line = Inr carol_blob"
    by (simp add: e example_parse_carol)
  have b: "ce_bykey_fault example_cred_env = None"
    by (simp add: e)
  have f: "find (\<lambda>r. sk_PublicKey r = ce_MarshalAuthorizedKey example_cred_env carol_blob \<and>
                     sk_OwnerID r = ''carol'') (db_ssh_keys bob_db) = None"
    by (simp add: rows)
  note T = fetchCredentials_stores_supplied_key [OF miss p b f r]
  from r have 1: "fst (fetchCredentials example_cred_env ''carol'' (Some ''laptop'')
          (Some carol_line) bob_db) =
     Inr \<lparr>key_Name = ''laptop'', key_PrivateKey = None,
          key_PublicKey = Some carol_line, key_CreatedAt = None\<rparr>"
    by simp
  from T have 2: "db_ssh_keys db' =
     [bob_row,
      \<lparr>sk_ID = ''key-2'', sk_Name = ''laptop'', sk_OwnerID = ''carol'',
        sk_CreatedAt = 20, sk_PublicKey = carol_line\<rparr>]"
    by (simp add: e rows)
  from T have 3: "db_calls db' = [Q_SSHKeyGetByName, Q_SSHKeyGetByPublicKey, Q_SSHKeyAdd]"
    by (simp add: rows)
  have 4: "carol_line = ''ssh-ed25519 '' @ carol_blob @ '' carol@host''"
    "example_MarshalAuthorizedKey carol_blob = ''ssh-ed25519 '' @ carol_blob @ [CHR 0x0A]"
    by (simp_all add: carol_line_def example_MarshalAuthorizedKey_def)
  from 1 2 3 4 example_parse_carol show ?thesis
    unfolding db'_def by blast
qed

section \<open>The session service: Create and Get\<close>

lemma nsp_refl: "no_session_persisted db db"
  by (simp add: no_session_persisted_def)

lemma nsp_called:
  "no_session_persisted db db' \<Longrightarrow> q \<noteq> Q_SessionCreate \<Longrightarrow>
   no_session_persisted db (called q db')"
proof -
  assume a: "no_session_persisted db db'" and q: "q \<noteq> Q_SessionCreate"
  from a have l: "length (db_calls db) \<le> length (db_calls db')"
    by (metis no_session_persisted_def length_take min.cobounded1 min.commute)
  with a q show ?thesis
    by (simp add: no_session_persisted_def called_def)
qed

lemma nsp_keys:
  "no_session_persisted db db' \<Longrightarrow> no_session_persisted db (db'\<lparr>db_ssh_keys := ks\<rparr>)"
  by (simp add: no_session_persisted_def)

lemma nsp_byName:
  assumes "no_session_persisted db db1"
  shows "no_session_persisted db (snd (fetchCredentials_byName ev accountID sshKeyName db1))"
proof (cases sshKeyName)
  case None
  with assms show ?thesis by (simp add: fetchCredentials_byName_def)
next
  case (Some name)
  have "snd (fetchCredentials_byName ev accountID (Some name) db1) = called Q_SSHKeyGetByName db1"
    by (simp add: fetchCredentials_byName_def SSHKeyGetByName_def
        split: option.splits sum.splits)
  with Some assms show ?thesis by (simp add: nsp_called)
qed

lemma nsp_byPublicKey:
  assumes "no_session_persisted db db1"
  shows "no_session_persisted db (snd (fetchCredentials_byPublicKey ev accountID sshPublicKey db1))"
proof (cases sshPublicKey)
  case None
  with assms show ?thesis by (simp add: fetchCredentials_byPublicKey_def)
next
  case (Some pub)
  have "snd (fetchCredentials_byPublicKey ev accountID (Some pub) db1) = db1 \<or>
        snd (fetchCredentials_byPublicKey ev accountID (Some pub) db1) =
          called Q_SSHKeyGetByPublicKey db1"
    by (simp add: fetchCredentials_byPublicKey_def SSHKeyGetByPublicKey_def Let_def
        split: option.splits sum.splits)
  with Some assms show ?thesis by (auto simp add: nsp_called)
qed

lemma saveSSHKey_store:
  "\<exists>ks. snd (saveSSHKey fault new_id now accountID name pub db) =
          called Q_SSHKeyAdd (db\<lparr>db_ssh_keys := ks\<rparr>)"
proof (cases "fault = None \<and> \<not> list_ex (\<lambda>k. sk_OwnerID k = accountID \<and>
                        (sk_Name k = name \<or> sk_PublicKey k = pub)) (db_ssh_keys db)")
  case True
  then have "snd (saveSSHKey fault new_id now accountID name pub db) =
      called Q_SSHKeyAdd (db\<lparr>db_ssh_keys := db_ssh_keys db @
         [\<lparr>sk_ID = new_id, sk_Name = name, sk_OwnerID = accountID, sk_CreatedAt = now,
           sk_PublicKey = pub\<rparr>]\<rparr>)"
    by (simp add: saveSSHKey_def SSHKeyAdd_def)
  then show ?thesis by blast
next
  case False
  then have "snd (saveSSHKey fault new_id now accountID name pub db) =
      called Q_SSHKeyAdd (db\<lparr>db_ssh_keys := db_ssh_keys db\<rparr>)"
    by (auto simp add: saveSSHKey_def SSHKeyAdd_def split: option.splits)
  then show ?thesis by blast
qed

lemma nsp_create:
  assumes "no_session_persisted db db1"
  shows "no_session_persisted db
           (snd (fetchCredentials_create ev accountID sshKeyName sshPublicKey db1))"
proof (cases sshPublicKey)
  case None
  with assms show ?thesis by (simp add: fetchCredentials_create_def)
next
  case (Some pub)
  let ?name = "case sshKeyName of None \<Rightarrow> ''uw:'' @ ce_phrase ev
                 | Some n \<Rightarrow> if n = [] then ''uw:'' @ ce_phrase ev else n"
  have e: "snd (fetchCredentials_create ev accountID sshKeyName (Some pub) db1) =
      snd (saveSSHKey (ce_add_fault ev) (ce_key_id ev) (ce_now ev) accountID ?name pub db1)"
    by (simp add: fetchCredentials_create_def Let_def split: prod.splits option.splits)
  from saveSSHKey_store [of "ce_add_fault ev" "ce_key_id ev" "ce_now ev" accountID ?name pub db1]
  obtain ks where "snd (fetchCredentials_create ev accountID sshKeyName (Some pub) db1) =
          called Q_SSHKeyAdd (db1\<lparr>db_ssh_keys := ks\<rparr>)"
    unfolding e by blast
  with Some assms show ?thesis by (simp add: nsp_called nsp_keys)
qed

lemma nsp_fetchCredentials:
  "no_session_persisted db (snd (fetchCredentials ev accountID sshKeyName sshPublicKey db))"
proof (cases "sshKeyName = None \<and> sshPublicKey = None")
  case True
  then show ?thesis by (simp add: fetchCredentials_def nsp_refl)
next
  case False
  obtain r1 db1 where b1: "fetchCredentials_byName ev accountID sshKeyName db = (r1, db1)"
    by force
  from nsp_byName [OF nsp_refl, of db ev accountID sshKeyName] b1
  have n1: "no_session_persisted db db1" by simp
  obtain r2 db2 where b2: "fetchCredentials_byPublicKey ev accountID sshPublicKey db1 = (r2, db2)"
    by force
  from nsp_byPublicKey [OF n1, of ev accountID sshPublicKey] b2
  have n2: "no_session_persisted db db2" by simp
  from nsp_create [OF n2, of ev accountID sshKeyName sshPublicKey]
  have n3: "no_session_persisted db
      (snd (fetchCredentials_create ev accountID sshKeyName sshPublicKey db2))" .
  from False have e: "fetchCredentials ev accountID sshKeyName sshPublicKey db =
      (case fetchCredentials_byName ev accountID sshKeyName db of
           (Some r, db1) \<Rightarrow> (r, db1)
         | (None, db1) \<Rightarrow>
             (case fetchCredentials_byPublicKey ev accountID sshPublicKey db1 of
                (Some r, db2) \<Rightarrow> (r, db2)
              | (None, db2) \<Rightarrow>
                  fetchCredentials_create ev accountID sshKeyName sshPublicKey db2))"
    by (simp only: fetchCredentials_def if_False)
  from b1 b2 n1 n2 n3 show ?thesis
    by (cases r1; cases r2) (simp_all add: e)
qed

text \<open>
  Claim C1. When the initializer fails, \<open>Create\<close> returns its error wrapped as
  "failed to create runtime" and the store and the provider are untouched. When
  \<open>fetchCredentials\<close>, \<open>registerCredentials\<close> or \<open>InitNode\<close> fails, \<open>Create\<close>
  returns that error wrapped as "failed to setup credentials", "failed to register
  credentials" or "failed to init node", and no session has been persisted: the session
  table is as before the call and \<open>SessionCreate\<close> is not among the queries the call
  has sent.
\<close>

theorem Create_failure_persists_nothing:
  "(\<forall>err. Initialize (cr_init ev) cid (p_Provider params) = Inl err \<longrightarrow>
      SessionService_Create ev cid projectID params w =
        (Inl (Errorf ''failed to create runtime'' (Some err)), w))
   \<and> (\<forall>rt err db1.
        Initialize (cr_init ev) cid (p_Provider params) = Inr rt \<and>
        fetchCredentials (cr_cred ev) cid (p_SSHKeyName params) (p_SSHPublicKey params)
          (w_db w) = (Inl err, db1) \<longrightarrow>
      fst (SessionService_Create ev cid projectID params w) =
        Inl (Errorf ''failed to setup credentials'' (Some err)) \<and>
      no_session_persisted (w_db w)
        (w_db (snd (SessionService_Create ev cid projectID params w))))
   \<and> (\<forall>rt sshKey db1 err c1.
        Initialize (cr_init ev) cid (p_Provider params) = Inr rt \<and>
        fetchCredentials (cr_cred ev) cid (p_SSHKeyName params) (p_SSHPublicKey params)
          (w_db w) = (Inr sshKey, db1) \<and>
        registerCredentials (cr_keys_reply ev) (cr_add_keys_reply ev) (cr_add_reply ev)
          sshKey (w_cloud w) = (Some err, c1) \<longrightarrow>
      fst (SessionService_Create ev cid projectID params w) =
        Inl (Errorf ''failed to register credentials'' (Some err)) \<and>
      no_session_persisted (w_db w)
        (w_db (snd (SessionService_Create ev cid projectID params w))))
   \<and> (\<forall>rt sshKey db1 c1 err c2.
        Initialize (cr_init ev) cid (p_Provider params) = Inr rt \<and>
        fetchCredentials (cr_cred ev) cid (p_SSHKeyName params) (p_SSHPublicKey params)
          (w_db w) = (Inr sshKey, db1) \<and>
        registerCredentials (cr_keys_reply ev) (cr_add_keys_reply ev) (cr_add_reply ev)
          sshKey (w_cloud w) = (None, c1) \<and>
        InitNode (cr_node ev) sshKey (p_NodeTypeID params) (p_Region params) c1
          = (Inl err, c2) \<longrightarrow>
      fst (SessionService_Create ev cid projectID params w) =
        Inl (Errorf ''failed to init node'' (Some err)) \<and>
      no_session_persisted (w_db w)
        (w_db (snd (SessionService_Create ev cid projectID params w))))"
proof -
  have fc: "\<And>r db1. fetchCredentials (cr_cred ev) cid (p_SSHKeyName params)
      (p_SSHPublicKey params) (w_db w) = (r, db1) \<Longrightarrow> no_session_persisted (w_db w) db1"
    using nsp_fetchCredentials [of "w_db w" "cr_cred ev" cid "p_SSHKeyName params"
        "p_SSHPublicKey params"] by simp
  show ?thesis
  proof (intro conjI allI impI)
    fix err
    assume "Initialize (cr_init ev) cid (p_Provider params) = Inl err"
    then show "SessionService_Create ev cid projectID params w =
        (Inl (Errorf ''failed to create runtime'' (Some err)), w)"
      by (simp add: SessionService_Create_def)
  next
    fix rt err db1
    assume h: "Initialize (cr_init ev) cid (p_Provider params) = Inr rt \<and>
        fetchCredentials (cr_cred ev) cid (p_SSHKeyName params) (p_SSHPublicKey params)
          (w_db w) = (Inl err, db1)"
    then show "fst (SessionService_Create ev cid projectID params w) =
        Inl (Errorf ''failed to setup credentials'' (Some err))"
      by (simp add: SessionService_Create_def)
    from h fc show "no_session_persisted (w_db w)
        (w_db (snd (SessionService_Create ev cid projectID params w)))"
      by (simp add: SessionService_Create_def)
  next
    fix rt sshKey db1 err c1
    assume h: "Initialize (cr_init ev) cid (p_Provider params) = Inr rt \<and>
        fetchCredentials (cr_cred ev) cid (p_SSHKeyName params) (p_SSHPublicKey params)
          (w_db w) = (Inr sshKey, db1) \<and>
        registerCredentials (cr_keys_reply ev) (cr_add_keys_reply ev) (cr_add_reply ev)
          sshKey (w_cloud w) = (Some err, c1)"
    then show "fst (SessionService_Create ev cid projectID params w) =
        Inl (Errorf ''failed to register credentials'' (Some err))"
      by (simp add: SessionService_Create_def)
    from h fc show "no_session_persisted (w_db w)
        (w_db (snd (SessionService_Create ev cid projectID params w)))"
      by (simp add: SessionService_Create_def)
  next
    fix rt sshKey db1 c1 err c2
    assume h: "Initialize (cr_init ev) cid (p_Provider params) = Inr rt \<and>
        fetchCredentials (cr_cred ev) cid (p_SSHKeyName params) (p_SSHPublicKey params)
          (w_db w) = (Inr sshKey, db1) \<and>
        registerCredentials (cr_keys_reply ev) (cr_add_keys_reply ev) (cr_add_reply ev)
          sshKey (w_cloud w) = (None, c1) \<and>
        InitNode (cr_node ev) sshKey (p_NodeTypeID params) (p_Region params) c1
          = (Inl err, c2)"
    then show "fst (SessionService_Create ev cid projectID params w) =
        Inl (Errorf ''failed to init node'' (Some err))"
      by (simp add: SessionService_Create_def)
    from h fc show "no_session_persisted (w_db w)
        (w_db (snd (SessionService_Create ev cid projectID params w)))"
      by (simp add: SessionService_Create_def)
  qed
qed

text \<open>
  The four failures on the example store, which has no session: an unsupported provider,
  neither key name nor public key, a provider that rejects the key listing, and a launch
  that fails.
\<close>

theorem Create_failure_persists_nothing_witness:
  "SessionService_Create example_create_env ''bob'' ''project-1''
       (example_params\<lparr>p_Provider := UnweaveProvider\<rparr>) example_world =
     (Inl (Errorf ''failed to create runtime''
        (Some (Errorf (quoted UnweaveProvider @ '' provider not supported in the env initializer'')
           None))), example_world) \<and>
   fst (SessionService_Create example_create_env ''bob'' ''project-1''
       (example_params\<lparr>p_SSHKeyName := None\<rparr>) example_world) =
     Inl (Errorf ''failed to setup credentials''
        (Some (TypesError 400 ''Either Key name or Public Key must be provided'' [] [] None))) \<and>
   db_sessions (w_db (snd (SessionService_Create example_create_env ''bob'' ''project-1''
       (example_params\<lparr>p_SSHKeyName := None\<rparr>) example_world))) = [] \<and>
   fst (SessionService_Create (example_create_env\<lparr>cr_keys_reply := Fail 401 ''bad token''\<rparr>)
       ''bob'' ''project-1'' example_params example_world) =
     Inl (Errorf ''failed to register credentials''
        (Some (Errorf ''failed to list ssh keys from provider''
           (Some (err401 ''bad token'' None))))) \<and>
   db_sessions (w_db (snd (SessionService_Create
       (example_create_env\<lparr>cr_keys_reply := Fail 401 ''bad token''\<rparr>)
       ''bob'' ''project-1'' example_params example_world))) = [] \<and>
   fst (SessionService_Create
       (example_create_env\<lparr>cr_node := example_node_env\<lparr>ne_launch_reply := Fail 500 ''out of order''\<rparr>\<rparr>)
       ''bob'' ''project-1'' example_params example_world) =
     Inl (Errorf ''failed to init node'' (Some (err500 ''out of order'' None))) \<and>
   db_sessions (w_db (snd (SessionService_Create
       (example_create_env\<lparr>cr_node := example_node_env\<lparr>ne_launch_reply := Fail 500 ''out of order''\<rparr>\<rparr>)
       ''bob'' ''project-1'' example_params example_world))) = []"
proof -
  let ?key = "key_of_row bob_row"
  let ?db1 = "called Q_SSHKeyGetByName bob_db"
  have s0: "db_sessions (w_db example_world) = []"
    by (simp add: example_world_def bob_db_def)
  have nsp: "\<And>db'. no_session_persisted (w_db example_world) db' \<Longrightarrow> db_sessions db' = []"
    using s0 by (simp add: no_session_persisted_def)
  have I: "Initialize example_init_env ''bob'' LambdaLabsProvider = Inr (LambdaLabsSession ''secret'')"
    by (simp add: Initialize_def NewSessionProvider_def example_init_env_def)
  have I': "Initialize example_init_env ''bob'' UnweaveProvider =
      Inl (Errorf (quoted UnweaveProvider @ '' provider not supported in the env initializer'') None)"
    by (simp add: Initialize_def UnweaveProvider_def LambdaLabsProvider_def)
  have F: "fetchCredentials example_cred_env ''bob'' (Some ''deploy'') None bob_db =
      (Inr ?key, ?db1)"
    by (simp add: fetchCredentials_def fetchCredentials_byName_def SSHKeyGetByName_def
        example_cred_env_def bob_db_def bob_row_def)
  have F': "fetchCredentials example_cred_env ''bob'' None None bob_db =
      (Inl (TypesError 400 ''Either Key name or Public Key must be provided'' [] [] None), bob_db)"
    by (simp add: fetchCredentials_def)
  have R: "registerCredentials (Ok ()) (Ok ()) (Ok []) ?key example_cloud =
      (None, snd (registerCredentials (Ok ()) (Ok ()) (Ok []) ?key example_cloud))"
    by (simp add: registerCredentials_def ListSSHKeys_Ok example_cloud_def AddSSHKey_def
        key_of_row_def bob_row_def AddSSHKeyWithResponse_def ok_response_def sent_def Let_def)
  have R': "registerCredentials (Fail 401 ''bad token'') (Ok ()) (Ok []) ?key example_cloud =
      (Some (Errorf ''failed to list ssh keys from provider'' (Some (err401 ''bad token'' None))),
       sent ListSSHKeysRequest example_cloud)"
    by (simp add: registerCredentials_def ListSSHKeys_def ListSSHKeysWithResponse_def
        error_response_def)
  have N: "InitNode (example_node_env\<lparr>ne_launch_reply := Fail 500 ''out of order''\<rparr>) ?key ''Y''
        (Some ''us-east'') (snd (registerCredentials (Ok ()) (Ok ()) (Ok []) ?key example_cloud)) =
      (Inl (err500 ''out of order'' None),
       snd (InitNode (example_node_env\<lparr>ne_launch_reply := Fail 500 ''out of order''\<rparr>) ?key ''Y''
        (Some ''us-east'') (snd (registerCredentials (Ok ()) (Ok ()) (Ok []) ?key example_cloud))))"
    by (simp add: InitNode_def LaunchInstanceWithResponse_def error_response_def
        example_node_env_def)
  have e: "cr_init example_create_env = example_init_env"
    "cr_cred example_create_env = example_cred_env"
    "cr_keys_reply example_create_env = Ok ()"
    "cr_add_keys_reply example_create_env = Ok ()"
    "cr_add_reply example_create_env = Ok []"
    "cr_node example_create_env = example_node_env"
    by (simp_all add: example_create_env_def)
  have p: "p_Provider example_params = LambdaLabsProvider" "p_NodeTypeID example_params = ''Y''"
    "p_Region example_params = Some ''us-east''" "p_SSHKeyName example_params = Some ''deploy''"
    "p_SSHPublicKey example_params = None"
    by (simp_all add: example_params_def)
  have w: "w_db example_world = bob_db" "w_cloud example_world = example_cloud"
    by (simp_all add: example_world_def)
  from Create_failure_persists_nothing [of example_create_env "''bob''"
      "example_params\<lparr>p_Provider := UnweaveProvider\<rparr>" "''project-1''" example_world] I'
  have 1: "SessionService_Create example_create_env ''bob'' ''project-1''
       (example_params\<lparr>p_Provider := UnweaveProvider\<rparr>) example_world =
     (Inl (Errorf ''failed to create runtime''
        (Some (Errorf (quoted UnweaveProvider @ '' provider not supported in the env initializer'')
           None))), example_world)"
    by (simp add: e)
  from Create_failure_persists_nothing [of example_create_env "''bob''"
      "example_params\<lparr>p_SSHKeyName := None\<rparr>" "''project-1''" example_world] I F'
  have 2: "fst (SessionService_Create example_create_env ''bob'' ''project-1''
       (example_params\<lparr>p_SSHKeyName := None\<rparr>) example_world) =
     Inl (Errorf ''failed to setup credentials''
        (Some (TypesError 400 ''Either Key name or Public Key must be provided'' [] [] None))) \<and>
    no_session_persisted (w_db example_world)
      (w_db (snd (SessionService_Create example_create_env ''bob'' ''project-1''
       (example_params\<lparr>p_SSHKeyName := None\<rparr>) example_world)))"
    by (simp add: e p w)
  from Create_failure_persists_nothing [of
      "example_create_env\<lparr>cr_keys_reply := Fail 401 ''bad token''\<rparr>" "''bob''"
      example_params "''project-1''" example_world] I F R'
  have 3: "fst (SessionService_Create (example_create_env\<lparr>cr_keys_reply := Fail 401 ''bad token''\<rparr>)
       ''bob'' ''project-1'' example_params example_world) =
     Inl (Errorf ''failed to register credentials''
        (Some (Errorf ''failed to list ssh keys from provider''
           (Some (err401 ''bad token'' None))))) \<and>
    no_session_persisted (w_db example_world)
      (w_db (snd (SessionService_Create (example_create_env\<lparr>cr_keys_reply := Fail 401 ''bad token''\<rparr>)
       ''bob'' ''project-1'' example_params example_world)))"
    by (simp add: e p w)
  from Create_failure_persists_nothing [of
      "example_create_env\<lparr>cr_node := example_node_env\<lparr>ne_launch_reply := Fail 500 ''out of order''\<rparr>\<rparr>"
      "''bob''" example_params "''project-1''" example_world] I F R N
  have 4: "fst (SessionService_Create
       (example_create_env\<lparr>cr_node := example_node_env\<lparr>ne_launch_reply := Fail 500 ''out of order''\<rparr>\<rparr>)
       ''bob'' ''project-1'' example_params example_world) =
     Inl (Errorf ''failed to init node'' (Some (err500 ''out of order'' None))) \<and>
    no_session_persisted (w_db example_world)
      (w_db (snd (SessionService_Create
       (example_create_env\<lparr>cr_node := example_node_env\<lparr>ne_launch_reply := Fail 500 ''out of order''\<rparr>\<rparr>)
       ''bob'' ''project-1'' example_params example_world)))"
    by (simp add: e p w) blast
  from 1 2 3 4 nsp show ?thesis by blast
qed

lemma Create_success_stages:
  assumes "SessionService_Create ev cid projectID params w = (Inr s, w')"
  shows "\<exists>rt sshKey db1 c1 node c2.
      Initialize (cr_init ev) cid (p_Provider params) = Inr rt \<and>
      fetchCredentials (cr_cred ev) cid (p_SSHKeyName params) (p_SSHPublicKey params)
        (w_db w) = (Inr sshKey, db1) \<and>
      registerCredentials (cr_keys_reply ev) (cr_add_keys_reply ev) (cr_add_reply ev)
        sshKey (w_cloud w) = (None, c1) \<and>
      InitNode (cr_node ev) sshKey (p_NodeTypeID params) (p_Region params) c1 = (Inr node, c2) \<and>
      cr_session_fault ev = None \<and>
      s = \<lparr>sess_ID = cr_session_id ev, sess_SSHKey = node_KeyPair node,
            sess_Status = StatusInitializing, sess_CreatedAt = None,
            sess_NodeTypeID = node_TypeID node, sess_Region = node_Region node,
            sess_Provider = node_Provider node\<rparr> \<and>
      db_sessions (w_db w') = db_sessions db1 @
        [\<lparr>s_ID = cr_session_id ev, s_NodeID = node_ID node, s_CreatedBy = cid,
          s_CreatedAt = cr_now ev, s_ReadyAt = None, s_ExitedAt = None,
          s_ProjectID = projectID, s_Provider = p_Provider params,
          s_Region = node_Region node, s_Name = cr_phrase ev,
          s_Status = UnweaveSessionStatusInitializing,
          s_SshKeyID = map_option sk_ID
            (find (\<lambda>k. sk_Name k = key_Name sshKey \<and> sk_OwnerID k = cid) (db_ssh_keys db1))\<rparr>]"
proof -
  obtain rt where i: "Initialize (cr_init ev) cid (p_Provider params) = Inr rt"
    using assms by (cases "Initialize (cr_init ev) cid (p_Provider params)")
      (auto simp add: SessionService_Create_def)
  obtain r1 db1 where f: "fetchCredentials (cr_cred ev) cid (p_SSHKeyName params)
      (p_SSHPublicKey params) (w_db w) = (r1, db1)" by force
  with assms i obtain sshKey where r1: "r1 = Inr sshKey"
    by (cases r1) (auto simp add: SessionService_Create_def)
  obtain r2 c1 where g: "registerCredentials (cr_keys_reply ev) (cr_add_keys_reply ev)
      (cr_add_reply ev) sshKey (w_cloud w) = (r2, c1)" by force
  with assms i f r1 have r2: "r2 = None"
    by (cases r2) (auto simp add: SessionService_Create_def)
  obtain r3 c2 where n: "InitNode (cr_node ev) sshKey (p_NodeTypeID params) (p_Region params) c1
      = (r3, c2)" by force
  with assms i f r1 g r2 obtain node where r3: "r3 = Inr node"
    by (cases r3) (auto simp add: SessionService_Create_def)
  from assms i f r1 g r2 n r3 have sf: "cr_session_fault ev = None"
    by (cases "cr_session_fault ev")
      (auto simp add: SessionService_Create_def SessionCreate_def Let_def)
  from assms i f r1 g r2 n r3 sf
  have "s = \<lparr>sess_ID = cr_session_id ev, sess_SSHKey = node_KeyPair node,
            sess_Status = StatusInitializing, sess_CreatedAt = None,
            sess_NodeTypeID = node_TypeID node, sess_Region = node_Region node,
            sess_Provider = node_Provider node\<rparr>"
    and "db_sessions (w_db w') = db_sessions db1 @
        [\<lparr>s_ID = cr_session_id ev, s_NodeID = node_ID node, s_CreatedBy = cid,
          s_CreatedAt = cr_now ev, s_ReadyAt = None, s_ExitedAt = None,
          s_ProjectID = projectID, s_Provider = p_Provider params,
          s_Region = node_Region node, s_Name = cr_phrase ev,
          s_Status = UnweaveSessionStatusInitializing,
          s_SshKeyID = map_option sk_ID
            (find (\<lambda>k. sk_Name k = key_Name sshKey \<and> sk_OwnerID k = cid) (db_ssh_keys db1))\<rparr>]"
    by (auto simp add: SessionService_Create_def SessionCreate_def Let_def)
  with i f r1 g r2 n r3 sf show ?thesis by blast
qed

lemma InitNode_node:
  assumes "InitNode ev sshKey nodeTypeID region c = (Inr node, c')"
  shows "node_TypeID node = nodeTypeID \<and> node_Provider node = LambdaLabsProvider \<and>
         node_KeyPair node = sshKey \<and> (\<forall>r. region = Some r \<longrightarrow> node_Region node = r)"
proof -
  obtain r0 c1 where a: "(case region of
              None \<Rightarrow> finRegionForNode (ne_json ev) (ne_catalog_reply ev) nodeTypeID c
            | Some r \<Rightarrow> (Inr r, c)) = (r0, c1)" by force
  with assms obtain region' where r0: "r0 = Inr region'"
    by (cases r0) (auto simp add: InitNode_def)
  let ?req = "\<lparr>lr_InstanceTypeName = nodeTypeID, lr_Name = ''uw-'' @ ne_phrase ev,
                      lr_Quantity = 1, lr_RegionName = region',
                      lr_SshKeyNames = [key_Name sshKey]\<rparr>"
  obtain ids where l: "ne_launch_reply ev = Ok ids"
  proof (cases "ne_launch_reply ev")
    case (Ok ids)
    then show ?thesis using that by blast
  next
    case (Fail code m)
    with assms a r0 have False
      by (auto simp add: InitNode_def LaunchInstanceWithResponse_def error_response_def Let_def
          split: prod.splits if_splits)
    then show ?thesis ..
  next
    case (NoAnswer e)
    with assms a r0 have False
      by (simp add: InitNode_def LaunchInstanceWithResponse_def)
    then show ?thesis ..
  qed
  from assms a r0 l obtain i rest where "ids = i # rest"
    by (cases ids) (auto simp add: InitNode_def LaunchInstanceWithResponse_def ok_response_def)
  with assms a r0 l have "node = \<lparr>node_ID = i, node_TypeID = nodeTypeID,
      node_Region = region', node_KeyPair = sshKey, node_Status = StatusInitializing,
      node_Provider = LambdaLabsProvider\<rparr>"
    by (simp add: InitNode_def LaunchInstanceWithResponse_def ok_response_def)
  moreover from a r0 have "\<forall>r. region = Some r \<longrightarrow> region' = r"
    by auto
  ultimately show ?thesis by simp
qed

lemma find_append_miss:
  "find P xs = None \<Longrightarrow> find P (xs @ ys) = find P ys"
  by (induction xs) (auto split: if_splits)

text \<open>
  What \<open>Get\<close> returns for a session that \<open>Create\<close> has just stored under a fresh
  id: the provider, the region and the initializing status of the creation, and as
  \<open>NodeTypeID\<close> the node id of the stored row.
\<close>

lemma Create_then_Get_fields:
  assumes c: "SessionService_Create ev cid projectID params w = (Inr s, w')"
    and fresh: "sess_ID s \<notin> s_ID ` set (db_sessions (w_db w))"
    and g: "SessionService_Get None (sess_ID s) (w_db w') = (Inr got, db')"
  shows "sess_Provider got = p_Provider params \<and> sess_Provider s = p_Provider params \<and>
         sess_Region got = sess_Region s \<and>
         (\<forall>r. p_Region params = Some r \<longrightarrow> sess_Region got = r) \<and>
         sess_Status got = StatusInitializing \<and>
         sess_NodeTypeID s = p_NodeTypeID params \<and>
         (\<exists>row \<in> set (db_sessions (w_db w')). s_ID row = sess_ID s \<and>
            sess_NodeTypeID got = s_NodeID row)"
proof -
  from Create_success_stages [OF c] obtain rt sshKey db1 c1 node c2 where
    i: "Initialize (cr_init ev) cid (p_Provider params) = Inr rt"
    and f: "fetchCredentials (cr_cred ev) cid (p_SSHKeyName params) (p_SSHPublicKey params)
        (w_db w) = (Inr sshKey, db1)"
    and n: "InitNode (cr_node ev) sshKey (p_NodeTypeID params) (p_Region params) c1
        = (Inr node, c2)"
    and s: "s = \<lparr>sess_ID = cr_session_id ev, sess_SSHKey = node_KeyPair node,
            sess_Status = StatusInitializing, sess_CreatedAt = None,
            sess_NodeTypeID = node_TypeID node, sess_Region = node_Region node,
            sess_Provider = node_Provider node\<rparr>"
    and rows: "db_sessions (w_db w') = db_sessions db1 @
        [\<lparr>s_ID = cr_session_id ev, s_NodeID = node_ID node, s_CreatedBy = cid,
          s_CreatedAt = cr_now ev, s_ReadyAt = None, s_ExitedAt = None,
          s_ProjectID = projectID, s_Provider = p_Provider params,
          s_Region = node_Region node, s_Name = cr_phrase ev,
          s_Status = UnweaveSessionStatusInitializing,
          s_SshKeyID = map_option sk_ID
            (find (\<lambda>k. sk_Name k = key_Name sshKey \<and> sk_OwnerID k = cid) (db_ssh_keys db1))\<rparr>]"
    by blast
  let ?row = "\<lparr>s_ID = cr_session_id ev, s_NodeID = node_ID node, s_CreatedBy = cid,
          s_CreatedAt = cr_now ev, s_ReadyAt = None, s_ExitedAt = None,
          s_ProjectID = projectID, s_Provider = p_Provider params,
          s_Region = node_Region node, s_Name = cr_phrase ev,
          s_Status = UnweaveSessionStatusInitializing,
          s_SshKeyID = map_option sk_ID
            (find (\<lambda>k. sk_Name k = key_Name sshKey \<and> sk_OwnerID k = cid) (db_ssh_keys db1))\<rparr>"
  from nsp_fetchCredentials [of "w_db w" "cr_cred ev" cid "p_SSHKeyName params"
      "p_SSHPublicKey params"] f
  have s1: "db_sessions db1 = db_sessions (w_db w)"
    by (simp add: no_session_persisted_def)
  from s have sid: "sess_ID s = cr_session_id ev" by simp
  from fresh sid s1 have "\<forall>x \<in> set (db_sessions db1). s_ID x \<noteq> cr_session_id ev"
    by (metis imageI)
  then have "find (\<lambda>r. s_ID r = cr_session_id ev) (db_sessions db1) = None"
    by (simp add: find_None_iff)
  then have fnd: "find (\<lambda>r. s_ID r = sess_ID s) (db_sessions (w_db w')) = Some ?row"
    unfolding rows sid by (simp add: find_append_miss)
  from g fnd have got: "sess_Provider got = s_Provider ?row" "sess_Region got = s_Region ?row"
    "sess_Status got = s_Status ?row" "sess_NodeTypeID got = s_NodeID ?row"
    by (auto simp add: SessionService_Get_def MxSessionGet_def split: option.splits)
  from i have p: "p_Provider params = LambdaLabsProvider"
    by (auto simp add: Initialize_def split: if_splits)
  note nd = InitNode_node [OF n]
  have "?row \<in> set (db_sessions (w_db w'))" unfolding rows by simp
  with got sid have ex: "\<exists>row \<in> set (db_sessions (w_db w')). s_ID row = sess_ID s \<and>
            sess_NodeTypeID got = s_NodeID row"
    by (intro bexI [of _ ?row]) simp_all
  from got s nd p ex show ?thesis
    by (simp add: StatusInitializing_def UnweaveSessionStatusInitializing_def)
qed

text \<open>
  Claim C3 fails on the code. A session is created for node type Y in region us-east with
  the LambdaLabs provider, and the provider launches instance i-1. \<open>Create\<close> returns the
  session with node type Y; \<open>Get\<close> of the new session's id returns the same provider,
  region and status, but its \<open>NodeTypeID\<close> is the id of the node, i-1: \<open>Get\<close> fills
  the field from \<open>dbs.NodeID\<close>.
\<close>

theorem Create_then_Get_node_type:
  "p_NodeTypeID example_params = ''Y'' \<and>
   fst (SessionService_Create example_create_env ''bob'' ''project-1'' example_params
          example_world) =
     Inr \<lparr>sess_ID = ''session-1'', sess_SSHKey = key_of_row bob_row,
          sess_Status = StatusInitializing, sess_CreatedAt = None, sess_NodeTypeID = ''Y'',
          sess_Region = ''us-east'', sess_Provider = LambdaLabsProvider\<rparr> \<and>
   fst (SessionService_Get None ''session-1''
          (w_db (snd (SessionService_Create example_create_env ''bob'' ''project-1''
             example_params example_world)))) =
     Inr \<lparr>sess_ID = ''session-1'', sess_SSHKey = key_of_row bob_row,
          sess_Status = StatusInitializing, sess_CreatedAt = Some 30, sess_NodeTypeID = ''i-1'',
          sess_Region = ''us-east'', sess_Provider = LambdaLabsProvider\<rparr>"
proof -
  let ?key = "key_of_row bob_row"
  let ?db1 = "called Q_SSHKeyGetByName bob_db"
  define c1 where "c1 = snd (registerCredentials (Ok ()) (Ok ()) (Ok []) ?key example_cloud)"
  let ?node = "\<lparr>node_ID = ''i-1'', node_TypeID = ''Y'', node_Region = ''us-east'',
     node_KeyPair = ?key, node_Status = StatusInitializing, node_Provider = LambdaLabsProvider\<rparr>"
  define c2 where "c2 = snd (InitNode example_node_env ?key ''Y'' (Some ''us-east'') c1)"
  let ?row = "\<lparr>s_ID = ''session-1'', s_NodeID = ''i-1'', s_CreatedBy = ''bob'',
     s_CreatedAt = 30, s_ReadyAt = None, s_ExitedAt = None, s_ProjectID = ''project-1'',
     s_Provider = LambdaLabsProvider, s_Region = ''us-east'', s_Name = ''warm-grey-tall-pine'',
     s_Status = UnweaveSessionStatusInitializing, s_SshKeyID = Some ''key-1''\<rparr>"
  let ?db2 = "called Q_SessionCreate (?db1\<lparr>db_sessions := [?row]\<rparr>)"
  have I: "Initialize example_init_env ''bob'' LambdaLabsProvider = Inr (LambdaLabsSession ''secret'')"
    by (simp add: Initialize_def NewSessionProvider_def example_init_env_def)
  have F: "fetchCredentials example_cred_env ''bob'' (Some ''deploy'') None bob_db =
      (Inr ?key, ?db1)"
    by (simp add: fetchCredentials_def fetchCredentials_byName_def SSHKeyGetByName_def
        example_cred_env_def bob_db_def bob_row_def)
  have "fst (registerCredentials (Ok ()) (Ok ()) (Ok []) ?key example_cloud) = None"
    by (simp add: registerCredentials_def ListSSHKeys_Ok example_cloud_def AddSSHKey_def
        key_of_row_def bob_row_def AddSSHKeyWithResponse_def ok_response_def sent_def Let_def)
  then have R: "registerCredentials (Ok ()) (Ok ()) (Ok []) ?key example_cloud = (None, c1)"
    unfolding c1_def by (metis prod.collapse)
  have "fst (InitNode example_node_env ?key ''Y'' (Some ''us-east'') c1) = Inr ?node"
    by (simp add: InitNode_def LaunchInstanceWithResponse_def ok_response_def
        example_node_env_def)
  then have N: "InitNode example_node_env ?key ''Y'' (Some ''us-east'') c1 = (Inr ?node, c2)"
    unfolding c2_def by (metis prod.collapse)
  have S: "SessionCreate None ''session-1'' 30
      \<lparr>sc_NodeID = ''i-1'', sc_CreatedBy = ''bob'', sc_ProjectID = ''project-1'',
        sc_Provider = LambdaLabsProvider, sc_Region = ''us-east'',
        sc_Name = ''warm-grey-tall-pine'', sc_SshKeyName = ''deploy''\<rparr> ?db1 =
      (Inr ''session-1'', ?db2)"
    by (simp add: SessionCreate_def bob_db_def bob_row_def called_def)
  have e: "cr_init example_create_env = example_init_env"
    "cr_cred example_create_env = example_cred_env"
    "cr_keys_reply example_create_env = Ok ()"
    "cr_add_keys_reply example_create_env = Ok ()"
    "cr_add_reply example_create_env = Ok []"
    "cr_node example_create_env = example_node_env"
    "cr_phrase example_create_env = ''warm-grey-tall-pine''"
    "cr_session_fault example_create_env = None"
    "cr_session_id example_create_env = ''session-1''"
    "cr_now example_create_env = 30"
    by (simp_all add: example_create_env_def)
  have p: "p_Provider example_params = LambdaLabsProvider" "p_NodeTypeID example_params = ''Y''"
    "p_Region example_params = Some ''us-east''" "p_SSHKeyName example_params = Some ''deploy''"
    "p_SSHPublicKey example_params = None"
    by (simp_all add: example_params_def)
  have w: "w_db example_world = bob_db" "w_cloud example_world = example_cloud"
    by (simp_all add: example_world_def)
  have kn: "key_Name ?key = ''deploy''"
    by (simp add: key_of_row_def bob_row_def)
  have C: "SessionService_Create example_create_env ''bob'' ''project-1'' example_params
          example_world =
     (Inr \<lparr>sess_ID = ''session-1'', sess_SSHKey = ?key,
          sess_Status = StatusInitializing, sess_CreatedAt = None, sess_NodeTypeID = ''Y'',
          sess_Region = ''us-east'', sess_Provider = LambdaLabsProvider\<rparr>,
      \<lparr>w_db = ?db2, w_cloud = c2\<rparr>)"
    by (simp add: SessionService_Create_def e p w I F R N S kn Let_def)
  have G: "fst (SessionService_Get None ''session-1'' ?db2) =
     Inr \<lparr>sess_ID = ''session-1'', sess_SSHKey = ?key,
          sess_Status = StatusInitializing, sess_CreatedAt = Some 30, sess_NodeTypeID = ''i-1'',
          sess_Region = ''us-east'', sess_Provider = LambdaLabsProvider\<rparr>"
    by (simp add: SessionService_Get_def MxSessionGet_def bob_db_def bob_row_def called_def
        key_of_row_def StatusInitializing_def UnweaveSessionStatusInitializing_def)
  from C G p(2) show ?thesis by simp
qed

section \<open>The session service: Terminate\<close>

text \<open>
  Claim C8. When \<open>Terminate\<close> has loaded the session, initialized its runtime and the
  provider-side \<open>TerminateNode\<close> has succeeded, it returns no error, whatever the
  outcome of the status write. When that write fails with \<open>e\<close>, the failure is logged
  as an error ("Failed to set session ... as terminated") and the session table is as it
  was: the record stays stale.
\<close>

theorem Terminate_ignores_update_failure:
  assumes "SessionGet (te_get_fault ev) sessionID (w_db w) = (Inr sess, db1)"
    and "Initialize (te_init ev) cid (s_Provider sess) = Inr rt"
    and "TerminateNode (te_terminate_reply ev) (s_NodeID sess) (w_cloud w) = (None, c1)"
  shows "fst (SessionService_Terminate ev cid sessionID w) = None \<and>
         (\<forall>e. te_update_fault ev = Some e \<longrightarrow>
            fst (snd (SessionService_Terminate ev cid sessionID w)) =
              [LogError (''Failed to set session '' @ quoted sessionID @ '' as terminated'') e] \<and>
            db_sessions (w_db (snd (snd (SessionService_Terminate ev cid sessionID w)))) =
              db_sessions (w_db w))"
proof -
  from assms(1) have s: "db_sessions db1 = db_sessions (w_db w)"
    by (auto simp add: SessionGet_def split: option.splits)
  show ?thesis
  proof (cases "te_update_fault ev")
    case None
    with assms show ?thesis
      by (simp add: SessionService_Terminate_def SessionStatusUpdate_def)
  next
    case (Some e)
    with assms s show ?thesis
      by (simp add: SessionService_Terminate_def SessionStatusUpdate_def)
  qed
qed

text \<open>
  A session whose node is terminated while the store refuses the status write.
\<close>

theorem Terminate_ignores_update_failure_witness:
  "te_update_fault failing_terminate_env = Some (Fault ''connection reset'') \<and>
   SessionService_Terminate failing_terminate_env ''bob'' ''session-1'' session_world =
     (None,
      [LogError (''Failed to set session '' @ quoted ''session-1'' @ '' as terminated'')
         (Fault ''connection reset'')],
      snd (snd (SessionService_Terminate failing_terminate_env ''bob'' ''session-1''
                  session_world))) \<and>
   db_sessions (w_db (snd (snd (SessionService_Terminate failing_terminate_env ''bob''
       ''session-1'' session_world)))) = [example_session_row] \<and>
   cloud_requests (w_cloud (snd (snd (SessionService_Terminate failing_terminate_env ''bob''
       ''session-1'' session_world)))) = [TerminateRequest [''i-1'']]"
proof -
  have g: "SessionGet (te_get_fault failing_terminate_env) ''session-1'' (w_db session_world) =
      (Inr example_session_row, called Q_SessionGet (w_db session_world))"
    by (simp add: SessionGet_def failing_terminate_env_def session_world_def
        example_session_row_def)
  have i: "Initialize (te_init failing_terminate_env) ''bob'' (s_Provider example_session_row) =
      Inr (LambdaLabsSession ''secret'')"
    by (simp add: Initialize_def NewSessionProvider_def failing_terminate_env_def
        example_init_env_def example_session_row_def)
  have t: "TerminateNode (te_terminate_reply failing_terminate_env)
        (s_NodeID example_session_row) (w_cloud session_world) =
      (None, sent (TerminateRequest [''i-1'']) example_cloud)"
    by (simp add: TerminateNode_def TerminateInstanceWithResponse_def ok_response_def
        failing_terminate_env_def example_session_row_def session_world_def)
  have f: "te_update_fault failing_terminate_env = Some (Fault ''connection reset'')"
    by (simp add: failing_terminate_env_def)
  from Terminate_ignores_update_failure [OF g i t] f
  have 1: "fst (SessionService_Terminate failing_terminate_env ''bob'' ''session-1''
      session_world) = None"
    and 2: "fst (snd (SessionService_Terminate failing_terminate_env ''bob'' ''session-1''
      session_world)) =
      [LogError (''Failed to set session '' @ quoted ''session-1'' @ '' as terminated'')
         (Fault ''connection reset'')]"
    and 3: "db_sessions (w_db (snd (snd (SessionService_Terminate failing_terminate_env ''bob''
       ''session-1'' session_world)))) = db_sessions (w_db session_world)"
    by blast+
  have 4: "cloud_requests (w_cloud (snd (snd (SessionService_Terminate failing_terminate_env
       ''bob'' ''session-1'' session_world)))) = [TerminateRequest [''i-1'']]"
    by (simp add: SessionService_Terminate_def g i t f SessionStatusUpdate_def sent_def
        example_cloud_def)
  have 5: "db_sessions (w_db session_world) = [example_session_row]"
    by (simp add: session_world_def)
  from 1 2 have "SessionService_Terminate failing_terminate_env ''bob'' ''session-1'' session_world =
     (None,
      [LogError (''Failed to set session '' @ quoted ''session-1'' @ '' as terminated'')
         (Fault ''connection reset'')],
      snd (snd (SessionService_Terminate failing_terminate_env ''bob'' ''session-1''
                  session_world)))"
    by (metis prod.collapse)
  with f 3 4 5 show ?thesis by simp
qed

section \<open>The session service: List\<close>

lemma List_loop_ids:
  "map sess_ID (List_loop toAPI listTerminated rows res) =
     map sess_ID res @
     map sgr_ID (filter (\<lambda>s. listTerminated \<or> sgr_Status s \<noteq> UnweaveSessionStatusTerminated)
                   rows)"
  by (induction rows arbitrary: res) auto

lemma SessionService_List_ids:
  assumes "SessionService_List toAPI fault projectID listTerminated db = (Inr res, db')"
  shows "map sess_ID res =
     map s_ID (filter (\<lambda>r. listTerminated \<or> s_Status r \<noteq> UnweaveSessionStatusTerminated)
       (take 100 (sort_key (\<lambda>r. - int (s_CreatedAt r))
          (filter (\<lambda>r. s_ProjectID r = projectID) (db_sessions db)))))"
proof (cases fault)
  case (Some e)
  with assms show ?thesis
    by (simp add: SessionService_List_def SessionsGet_def)
next
  case None
  with assms have "res = List_loop toAPI listTerminated
      (map (\<lambda>r. \<lparr>sgr_ID = s_ID r,
                  sgr_SshKeyName = map_option sk_Name
                     (find (\<lambda>k. Some (sk_ID k) = s_SshKeyID r) (db_ssh_keys db)),
                  sgr_Status = s_Status r\<rparr>)
         (take 100 (sort_key (\<lambda>r. - int (s_CreatedAt r))
            (filter (\<lambda>r. s_ProjectID r = projectID) (db_sessions db))))) []"
    by (auto simp add: SessionService_List_def SessionsGet_def)
  then show ?thesis
    by (simp add: List_loop_ids filter_map comp_def)
qed

lemma page_subset:
  "set (take 100 (sort_key (\<lambda>r. - int (s_CreatedAt r))
          (filter (\<lambda>r. s_ProjectID r = projectID) rows)))
   \<subseteq> {r \<in> set rows. s_ProjectID r = projectID}"
proof -
  have "set (take 100 (sort_key (\<lambda>r. - int (s_CreatedAt r))
          (filter (\<lambda>r. s_ProjectID r = projectID) rows)))
      \<subseteq> set (sort_key (\<lambda>r. - int (s_CreatedAt r))
          (filter (\<lambda>r. s_ProjectID r = projectID) rows))"
    by (rule set_take_subset)
  then show ?thesis by auto
qed

text \<open>
  Claim C9, amended. \<open>List\<close> reads one page of the project's sessions: the first 100
  in the order of \<open>SessionsGet\<close>, newest first. Without \<open>listTerminated\<close>, every
  session it returns is a persisted session of the project whose status is not
  terminated, and (session ids being distinct) no persisted session that is terminated is
  returned. With \<open>listTerminated\<close> it returns the sessions of that page, all of them,
  terminated or not, in the page's order.
\<close>

theorem List_filters_terminated:
  assumes "SessionService_List toAPI fault projectID listTerminated db = (Inr res, db')"
  shows "(\<not> listTerminated \<longrightarrow>
            (\<forall>s \<in> set res. \<exists>r \<in> set (db_sessions db).
                s_ID r = sess_ID s \<and> s_ProjectID r = projectID \<and>
                s_Status r \<noteq> UnweaveSessionStatusTerminated) \<and>
            (distinct (map s_ID (db_sessions db)) \<longrightarrow>
               (\<forall>r \<in> set (db_sessions db).
                   s_Status r = UnweaveSessionStatusTerminated \<longrightarrow>
                   s_ID r \<notin> sess_ID ` set res)))
       \<and> (listTerminated \<longrightarrow>
            map sess_ID res =
              map s_ID (take 100 (sort_key (\<lambda>r. - int (s_CreatedAt r))
                (filter (\<lambda>r. s_ProjectID r = projectID) (db_sessions db)))))"
proof -
  let ?page = "take 100 (sort_key (\<lambda>r. - int (s_CreatedAt r))
          (filter (\<lambda>r. s_ProjectID r = projectID) (db_sessions db)))"
  note ids = SessionService_List_ids [OF assms]
  have sub: "set ?page \<subseteq> {r \<in> set (db_sessions db). s_ProjectID r = projectID}"
    by (rule page_subset)
  have live: "\<not> listTerminated \<Longrightarrow> s \<in> set res \<Longrightarrow>
      \<exists>r \<in> set (db_sessions db). s_ID r = sess_ID s \<and> s_ProjectID r = projectID \<and>
          s_Status r \<noteq> UnweaveSessionStatusTerminated" for s
  proof -
    assume lt: "\<not> listTerminated" and s: "s \<in> set res"
    from s have "sess_ID s \<in> set (map sess_ID res)" by simp
    with ids lt have "sess_ID s \<in> s_ID ` {r \<in> set ?page.
        s_Status r \<noteq> UnweaveSessionStatusTerminated}"
      by simp
    then obtain r where "r \<in> set ?page" "s_Status r \<noteq> UnweaveSessionStatusTerminated"
      "s_ID r = sess_ID s" by auto
    with sub show ?thesis by blast
  qed
  show ?thesis
  proof (intro conjI impI ballI)
    fix s
    assume "\<not> listTerminated" "s \<in> set res"
    then show "\<exists>r \<in> set (db_sessions db). s_ID r = sess_ID s \<and> s_ProjectID r = projectID \<and>
          s_Status r \<noteq> UnweaveSessionStatusTerminated"
      by (rule live)
  next
    fix r
    assume lt: "\<not> listTerminated" and d: "distinct (map s_ID (db_sessions db))"
      and r: "r \<in> set (db_sessions db)" and t: "s_Status r = UnweaveSessionStatusTerminated"
    show "s_ID r \<notin> sess_ID ` set res"
    proof
      assume "s_ID r \<in> sess_ID ` set res"
      then obtain s where s: "s \<in> set res" "s_ID r = sess_ID s" by auto
      from live [OF lt s(1)] obtain r' where r': "r' \<in> set (db_sessions db)"
        "s_ID r' = sess_ID s" "s_Status r' \<noteq> UnweaveSessionStatusTerminated" by blast
      from d have "inj_on s_ID (set (db_sessions db))" by (simp add: distinct_map)
      with r r' s(2) have "r' = r" by (metis inj_onD)
      with r'(3) t show False by simp
    qed
  next
    assume "listTerminated"
    with ids show "map sess_ID res = map s_ID ?page" by simp
  qed
qed

lemma insort_key_last:
  "\<forall>y \<in> set ys. f y < f x \<Longrightarrow> insort_key f x ys = ys @ [x]"
  by (induction ys) auto

lemma sort_old_sessions:
  "k \<le> n \<Longrightarrow> sort_key (\<lambda>r. - int (s_CreatedAt r)) (map old_session [k..<n]) =
     map old_session (rev [k..<n])"
proof (induction k rule: inc_induct)
  case base
  show ?case by simp
next
  case (step k)
  have "\<forall>y \<in> set (map old_session (rev [Suc k..<n])).
          - int (s_CreatedAt y) < - int (s_CreatedAt (old_session k))"
    by (auto simp add: old_session_def)
  then have "insort_key (\<lambda>r. - int (s_CreatedAt r)) (old_session k)
      (map old_session (rev [Suc k..<n])) = map old_session (rev [Suc k..<n]) @ [old_session k]"
    by (rule insort_key_last)
  with step show ?case
    by (simp add: upt_conv_Cons)
qed

text \<open>
  Claim C9, as stated, fails in its second half. A project has 101 terminated sessions,
  created at times 0 to 100. With \<open>listTerminated\<close> the page holds the 100 newest, and
  the terminated session created at time 0 is not in the result.
\<close>

theorem List_page_counterexample:
  "old_session 0 \<in> set (db_sessions crowded_db) \<and>
   s_ProjectID (old_session 0) = ''project-1'' \<and>
   s_Status (old_session 0) = UnweaveSessionStatusTerminated \<and>
   (case fst (SessionService_List (\<lambda>s. s) None ''project-1'' True crowded_db) of
      Inl err \<Rightarrow> False
    | Inr res \<Rightarrow> s_ID (old_session 0) \<notin> set (map sess_ID res))"
proof -
  obtain res db' where r: "SessionService_List (\<lambda>s. s) None ''project-1'' True crowded_db =
      (Inr res, db')"
    by (simp add: SessionService_List_def SessionsGet_def)
  have f: "filter (\<lambda>r. s_ProjectID r = ''project-1'') (db_sessions crowded_db) =
      map old_session [0..<101]"
    by (simp add: crowded_db_def filter_map comp_def old_session_def)
  have t: "take 100 (rev [0..<101]) = rev [1..<101]"
    by (simp add: take_rev)
  from SessionService_List_ids [OF r]
  have "map sess_ID res = map s_ID (map old_session (take 100 (rev [0..<101])))"
    by (simp add: f sort_old_sessions take_map del: upt_Suc)
  then have "set (map sess_ID res) = (\<lambda>i. s_ID (old_session i)) ` {1..<101}"
    unfolding t by (simp add: image_image del: upt_Suc)
  moreover have "s_ID (old_session 0) \<notin> (\<lambda>i. s_ID (old_session i)) ` {1..<101}"
  proof
    assume "s_ID (old_session 0) \<in> (\<lambda>i. s_ID (old_session i)) ` {1..<101}"
    then obtain i where "i \<in> {1..<101}" "s_ID (old_session 0) = s_ID (old_session i)" by auto
    then have "length (s_ID (old_session 0)) = length (s_ID (old_session i))" by simp
    with \<open>i \<in> {1..<101}\<close> show False by (simp add: old_session_def)
  qed
  ultimately have "s_ID (old_session 0) \<notin> set (map sess_ID res)" by simp
  moreover have "old_session 0 \<in> set (db_sessions crowded_db)"
    by (simp add: crowded_db_def del: upt_Suc)
  ultimately show ?thesis
    using r by (simp add: old_session_def)
qed

text \<open>
  A project with a terminated and an active session.
\<close>

theorem List_filters_terminated_witness:
  "SessionService_List (\<lambda>s. s) None ''project-1'' False mixed_db =
     (Inr [summary ''session-1'' StatusActive], called Q_SessionsGet mixed_db) \<and>
   distinct (map s_ID (db_sessions mixed_db)) \<and>
   terminated_session_row \<in> set (db_sessions mixed_db) \<and>
   s_Status terminated_session_row = UnweaveSessionStatusTerminated \<and>
   s_ID terminated_session_row \<notin> sess_ID ` set [summary ''session-1'' StatusActive] \<and>
   SessionService_List (\<lambda>s. s) None ''project-1'' True mixed_db =
     (Inr [summary ''session-1'' StatusActive, summary ''session-0'' StatusTerminated],
      called Q_SessionsGet mixed_db) \<and>
   map sess_ID [summary ''session-1'' StatusActive, summary ''session-0'' StatusTerminated] =
     [''session-1'', ''session-0'']"
proof -
  have sorted: "sort_key (\<lambda>r. - int (s_CreatedAt r))
      (filter (\<lambda>r. s_ProjectID r = ''project-1'') (db_sessions mixed_db)) =
      [example_session_row, terminated_session_row]"
    by (simp add: mixed_db_def terminated_session_row_def example_session_row_def)
  have k: "db_ssh_keys mixed_db = [bob_row]"
    by (simp add: mixed_db_def)
  have 1: "SessionService_List (\<lambda>s. s) None ''project-1'' False mixed_db =
     (Inr [summary ''session-1'' StatusActive], called Q_SessionsGet mixed_db)"
    by (simp add: SessionService_List_def SessionsGet_def sorted k)
      (simp add: terminated_session_row_def example_session_row_def bob_row_def summary_def
        StatusActive_def UnweaveSessionStatusActive_def UnweaveSessionStatusTerminated_def)
  have 2: "SessionService_List (\<lambda>s. s) None ''project-1'' True mixed_db =
     (Inr [summary ''session-1'' StatusActive, summary ''session-0'' StatusTerminated],
      called Q_SessionsGet mixed_db)"
    by (simp add: SessionService_List_def SessionsGet_def sorted k)
      (simp add: terminated_session_row_def example_session_row_def bob_row_def summary_def
        StatusActive_def UnweaveSessionStatusActive_def UnweaveSessionStatusTerminated_def
        StatusTerminated_def)
  have d: "distinct (map s_ID (db_sessions mixed_db))"
    by (simp add: mixed_db_def terminated_session_row_def example_session_row_def)
  have m: "terminated_session_row \<in> set (db_sessions mixed_db)"
    by (simp add: mixed_db_def)
  have t: "s_Status terminated_session_row = UnweaveSessionStatusTerminated"
    by (simp add: terminated_session_row_def)
  from List_filters_terminated [OF 1] d m t
  have 3: "s_ID terminated_session_row \<notin> sess_ID ` set [summary ''session-1'' StatusActive]"
    by blast
  from List_filters_terminated [OF 2]
  have "map sess_ID [summary ''session-1'' StatusActive, summary ''session-0'' StatusTerminated] =
      map s_ID (take 100 (sort_key (\<lambda>r. - int (s_CreatedAt r))
         (filter (\<lambda>r. s_ProjectID r = ''project-1'') (db_sessions mixed_db))))"
    by blast
  then have 4: "map sess_ID [summary ''session-1'' StatusActive,
      summary ''session-0'' StatusTerminated] = [''session-1'', ''session-0'']"
    unfolding sorted by (simp add: terminated_session_row_def example_session_row_def)
  from 1 2 3 4 d m t show ?thesis by blast
qed

section \<open>The session service: the status watcher\<close>

lemma SessionStatusUpdate_calls:
  "db_calls (snd (SessionStatusUpdate fault arg db)) =
     db_calls db @ [Q_SessionStatusUpdate (su_ID arg) (su_Status arg)]"
  by (cases fault) (simp_all add: SessionStatusUpdate_def)

lemma SessionStatusUpdate_sessions:
  "db_sessions (snd (SessionStatusUpdate fault \<lparr>su_ID = sid, su_Status = s\<rparr> db)) =
     (if fault = None then with_status sid (db_sessions db) s else db_sessions db)"
  by (cases fault) (simp_all add: SessionStatusUpdate_def with_status_def)

lemma watch_loop_writes:
  "\<exists>ws. db_calls (snd (watch_loop sid outcome n feed logs db)) =
          db_calls db @ map (Q_SessionStatusUpdate sid) ws \<and>
        ws = take (length ws) (leading_statuses feed) \<and>
        (\<forall>i. Suc i < length ws \<longrightarrow> ws ! i \<noteq> StatusTerminated \<and> outcome (n + i) = None) \<and>
        (length ws < length (leading_statuses feed) \<longrightarrow>
           ws \<noteq> [] \<and> (last ws = StatusTerminated \<or> outcome (n + (length ws - 1)) \<noteq> None)) \<and>
        db_sessions (snd (watch_loop sid outcome n feed logs db)) =
          foldl (with_status sid) (db_sessions db)
            (if ws \<noteq> [] \<and> outcome (n + (length ws - 1)) \<noteq> None then butlast ws else ws)"
proof (induction feed arbitrary: n logs db)
  case Nil
  have "db_calls (snd (watch_loop sid outcome n [] logs db)) =
      db_calls db @ map (Q_SessionStatusUpdate sid) []"
    and "db_sessions (snd (watch_loop sid outcome n [] logs db)) =
      foldl (with_status sid) (db_sessions db) []" by simp_all
  then show ?case by fastforce
next
  case (Cons e feed)
  show ?case
  proof (cases e)
    case DoneEvent
    then have "db_calls (snd (watch_loop sid outcome n (e # feed) logs db)) =
      db_calls db @ map (Q_SessionStatusUpdate sid) []"
      and "db_sessions (snd (watch_loop sid outcome n (e # feed) logs db)) =
      foldl (with_status sid) (db_sessions db) []" by simp_all
    with DoneEvent show ?thesis by fastforce
  next
    case (ErrorEvent err)
    then have "db_calls (snd (watch_loop sid outcome n (e # feed) logs db)) =
      db_calls db @ map (Q_SessionStatusUpdate sid) []"
      and "db_sessions (snd (watch_loop sid outcome n (e # feed) logs db)) =
      foldl (with_status sid) (db_sessions db) []" by simp_all
    with ErrorEvent show ?thesis by fastforce
  next
    case (StatusEvent s)
    let ?arg = "\<lparr>su_ID = sid, su_Status = s\<rparr>"
    obtain r db1 where u: "SessionStatusUpdate (outcome n) ?arg db = (r, db1)"
      by force
    from SessionStatusUpdate_calls [of "outcome n" ?arg db] u
    have c1: "db_calls db1 = db_calls db @ [Q_SessionStatusUpdate sid s]" by simp
    from SessionStatusUpdate_sessions [of "outcome n" sid s db] u
    have s1: "db_sessions db1 =
        (if outcome n = None then with_status sid (db_sessions db) s else db_sessions db)"
      by simp
    have r: "r = outcome n"
      using u by (cases "outcome n") (simp_all add: SessionStatusUpdate_def)
    show ?thesis
    proof (cases "outcome n = None \<and> s \<noteq> StatusTerminated")
      case False
      then have "snd (watch_loop sid outcome n (e # feed) logs db) = db1"
        using StatusEvent u r by (cases "outcome n") auto
      with c1 have c: "db_calls (snd (watch_loop sid outcome n (e # feed) logs db)) =
          db_calls db @ map (Q_SessionStatusUpdate sid) [s]" by simp
      have p1: "[s] = take (length [s]) (leading_statuses (e # feed))"
        using StatusEvent by simp
      have p2: "\<forall>i. Suc i < length [s] \<longrightarrow> [s] ! i \<noteq> StatusTerminated \<and> outcome (n + i) = None"
        by simp
      have p3: "[s] \<noteq> [] \<and> (last [s] = StatusTerminated \<or> outcome (n + (length [s] - 1)) \<noteq> None)"
        using False by auto
      have p4: "db_sessions (snd (watch_loop sid outcome n (e # feed) logs db)) =
          foldl (with_status sid) (db_sessions db)
            (if [s] \<noteq> [] \<and> outcome (n + (length [s] - 1)) \<noteq> None then butlast [s] else [s])"
        using \<open>snd (watch_loop sid outcome n (e # feed) logs db) = db1\<close> s1 by simp
      from c p1 p2 p3 p4 show ?thesis by blast
    next
      case True
      then have w: "watch_loop sid outcome n (e # feed) logs db =
          watch_loop sid outcome (Suc n) feed (logs @ [LogInfo ''session status changed'']) db1"
        using StatusEvent u r by simp
      from Cons.IH [of "Suc n" "logs @ [LogInfo ''session status changed'']" db1]
      obtain ws where
        c: "db_calls (snd (watch_loop sid outcome (Suc n) feed
              (logs @ [LogInfo ''session status changed'']) db1)) =
            db_calls db1 @ map (Q_SessionStatusUpdate sid) ws"
        and q1: "ws = take (length ws) (leading_statuses feed)"
        and q2: "\<forall>i. Suc i < length ws \<longrightarrow>
                   ws ! i \<noteq> StatusTerminated \<and> outcome (Suc n + i) = None"
        and q3: "length ws < length (leading_statuses feed) \<longrightarrow>
           ws \<noteq> [] \<and> (last ws = StatusTerminated \<or> outcome (Suc n + (length ws - 1)) \<noteq> None)"
        and q4: "db_sessions (snd (watch_loop sid outcome (Suc n) feed
              (logs @ [LogInfo ''session status changed'']) db1)) =
          foldl (with_status sid) (db_sessions db1)
            (if ws \<noteq> [] \<and> outcome (Suc n + (length ws - 1)) \<noteq> None then butlast ws else ws)"
        by blast
      from c c1 w have c': "db_calls (snd (watch_loop sid outcome n (e # feed) logs db)) =
          db_calls db @ map (Q_SessionStatusUpdate sid) (s # ws)" by simp
      from q1 StatusEvent have p1: "s # ws = take (length (s # ws)) (leading_statuses (e # feed))"
        by simp
      have p2: "\<forall>i. Suc i < length (s # ws) \<longrightarrow>
                   (s # ws) ! i \<noteq> StatusTerminated \<and> outcome (n + i) = None"
      proof (intro allI impI)
        fix i
        assume i: "Suc i < length (s # ws)"
        show "(s # ws) ! i \<noteq> StatusTerminated \<and> outcome (n + i) = None"
        proof (cases i)
          case 0
          with True show ?thesis by simp
        next
          case (Suc j)
          with i have "Suc j < length ws" by simp
          with q2 have "ws ! j \<noteq> StatusTerminated \<and> outcome (Suc n + j) = None" by blast
          with Suc show ?thesis by simp
        qed
      qed
      have p3: "length (s # ws) < length (leading_statuses (e # feed)) \<longrightarrow>
           s # ws \<noteq> [] \<and> (last (s # ws) = StatusTerminated \<or>
              outcome (n + (length (s # ws) - 1)) \<noteq> None)"
      proof
        assume "length (s # ws) < length (leading_statuses (e # feed))"
        with StatusEvent have "length ws < length (leading_statuses feed)" by simp
        with q3 have ne: "ws \<noteq> []"
          and l: "last ws = StatusTerminated \<or> outcome (Suc n + (length ws - 1)) \<noteq> None"
          by blast+
        from ne have "Suc n + (length ws - 1) = n + (length (s # ws) - 1)"
          by (cases ws) simp_all
        with l have "last ws = StatusTerminated \<or>
              outcome (n + (length (s # ws) - 1)) \<noteq> None"
          by metis
        moreover from ne have "last (s # ws) = last ws" by simp
        ultimately show "s # ws \<noteq> [] \<and> (last (s # ws) = StatusTerminated \<or>
              outcome (n + (length (s # ws) - 1)) \<noteq> None)"
          by (metis list.distinct(1))
      qed
      have p4: "db_sessions (snd (watch_loop sid outcome n (e # feed) logs db)) =
          foldl (with_status sid) (db_sessions db)
            (if s # ws \<noteq> [] \<and> outcome (n + (length (s # ws) - 1)) \<noteq> None
             then butlast (s # ws) else s # ws)"
      proof (cases ws)
        case Nil
        with q4 w s1 True show ?thesis by simp
      next
        case (Cons x xs)
        then have "Suc n + (length ws - 1) = n + (length (s # ws) - 1)" by simp
        with q4 have "db_sessions (snd (watch_loop sid outcome (Suc n) feed
              (logs @ [LogInfo ''session status changed'']) db1)) =
          foldl (with_status sid) (db_sessions db1)
            (if outcome (n + (length (s # ws) - 1)) \<noteq> None then butlast ws else ws)"
          using Cons by simp
        with w s1 True Cons show ?thesis by simp
      qed
      from c' p1 p2 p3 p4 show ?thesis by blast
    qed
  qed
qed

text \<open>
  Claim C2. When \<open>Watch\<close> has started its watcher, the queries sent are the load of
  the session and then one status update per status in \<open>ws\<close>, where \<open>ws\<close> is an
  initial part of the statuses the feed delivers before any error or cancellation, in
  feed order. Every write but the last was of a status other than terminated and
  succeeded, so nothing is written after a terminated status or after a failed write;
  and the watcher stops short of the delivered statuses only when its last write was of
  the terminated status or failed. The session table ends with the statuses of the
  successful writes applied in order.
\<close>

theorem Watch_writes_in_feed_order:
  assumes "SessionService_Watch ev cid sid feed db = (None, logs, db')"
  shows "\<exists>ws. db_calls db' = db_calls db @ Q_SessionGet # map (Q_SessionStatusUpdate sid) ws \<and>
        ws = take (length ws) (leading_statuses feed) \<and>
        (\<forall>i. Suc i < length ws \<longrightarrow> ws ! i \<noteq> StatusTerminated \<and> we_outcome ev i = None) \<and>
        (length ws < length (leading_statuses feed) \<longrightarrow>
           ws \<noteq> [] \<and> (last ws = StatusTerminated \<or> we_outcome ev (length ws - 1) \<noteq> None)) \<and>
        db_sessions db' =
          foldl (with_status sid) (db_sessions db)
            (if ws \<noteq> [] \<and> we_outcome ev (length ws - 1) \<noteq> None then butlast ws else ws)"
proof -
  obtain r db1 where g: "SessionGet (we_get_fault ev) sid db = (r, db1)"
    by force
  from g have d1: "db_calls db1 = db_calls db @ [Q_SessionGet]"
    and s1: "db_sessions db1 = db_sessions db"
    by (auto simp add: SessionGet_def split: option.splits)
  from assms g obtain session where r: "r = Inr session"
    by (cases r) (auto simp add: SessionService_Watch_def split: if_splits)
  from assms g r obtain rt where i: "Initialize (we_init ev) cid (s_Provider session) = Inr rt"
    by (cases "Initialize (we_init ev) cid (s_Provider session)")
      (auto simp add: SessionService_Watch_def)
  from assms g r i have "db' = snd (watch_loop sid (we_outcome ev) 0 feed
      [LogInfo (''Starting to watch session '' @ sid)] db1)"
    by (auto simp add: SessionService_Watch_def split: prod.splits)
  with watch_loop_writes [of sid "we_outcome ev" 0 feed
      "[LogInfo (''Starting to watch session '' @ sid)]" db1] d1 s1
  show ?thesis by simp
qed

text \<open>
  The malformed feed initializing, active, terminated, active: the first three statuses
  are written and the session ends terminated.
\<close>

theorem Watch_writes_in_feed_order_witness:
  "db_calls (snd (snd (SessionService_Watch example_watch_env ''bob'' ''session-1''
       malformed_feed (w_db session_world)))) =
     [Q_SessionGet, Q_SessionStatusUpdate ''session-1'' StatusInitializing,
      Q_SessionStatusUpdate ''session-1'' StatusActive,
      Q_SessionStatusUpdate ''session-1'' StatusTerminated] \<and>
   leading_statuses malformed_feed =
     [StatusInitializing, StatusActive, StatusTerminated, StatusActive] \<and>
   map s_Status (db_sessions (snd (snd (SessionService_Watch example_watch_env ''bob''
       ''session-1'' malformed_feed (w_db session_world))))) = [StatusTerminated]"
proof -
  let ?db = "w_db session_world"
  define db' where "db' = snd (snd (SessionService_Watch example_watch_env ''bob'' ''session-1''
       malformed_feed ?db))"
  define logs where "logs = fst (snd (SessionService_Watch example_watch_env ''bob''
       ''session-1'' malformed_feed ?db))"
  have g: "SessionGet None ''session-1'' ?db = (Inr example_session_row, called Q_SessionGet ?db)"
    by (simp add: SessionGet_def session_world_def example_session_row_def)
  have i: "Initialize example_init_env ''bob'' (s_Provider example_session_row) =
      Inr (LambdaLabsSession ''secret'')"
    by (simp add: Initialize_def NewSessionProvider_def example_init_env_def
        example_session_row_def)
  have c0: "db_calls ?db = []" and s0: "db_sessions ?db = [example_session_row]"
    by (simp_all add: session_world_def)
  have "fst (SessionService_Watch example_watch_env ''bob'' ''session-1'' malformed_feed ?db)
      = None"
    by (simp add: SessionService_Watch_def example_watch_env_def g i split: prod.splits)
  then have r: "SessionService_Watch example_watch_env ''bob'' ''session-1'' malformed_feed ?db
      = (None, logs, db')"
    unfolding db'_def logs_def by (metis prod.collapse)
  have calls: "db_calls db' =
     [Q_SessionGet, Q_SessionStatusUpdate ''session-1'' StatusInitializing,
      Q_SessionStatusUpdate ''session-1'' StatusActive,
      Q_SessionStatusUpdate ''session-1'' StatusTerminated]"
    unfolding db'_def
    by (simp add: SessionService_Watch_def example_watch_env_def g i malformed_feed_def
        SessionStatusUpdate_def called_def c0 StatusInitializing_def StatusActive_def
        StatusTerminated_def)
  have lead: "leading_statuses malformed_feed =
     [StatusInitializing, StatusActive, StatusTerminated, StatusActive]"
    by (simp add: malformed_feed_def)
  from Watch_writes_in_feed_order [OF r] obtain ws where
    w1: "db_calls db' = db_calls ?db @ Q_SessionGet # map (Q_SessionStatusUpdate ''session-1'') ws"
    and w4: "db_sessions db' =
          foldl (with_status ''session-1'') (db_sessions ?db)
            (if ws \<noteq> [] \<and> we_outcome example_watch_env (length ws - 1) \<noteq> None
             then butlast ws else ws)"
    by blast
  from w1 calls c0 have "map (Q_SessionStatusUpdate ''session-1'') ws =
      map (Q_SessionStatusUpdate ''session-1'')
        [StatusInitializing, StatusActive, StatusTerminated]"
    by simp
  then have ws: "ws = [StatusInitializing, StatusActive, StatusTerminated]"
    by (simp add: inj_on_def map_eq_Cons_conv)
  from w4 have "db_sessions db' = foldl (with_status ''session-1'') [example_session_row]
      [StatusInitializing, StatusActive, StatusTerminated]"
    unfolding ws s0 by (simp add: example_watch_env_def)
  then have "map s_Status (db_sessions db') = [StatusTerminated]"
    by (simp add: with_status_def example_session_row_def)
  with calls lead show ?thesis
    unfolding db'_def by simp
qed

text \<open>
  The watcher on a feed with an error after the first status, and with a store that
  refuses the second write.
\<close>

lemma watch_loop_feed_error_example:
  "db_calls (snd (watch_loop ''session-1'' (\<lambda>n. None) 0
       [StatusEvent StatusInitializing, ErrorEvent (Fault ''stream closed''),
        StatusEvent StatusActive] [] (w_db session_world))) =
     [Q_SessionStatusUpdate ''session-1'' StatusInitializing]"
  by (simp add: SessionStatusUpdate_def called_def session_world_def StatusInitializing_def
      StatusTerminated_def)

lemma watch_loop_write_failure_example:
  "db_calls (snd (watch_loop ''session-1''
       (\<lambda>n. if n = 1 then Some (Fault ''connection reset'') else None) 0
       [StatusEvent StatusInitializing, StatusEvent StatusActive,
        StatusEvent StatusTerminated] [] (w_db session_world))) =
     [Q_SessionStatusUpdate ''session-1'' StatusInitializing,
      Q_SessionStatusUpdate ''session-1'' StatusActive]"
  by (simp add: SessionStatusUpdate_def called_def session_world_def StatusInitializing_def
      StatusTerminated_def StatusActive_def)

end
